theory Spec2Isabelle
  imports Complex_Main
begin

section \<open>Hourly dispatch simulator of the Spanish power system\<close>

text \<open>
  A shallow embedding of \<^verbatim>\<open>js/simulator.js\<close> (class \<^verbatim>\<open>SimuladorElectrico\<close>) and of the
  constant tables \<^verbatim>\<open>SEF.MODEL\<close>, \<^verbatim>\<open>SEF.TEMP_MENSUAL\<close> and \<^verbatim>\<open>SEF.PARAMS_DEFAULT\<close> it reads.

  The dispatch and its aggregates are modelled over the mathematical reals: \<^verbatim>\<open>Math.sin\<close>,
  \<^verbatim>\<open>Math.cos\<close>, \<^verbatim>\<open>Math.exp\<close>, \<^verbatim>\<open>Math.log\<close>, \<^verbatim>\<open>Math.sqrt\<close> and \<^verbatim>\<open>Math.pow\<close> (on a
  positive base) are \<^term>\<open>sin\<close>, \<^term>\<open>cos\<close>, \<^term>\<open>exp\<close>, \<^term>\<open>ln\<close>, \<^term>\<open>sqrt\<close> and \<^term>\<open>(powr)\<close>, and the
  rounding of IEEE doubles is outside the model. Where JavaScript would produce
  \<^verbatim>\<open>undefined\<close>, NaN or an infinity from an unguarded read or division of these values, the
  model returns \<^term>\<open>None\<close>.

  Price formation and the percentiles of the price series are modelled a second time over
  JavaScript numbers with their infinities and NaN (type \<open>numero\<close> below), because there
  finite parameters can overflow; the names of this second model end in \<open>_JS\<close>. The two
  models agree on inputs of moderate size.

  The generators are modelled twice as well: as seeds passed from call to call with the
  seed step computed over the reals, and as objects in a store, which is how the source
  has them, with the seed step a parameter, so that what is proved of the store model
  holds for the rounded step of the program as for the exact one.
\<close>

subsection \<open>Constant tables\<close>

definition HORAS_ANIO :: nat where "HORAS_ANIO = 8760"
definition LATITUD_ESPANA :: real where "LATITUD_ESPANA = 40.4"
definition FACTOR_CO2_GAS :: real where "FACTOR_CO2_GAS = 0.202"
definition EFICIENCIA_BAT :: real where "EFICIENCIA_BAT = 0.90"
definition EFICIENCIA_BOMBEO :: real where "EFICIENCIA_BOMBEO = 0.75"
definition FC_NUCLEAR :: real where "FC_NUCLEAR = 0.90"
definition AUTODESCARGA_BAT :: real where "AUTODESCARGA_BAT = 0.001"
definition RAMPA_CCGT :: real where "RAMPA_CCGT = 0.15"

definition TEMP_MENSUAL :: "real list" where
  "TEMP_MENSUAL = [6.3, 7.9, 11.2, 13.7, 17.6, 23.4, 27.0, 26.4, 21.8, 15.8, 10.1, 6.9]"

text \<open>The merged scenario parameters (\<^verbatim>\<open>this.params\<close>): one field per key of
  \<^verbatim>\<open>SEF.PARAMS_DEFAULT\<close>.\<close>

record params =
  nuclear :: real
  solar :: real
  eolica :: real
  hidraulica :: real
  ccgt :: real
  bateriasPotencia :: real
  bateriasCapacidad :: real
  bombeo :: real
  bombeoCapacidad :: real
  precioGas :: real
  precioCO2 :: real
  rendimientoCCGT :: real
  omCCGT :: real
  cargosSistema :: real
  perdidasRed :: real
  semilla :: real
  demandaAnual :: real
  hidraulicidad :: real
  anioObjetivo :: real
  crecimientoDemanda :: real
  electrificacionTWh :: real
  eficienciaDemanda :: real
  aplicarPlanNuclear :: bool
  cierreNuclear :: real
  flexibilidadGW :: real
  flexibilidadPct :: real
  interconexion :: real
  precioImport :: real
  precioExport :: real
  precioEscasez :: real

definition PARAMS_DEFAULT :: params where
  "PARAMS_DEFAULT = \<lparr>
     nuclear = 7, solar = 25, eolica = 31, hidraulica = 17, ccgt = 24,
     bateriasPotencia = 3, bateriasCapacidad = 10, bombeo = 3.5, bombeoCapacidad = 30,
     precioGas = 42, precioCO2 = 65, rendimientoCCGT = 0.55, omCCGT = 3,
     cargosSistema = 12, perdidasRed = 0.05, semilla = 42, demandaAnual = 260,
     hidraulicidad = 1, anioObjetivo = 2030, crecimientoDemanda = 0.6,
     electrificacionTWh = 2, eficienciaDemanda = 0.5, aplicarPlanNuclear = True,
     cierreNuclear = 2035, flexibilidadGW = 4, flexibilidadPct = 6, interconexion = 3,
     precioImport = 90, precioExport = 5, precioEscasez = 350 \<rparr>"

subsection \<open>Seeded generator\<close>

text \<open>\<^verbatim>\<open>SeededRNG\<close>: the object's only field is \<^verbatim>\<open>seed\<close>, so the generator is its seed and
  every method returns its value together with the advanced seed. Over the reals the
  stream is the exact iteration of \<open>seed \<mapsto> sin (seed \<times> 9301 + 49297) \<times> 49271\<close>; the doubles of
  the program follow it only for the first draws, since every step magnifies the rounding
  error. The properties of the dispatch below use of a draw only that it lies in [0, 1);
  the store model of the generators further down takes the seed step as a parameter.\<close>

definition SeededRNG_next :: "real \<Rightarrow> real \<times> real" where
  "SeededRNG_next seed =
     (let seed' = sin (seed * 9301 + 49297) * 49271
      in (seed' - of_int \<lfloor>seed'\<rfloor>, seed'))"

definition SeededRNG_gauss :: "real \<Rightarrow> real \<Rightarrow> real \<Rightarrow> real \<times> real" where
  "SeededRNG_gauss media sigma seed =
     (let (n1, seed1) = SeededRNG_next seed;
          u1 = max (1 / 10 ^ 10) n1;
          (u2, seed2) = SeededRNG_next seed1;
          z = sqrt (- 2 * ln u1) * cos (2 * pi * u2)
      in (media + sigma * z, seed2))"

subsection \<open>Solar geometry\<close>

text \<open>The sine of the solar elevation, as \<^verbatim>\<open>calcularSolar\<close> computes it from the day of the
  year and the hour of the day.\<close>

definition sinElev :: "nat \<Rightarrow> nat \<Rightarrow> real" where
  "sinElev dia hora =
     (let lat = LATITUD_ESPANA * pi / 180;
          decl = 23.45 * sin (2 * pi * (284 + real dia) / 365) * pi / 180;
          omega = (real hora - 12) * 15 * pi / 180
      in sin lat * sin decl + cos lat * cos decl * cos omega)"

definition calcularSolar :: "nat \<Rightarrow> nat \<Rightarrow> real \<Rightarrow> real" where
  "calcularSolar dia hora nubes =
     (if sinElev dia hora \<le> 0.01 then 0
      else let AM = 1 / max 0.05 (sinElev dia hora);
               transmitancia = 0.75 * (0.70 powr (AM powr 0.678));
               irradiancia = sinElev dia hora * transmitancia
           in max 0 (min 1 (irradiancia * nubes * 1.35)))"

subsection \<open>Horizon adjustment and hydro availability\<close>

text \<open>\<^verbatim>\<open>Math.pow\<close> on reals: 1 for the exponent 0 whatever the base, the real power for a
  non-negative base, the integer power for a negative base and an integer exponent. For a
  negative base and an exponent that is not an integer \<^verbatim>\<open>Math.pow\<close> is NaN, and for the
  base 0 and a negative exponent it is \<^verbatim>\<open>Infinity\<close>; a real expresses neither, and the
  value of the model there is not the program's.\<close>

definition Math_pow :: "real \<Rightarrow> real \<Rightarrow> real" where
  "Math_pow b e =
     (if e = 0 then 1
      else if 0 \<le> b then b powr e
      else if of_int \<lfloor>e\<rfloor> = e then b powi \<lfloor>e\<rfloor>
      else b powr e)"

definition calcularDemandaAjustada :: "params \<Rightarrow> real" where
  "calcularDemandaAjustada p =
     (let anioBase = 2026;
          years = max 0 (anioObjetivo p - anioBase);
          crec = Math_pow (1 + crecimientoDemanda p / 100) years;
          electr = electrificacionTWh p * years;
          efic = max 0.85 (1 - eficienciaDemanda p / 100)
      in max 180 (min 360 ((demandaAnual p * crec + electr) * efic)))"

definition calcularNuclearDisponible :: "params \<Rightarrow> real" where
  "calcularNuclearDisponible p =
     (if \<not> aplicarPlanNuclear p then nuclear p
      else let anioBase = 2026;
               cierre = max (anioBase + 1) (cierreNuclear p);
               years = max 0 (anioObjetivo p - anioBase);
               horizonte = max 1 (cierre - anioBase)
           in max 0 (nuclear p * max 0 (1 - years / horizonte)))"

definition mesDe :: "nat \<Rightarrow> nat" where
  "mesDe dia = nat \<lfloor>real dia / 30.5\<rfloor> mod 12"

definition calcularHidro :: "params \<Rightarrow> nat \<Rightarrow> real" where
  "calcularHidro p dia =
     (let mes = mesDe dia;
          baseEstacional = 0.28 + 0.28 * cos ((real mes - 4) * pi / 6)
      in max 0.08 (min 0.85 (baseEstacional * hidraulicidad p)))"

subsection \<open>Marginal price formation\<close>

record gen =
  gen_nuclear :: real
  gen_solar :: real
  gen_eolica :: real
  gen_hidraulica :: real
  gen_gas :: real
  gen_baterias :: real
  gen_bombeo :: real
  gen_vertido :: real
  gen_cargaBaterias :: real
  gen_cargaBombeo :: real
  gen_importacion :: real
  gen_exportacion :: real

record contexto =
  ctx_importacion :: real
  ctx_exportacion :: real
  ctx_deficit :: real

definition costeCCGT :: "params \<Rightarrow> real" where
  "costeCCGT p =
     (let calorEsp = 1 / max 0.45 (rendimientoCCGT p);
          costeComb = precioGas p * calorEsp;
          costeCO2 = (FACTOR_CO2_GAS / max 0.45 (rendimientoCCGT p)) * precioCO2 p
      in costeComb + costeCO2 + omCCGT p)"

text \<open>\<^verbatim>\<open>calcularPrecioMarginal\<close> over the reals, in three stages; the same function with the
  overflow of doubles is \<open>calcularPrecioMarginal_JS\<close> below. First the first-matching technology
  rule.\<close>

definition precioTecnologia :: "params \<Rightarrow> gen \<Rightarrow> real \<Rightarrow> real \<Rightarrow> real" where
  "precioTecnologia p g ratioRenovable gasAnterior =
     (let stressCCGT = min 1 (gen_gas g / max 0.5 (ccgt p));
          stressHidro = min 1 (gen_hidraulica g / max 0.5 (hidraulica p))
      in if ratioRenovable > 1.20 then
           (let exceso = ratioRenovable - 1 in max (- 20) (5 - exceso * 45))
         else if ratioRenovable > 1.05 then 5 + (1.2 - ratioRenovable) * 100
         else if gen_gas g > 0.3 then
           (let primaStress = 12 * (stressCCGT powr 1.5);
                deltGas = max 0 (gen_gas g - gasAnterior);
                primaRampa = (if deltGas > 1 then 3 * deltGas else 0)
            in costeCCGT p + primaStress + primaRampa)
         else if gen_hidraulica g > 0.5 then 25 + 25 * stressHidro
         else 6 + (1 - ratioRenovable) * 30)"

text \<open>The price after the import floor, the export cap, the scarcity floor and the
  regulated pass-through, before the final clamp.\<close>

definition precioRegulado ::
  "params \<Rightarrow> gen \<Rightarrow> real \<Rightarrow> real \<Rightarrow> contexto \<Rightarrow> real \<Rightarrow> real" where
  "precioRegulado p g demandaGW ratioRenovable ctx gasAnterior =
     (let precio0 = precioTecnologia p g ratioRenovable gasAnterior;
          precio1 = (if ctx_importacion ctx > 0 then
                       (let stressImport = min 1 (ctx_importacion ctx / max 0.5 (interconexion p))
                        in max precio0 (precioImport p * (0.85 + 0.3 * stressImport)))
                     else precio0);
          precio2 = (if ctx_exportacion ctx > 0 then min precio1 (precioExport p + 10)
                     else precio1);
          precio3 = (if ctx_deficit ctx > 0.3 then
                       (let deficitPct = ctx_deficit ctx / max 1 demandaGW
                        in max precio2 (precioEscasez p * min 1 (deficitPct * 4)))
                     else precio2)
      in precio3 * (1 + perdidasRed p) + cargosSistema p)"

definition calcularPrecioMarginal ::
  "params \<Rightarrow> gen \<Rightarrow> real \<Rightarrow> real \<Rightarrow> contexto \<Rightarrow> real \<Rightarrow> real" where
  "calcularPrecioMarginal p g demandaGW ratioRenovable ctx gasAnterior =
     min 500 (max (- 25) (precioRegulado p g demandaGW ratioRenovable ctx gasAnterior))"

subsection \<open>Percentiles\<close>

text \<open>A read of a numeric array at an index: \<^term>\<open>None\<close> outside the array, where
  JavaScript yields \<^verbatim>\<open>undefined\<close>.\<close>

definition leer :: "real list \<Rightarrow> int \<Rightarrow> real option" where
  "leer xs i = (if 0 \<le> i \<and> i < int (length xs) then Some (xs ! nat i) else None)"

text \<open>\<^verbatim>\<open>Float64Array.from(arr).sort()\<close> sorts numerically, ascending.\<close>

definition percentil :: "real list \<Rightarrow> real \<Rightarrow> real option" where
  "percentil arr p =
     (if arr = [] then Some 0
      else let sorted = sort arr;
               k = (real (length sorted) - 1) * (p / 100);
               f = \<lfloor>k\<rfloor>;
               c = \<lceil>k\<rceil>
           in if f = c then leer sorted f
              else (case (leer sorted f, leer sorted c) of
                      (Some sf, Some sc) \<Rightarrow> Some (sf + (sc - sf) * (k - of_int f))
                    | _ \<Rightarrow> None))"

subsection \<open>Wind and demand series\<close>

record bloque =
  inicio :: nat
  duracion :: nat
  intensidad :: real

text \<open>The \<^verbatim>\<open>while\<close> loop of \<^verbatim>\<open>generarSerieViento\<close> that cuts the year into synoptic
  blocks; it returns the blocks and the seed the generator is left with.\<close>

function generarBloques :: "nat \<Rightarrow> real \<Rightarrow> bloque list \<times> real" where
  "generarBloques h seed =
     (if h < HORAS_ANIO then
        (let r1 = SeededRNG_next seed;
             dur = nat \<lfloor>48 + fst r1 * 120\<rfloor>;
             r2 = SeededRNG_next (snd r1);
             resto = generarBloques (h + dur) (snd r2)
         in (\<lparr>inicio = h, duracion = dur, intensidad = fst r2\<rparr> # fst resto, snd resto))
      else ([], seed))"
  by pat_completeness auto
termination
proof (relation "measure (\<lambda>(h, seed). HORAS_ANIO - h)")
  show "wf (measure (\<lambda>(h, seed). HORAS_ANIO - h))"
    by simp
next
  fix h :: nat and seed :: real and r1 :: "real \<times> real" and dur :: nat and r2 :: "real \<times> real"
  assume less: "h < HORAS_ANIO" and r1: "r1 = SeededRNG_next seed"
    and dur: "dur = nat \<lfloor>48 + fst r1 * 120\<rfloor>"
  have "0 \<le> fst r1"
    by (simp add: r1 SeededRNG_next_def Let_def)
  then have "0 \<le> \<lfloor>fst r1 * 120\<rfloor>"
    by simp
  then have "0 < dur"
    unfolding dur by linarith
  with less show "((h + dur, snd r2), h, seed) \<in> measure (\<lambda>(h, seed). HORAS_ANIO - h)"
    by simp
qed

text \<open>The \<^verbatim>\<open>for\<close> loop of \<^verbatim>\<open>generarSerieViento\<close> over the hours, threading the
  autoregressive state and the generator.\<close>

fun vientoHoras :: "bloque list \<Rightarrow> nat list \<Rightarrow> real \<Rightarrow> real \<Rightarrow> real list" where
  "vientoHoras bloques [] estado seed = []"
| "vientoHoras bloques (i # resto) estado seed =
     (let dia = i div 24;
          hora = i mod 24;
          mes = \<lfloor>real dia / 30.5\<rfloor>;
          baseEstacional = 0.28 + 0.14 * cos ((of_int mes - 0.5) * pi / 6);
          sinoptico = (case find (\<lambda>b. i \<ge> inicio b \<and> i < inicio b + duracion b) bloques of
                         Some b \<Rightarrow> baseEstacional * (0.3 + intensidad b * 1.4)
                       | None \<Rightarrow> baseEstacional);
          diurno = 1 + 0.08 * sin ((real hora - 6) * pi / 12);
          alpha = 0.94;
          r = SeededRNG_gauss 0 0.06 seed;
          estado' = alpha * estado + (1 - alpha) * sinoptico + fst r
      in max 0.02 (min 0.92 (estado' * diurno)) # vientoHoras bloques resto estado' (snd r))"

definition generarSerieViento :: "real \<Rightarrow> real list" where
  "generarSerieViento seed =
     (let bl = generarBloques 0 seed
      in vientoHoras (fst bl) [0..<HORAS_ANIO] 0.30 (snd bl))"

fun demandaHoras :: "nat list \<Rightarrow> real \<Rightarrow> real list" where
  "demandaHoras [] seed = []"
| "demandaHoras (i # resto) seed =
     (let dia = i div 24;
          hora = i mod 24;
          mes = mesDe dia;
          diaSemana = dia mod 7;
          tempBase = TEMP_MENSUAL ! mes;
          varDiurna = 4.5 * sin ((real hora - 6) * pi / 12);
          r = SeededRNG_gauss 0 1.5 seed;
          temp = tempBase + varDiurna + fst r;
          factorTemp0 = (if temp < 15 then 1 + (15 - temp) * 0.013 else 1);
          factorTemp = (if temp > 25 then 1 + (temp - 25) * 0.018 else factorTemp0);
          picoManana = exp (- (((real hora - 10) / 2.8)\<^sup>2)) * 0.28;
          picoTarde = exp (- (((real hora - 20) / 2.5)\<^sup>2)) * 0.32;
          baseNocturna = 0.62;
          perfilHorario = baseNocturna + picoManana + picoTarde;
          factorLaboral = (if diaSemana < 5 then 1.04 else 0.87);
          n = SeededRNG_next (snd r);
          ruidoDemanda = 0.97 + fst n * 0.06
      in perfilHorario * factorLaboral * factorTemp * ruidoDemanda # demandaHoras resto (snd n))"

definition generarSerieDemanda :: "real \<Rightarrow> real list" where
  "generarSerieDemanda seed = demandaHoras [0..<HORAS_ANIO] seed"

subsection \<open>Hourly dispatch\<close>

text \<open>What one of the two branches of the hourly allocation leaves behind: the hour record,
  the two storage levels, and the values of the branch's local variables \<^verbatim>\<open>flexUp\<close>,
  \<^verbatim>\<open>flexDown\<close> and \<^verbatim>\<open>deficit\<close> (0 where the branch does not assign them).\<close>

record asignacion =
  a_gen :: gen
  a_estadoBateria :: real
  a_estadoBombeo :: real
  a_flexUp :: real
  a_flexDown :: real
  a_deficit :: real

text \<open>The guarded blocks of the allocation, each as the amount it moves; a block whose guard
  fails moves 0, which leaves the remaining surplus or deficit and the storage level as
  they were. \<open>tramo\<close> is the block shared by flexible demand, exports and imports
  (\<^verbatim>\<open>if (x > 0 && limite > 0) { const y = Math.min(x, limite); ... }\<close>), \<open>descarga\<close> the
  discharge of a store, \<open>cargaDeBombeo\<close> the pumped-storage charge and \<open>despachoGas\<close> the
  gas block with its ramp limit.\<close>

definition tramo :: "real \<Rightarrow> real \<Rightarrow> real" where
  "tramo restante limite = (if restante > 0 \<and> limite > 0 then min restante limite else 0)"

definition descarga :: "real \<Rightarrow> real \<Rightarrow> real \<Rightarrow> real" where
  "descarga potencia nivel deficit =
     (if deficit > 0 \<and> nivel > 0 then min potencia (min nivel deficit) else 0)"

definition cargaDeBombeo :: "params \<Rightarrow> real \<Rightarrow> real \<Rightarrow> real" where
  "cargaDeBombeo p excedente eBom =
     (if excedente > 0
      then (let espacioBombeo = bombeoCapacidad p - eBom
            in min excedente (min (bombeo p) (espacioBombeo / EFICIENCIA_BOMBEO)))
      else 0)"

definition despachoGas :: "params \<Rightarrow> real \<Rightarrow> real \<Rightarrow> real" where
  "despachoGas p deficit gasAnt =
     (if deficit > 0
      then (let maxRampa = ccgt p * RAMPA_CCGT + gasAnt
            in min deficit (min (ccgt p) maxRampa))
      else 0)"

text \<open>The branch \<^verbatim>\<open>excedente > 0\<close>: charge storage, raise flexible demand, export, curtail.\<close>

definition ramaExcedente ::
  "params \<Rightarrow> real \<Rightarrow> real \<Rightarrow> gen \<Rightarrow> real \<Rightarrow> real \<Rightarrow> asignacion" where
  "ramaExcedente p flexCapGW excedente g eBat eBom =
     (let espacioBat = bateriasCapacidad p - eBat;
          cargaBat = min excedente (min (bateriasPotencia p) (espacioBat / EFICIENCIA_BAT));
          exc1 = excedente - cargaBat;
          cargaBom = cargaDeBombeo p exc1 eBom;
          exc2 = exc1 - cargaBom;
          flexUp = tramo exc2 flexCapGW;
          exc3 = exc2 - flexUp;
          exp = tramo exc3 (interconexion p);
          exc4 = exc3 - exp
      in \<lparr> a_gen = g \<lparr> gen_cargaBaterias := cargaBat, gen_cargaBombeo := cargaBom,
                         gen_exportacion := exp, gen_vertido := max 0 exc4,
                         gen_hidraulica := 0, gen_gas := 0 \<rparr>,
           a_estadoBateria = eBat + cargaBat * EFICIENCIA_BAT,
           a_estadoBombeo = eBom + cargaBom * EFICIENCIA_BOMBEO,
           a_flexUp = flexUp, a_flexDown = 0, a_deficit = 0 \<rparr>)"

text \<open>The branch \<^verbatim>\<open>else\<close>: hydro, battery, pumped storage, flexible demand, imports and
  gas against the deficit; \<open>gasAnt\<close> is the previous hour's gas output.\<close>

definition ramaDeficit ::
  "params \<Rightarrow> real \<Rightarrow> real \<Rightarrow> real \<Rightarrow> real \<Rightarrow> gen \<Rightarrow> real \<Rightarrow> real \<Rightarrow> asignacion" where
  "ramaDeficit p flexCapGW deficit0 hidroDisp gasAnt g eBat eBom =
     (let hid = min hidroDisp deficit0;
          d1 = deficit0 - hid;
          descBat = descarga (bateriasPotencia p) eBat d1;
          d2 = d1 - descBat;
          descBombeo = descarga (bombeo p) eBom d2;
          d3 = d2 - descBombeo;
          flexDown = tramo d3 flexCapGW;
          d4 = d3 - flexDown;
          imp = tramo d4 (interconexion p);
          d5 = d4 - imp;
          gas = despachoGas p d5 gasAnt;
          d6 = d5 - gas
      in \<lparr> a_gen = g \<lparr> gen_hidraulica := hid, gen_baterias := descBat,
                         gen_bombeo := descBombeo, gen_importacion := imp, gen_gas := gas \<rparr>,
           a_estadoBateria = eBat - descBat, a_estadoBombeo = eBom - descBombeo,
           a_flexUp = 0, a_flexDown = flexDown, a_deficit = d6 \<rparr>)"

text \<open>The counters and sums the loop keeps in the object \<^verbatim>\<open>R\<close>, with the two running sums
  \<^verbatim>\<open>demandaTotalGWh\<close> and \<^verbatim>\<open>precioPonderadoSum\<close>.\<close>

record acumuladores =
  consumoGasTWh :: real
  vertidosTWh :: real
  horasGas :: nat
  horasVertido :: nat
  horasDeficit :: nat
  maxDeficit :: real
  emisionesAnuales :: real
  horasBombeoActivo :: nat
  horasPrecioNegativo :: nat
  horasPrecioAlto :: nat
  importacionesTWh :: real
  exportacionesTWh :: real
  demandaFlexTWh :: real
  demandaReducidaTWh :: real
  horasImportacion :: nat
  horasExportacion :: nat
  horasFlex :: nat
  demandaTotalGWh :: real
  precioPonderadoSum :: real

definition acumuladores0 :: acumuladores where
  "acumuladores0 = \<lparr> consumoGasTWh = 0, vertidosTWh = 0, horasGas = 0, horasVertido = 0,
     horasDeficit = 0, maxDeficit = 0, emisionesAnuales = 0, horasBombeoActivo = 0,
     horasPrecioNegativo = 0, horasPrecioAlto = 0, importacionesTWh = 0,
     exportacionesTWh = 0, demandaFlexTWh = 0, demandaReducidaTWh = 0,
     horasImportacion = 0, horasExportacion = 0, horasFlex = 0,
     demandaTotalGWh = 0, precioPonderadoSum = 0 \<rparr>"

definition contar :: "bool \<Rightarrow> nat \<Rightarrow> nat" where
  "contar b n = (if b then Suc n else n)"

text \<open>All updates of one hour to the counters: the thresholds are those of the loop body,
  and an update the body skips adds 0 here.\<close>

definition acumular ::
  "params \<Rightarrow> asignacion \<Rightarrow> real \<Rightarrow> real \<Rightarrow> acumuladores \<Rightarrow> acumuladores" where
  "acumular p a demandaGW precio r =
     (let g = a_gen a
      in \<lparr> consumoGasTWh = consumoGasTWh r + gen_gas g / 1000,
           vertidosTWh = vertidosTWh r + gen_vertido g / 1000,
           horasGas = contar (gen_gas g > 0.3) (horasGas r),
           horasVertido = contar (gen_vertido g > 0.3) (horasVertido r),
           horasDeficit = contar (a_deficit a > 0.3) (horasDeficit r),
           maxDeficit = (if a_deficit a > 0.3 then max (maxDeficit r) (a_deficit a)
                         else maxDeficit r),
           emisionesAnuales = emisionesAnuales r +
             gen_gas g * (FACTOR_CO2_GAS / max 0.45 (rendimientoCCGT p)) / 1000,
           horasBombeoActivo = contar (gen_cargaBombeo g > 0.3) (horasBombeoActivo r),
           horasPrecioNegativo = contar (precio < 0) (horasPrecioNegativo r),
           horasPrecioAlto = contar (precio > 150) (horasPrecioAlto r),
           importacionesTWh = importacionesTWh r + gen_importacion g / 1000,
           exportacionesTWh = exportacionesTWh r + gen_exportacion g / 1000,
           demandaFlexTWh = demandaFlexTWh r + a_flexUp a / 1000,
           demandaReducidaTWh = demandaReducidaTWh r + a_flexDown a / 1000,
           horasImportacion = contar (gen_importacion g > 0.2) (horasImportacion r),
           horasExportacion = contar (gen_exportacion g > 0.2) (horasExportacion r),
           horasFlex = contar (a_flexUp a > 0.2 \<or> a_flexDown a > 0.2) (horasFlex r),
           demandaTotalGWh = demandaTotalGWh r + demandaGW,
           precioPonderadoSum = precioPonderadoSum r + precio * demandaGW \<rparr>)"

text \<open>The variables the loop carries from one hour to the next.\<close>

record estado =
  estadoBateria :: real
  estadoBombeo :: real
  gasAnterior :: real
  rngMeteo :: real
  R :: acumuladores

text \<open>What one hour writes to the arrays \<^verbatim>\<open>mix\<close>, \<^verbatim>\<open>precios\<close> and \<^verbatim>\<open>demandaHorariaGW\<close>,
  together with the hour's local values that the arrays do not keep: the base
  generation, the flexible-demand flows, the unserved deficit, the deficit handed to
  price formation, the ramp reference read, and the storage levels before and after the
  battery's self-discharge.\<close>

record traza =
  t_gen :: gen
  t_precio :: real
  t_demandaGW :: real
  t_genBase :: real
  t_flexUp :: real
  t_flexDown :: real
  t_deficit :: real
  t_ctxDeficit :: real
  t_gasAnterior :: real
  t_bateriaAsignada :: real
  t_estadoBateria :: real
  t_estadoBombeo :: real

definition genInicial :: "real \<Rightarrow> real \<Rightarrow> real \<Rightarrow> gen" where
  "genInicial nuc sol eol =
     \<lparr> gen_nuclear = nuc, gen_solar = sol, gen_eolica = eol, gen_hidraulica = 0,
       gen_gas = 0, gen_baterias = 0, gen_bombeo = 0, gen_vertido = 0,
       gen_cargaBaterias = 0, gen_cargaBombeo = 0, gen_importacion = 0,
       gen_exportacion = 0 \<rparr>"

text \<open>The \<^verbatim>\<open>if (excedente > 0) ... else ...\<close> of the loop body: \<open>g0\<close> is the hour record
  with nuclear, solar and wind filled in, \<open>hidroDisp\<close> the dispatchable hydro of the hour.\<close>

definition asignar ::
  "params \<Rightarrow> real \<Rightarrow> real \<Rightarrow> gen \<Rightarrow> real \<Rightarrow> real \<Rightarrow> real \<Rightarrow> real \<Rightarrow> asignacion" where
  "asignar p flexCapGW demandaGW g0 hidroDisp gasAnt eBat eBom =
     (let genBase = gen_nuclear g0 + gen_solar g0 + gen_eolica g0;
          excedente = genBase - demandaGW
      in if excedente > 0 then ramaExcedente p flexCapGW excedente g0 eBat eBom
         else ramaDeficit p flexCapGW (- excedente) hidroDisp gasAnt g0 eBat eBom)"

text \<open>The context object handed to price formation.\<close>

definition contextoPrecio :: "real \<Rightarrow> real \<Rightarrow> gen \<Rightarrow> contexto" where
  "contextoPrecio demandaGW genBase g =
     \<lparr> ctx_importacion = gen_importacion g, ctx_exportacion = gen_exportacion g,
       ctx_deficit = max 0 (demandaGW - genBase - gen_hidraulica g - gen_baterias g
                            - gen_bombeo g - gen_gas g - gen_importacion g) \<rparr>"

text \<open>The body of the hourly loop of \<^verbatim>\<open>simular\<close> at hour \<open>h\<close>; \<open>sd\<close> and \<open>sv\<close> are
  \<^verbatim>\<open>serieDemanda[h]\<close> and \<^verbatim>\<open>serieViento[h]\<close>.\<close>

definition pasoHora ::
  "params \<Rightarrow> real \<Rightarrow> real \<Rightarrow> real \<Rightarrow> real \<Rightarrow> nat \<Rightarrow> estado \<Rightarrow> estado \<times> traza" where
  "pasoHora p nuclearGW demandaMediaGW sd sv h st =
     (let dia = h div 24;
          hora = h mod 24;
          demandaGW = demandaMediaGW * sd;
          flexCapGW = min (flexibilidadGW p) (demandaGW * (flexibilidadPct p / 100));
          n = SeededRNG_next (rngMeteo st);
          nubes = 0.65 + fst n * 0.35;
          g0 = genInicial (nuclearGW * FC_NUCLEAR) (solar p * calcularSolar dia hora nubes)
                 (eolica p * sv);
          genBase = gen_nuclear g0 + gen_solar g0 + gen_eolica g0;
          a = asignar p flexCapGW demandaGW g0 (hidraulica p * calcularHidro p dia)
                (gasAnterior st) (estadoBateria st) (estadoBombeo st);
          g = a_gen a;
          eBat = a_estadoBateria a * (1 - AUTODESCARGA_BAT);
          ratioRen = (if demandaGW > 0 then genBase / demandaGW else 0);
          ctx = contextoPrecio demandaGW genBase g;
          precio = calcularPrecioMarginal p g demandaGW ratioRen ctx (gasAnterior st)
      in (\<lparr> estadoBateria = eBat, estadoBombeo = a_estadoBombeo a, gasAnterior = gen_gas g,
            rngMeteo = snd n, R = acumular p a demandaGW precio (R st) \<rparr>,
          \<lparr> t_gen = g, t_precio = precio, t_demandaGW = demandaGW, t_genBase = genBase,
            t_flexUp = a_flexUp a, t_flexDown = a_flexDown a, t_deficit = a_deficit a,
            t_ctxDeficit = ctx_deficit ctx, t_gasAnterior = gasAnterior st,
            t_bateriaAsignada = a_estadoBateria a, t_estadoBateria = eBat,
            t_estadoBombeo = a_estadoBombeo a \<rparr>))"

fun bucleHorario ::
  "params \<Rightarrow> real \<Rightarrow> real \<Rightarrow> real list \<Rightarrow> real list \<Rightarrow> nat list \<Rightarrow> estado
     \<Rightarrow> traza list \<times> estado" where
  "bucleHorario p nuclearGW demandaMediaGW serieDemanda serieViento [] st = ([], st)"
| "bucleHorario p nuclearGW demandaMediaGW serieDemanda serieViento (h # hs) st =
     (let paso = pasoHora p nuclearGW demandaMediaGW (serieDemanda ! h) (serieViento ! h) h st;
          resto = bucleHorario p nuclearGW demandaMediaGW serieDemanda serieViento hs (fst paso)
      in (snd paso # fst resto, snd resto))"

definition estadoInicial :: "params \<Rightarrow> estado" where
  "estadoInicial p =
     \<lparr> estadoBateria = bateriasCapacidad p * 0.5, estadoBombeo = bombeoCapacidad p * 0.5,
       gasAnterior = 0, rngMeteo = semilla p * 11 + 37, R = acumuladores0 \<rparr>"

text \<open>The hourly loop of \<^verbatim>\<open>simular\<close> with everything it is started from: the adjusted
  demand and nuclear capacity, the two series and their seeds, the initial state.\<close>

definition ejecutarBucle :: "params \<Rightarrow> traza list \<times> estado" where
  "ejecutarBucle p =
     (let demandaAnualTWh = calcularDemandaAjustada p;
          demandaMediaGW = demandaAnualTWh * 1000 / real HORAS_ANIO;
          nuclearGW = calcularNuclearDisponible p;
          serieViento = generarSerieViento (semilla p * 7 + 13);
          serieDemanda = generarSerieDemanda (semilla p * 3 + 7)
      in bucleHorario p nuclearGW demandaMediaGW serieDemanda serieViento [0..<HORAS_ANIO]
           (estadoInicial p))"

definition trazas :: "params \<Rightarrow> traza list" where
  "trazas p = fst (ejecutarBucle p)"

subsection \<open>Aggregation\<close>

record resumenMes =
  m_nuclear :: real
  m_solar :: real
  m_eolica :: real
  m_hidraulica :: real
  m_gas :: real
  m_baterias :: real
  m_vertido :: real
  m_importacion :: real
  m_exportacion :: real
  m_demanda :: real
  m_precio :: real
  m_horas :: nat
  m_precioMedio :: real

definition resumenMes0 :: resumenMes where
  "resumenMes0 = \<lparr> m_nuclear = 0, m_solar = 0, m_eolica = 0, m_hidraulica = 0, m_gas = 0,
     m_baterias = 0, m_vertido = 0, m_importacion = 0, m_exportacion = 0, m_demanda = 0,
     m_precio = 0, m_horas = 0, m_precioMedio = 0 \<rparr>"

definition sumarHora :: "resumenMes \<Rightarrow> gen \<Rightarrow> real \<Rightarrow> real \<Rightarrow> resumenMes" where
  "sumarHora m g precio demanda =
     m \<lparr> m_nuclear := m_nuclear m + gen_nuclear g,
         m_solar := m_solar m + gen_solar g,
         m_eolica := m_eolica m + gen_eolica g,
         m_hidraulica := m_hidraulica m + gen_hidraulica g,
         m_gas := m_gas m + gen_gas g,
         m_baterias := m_baterias m + (gen_baterias g + gen_bombeo g),
         m_vertido := m_vertido m + gen_vertido g,
         m_importacion := m_importacion m + gen_importacion g,
         m_exportacion := m_exportacion m + gen_exportacion g,
         m_demanda := m_demanda m + demanda,
         m_precio := m_precio m + precio,
         m_horas := Suc (m_horas m) \<rparr>"

definition convertirMes :: "resumenMes \<Rightarrow> resumenMes" where
  "convertirMes m =
     m \<lparr> m_nuclear := m_nuclear m / 1000,
         m_solar := m_solar m / 1000,
         m_eolica := m_eolica m / 1000,
         m_hidraulica := m_hidraulica m / 1000,
         m_gas := m_gas m / 1000,
         m_baterias := m_baterias m / 1000,
         m_vertido := m_vertido m / 1000,
         m_importacion := m_importacion m / 1000,
         m_exportacion := m_exportacion m / 1000,
         m_demanda := m_demanda m / 1000,
         m_precioMedio := (if m_horas m > 0 then m_precio m / real (m_horas m) else 0) \<rparr>"

text \<open>The first loop of \<^verbatim>\<open>_calcularResumenMensual\<close>: every hour is added to the bucket of
  its month.\<close>

fun sumarHoras ::
  "gen list \<Rightarrow> real list \<Rightarrow> real list \<Rightarrow> nat list \<Rightarrow> resumenMes list \<Rightarrow> resumenMes list" where
  "sumarHoras mix precios demanda [] mensual = mensual"
| "sumarHoras mix precios demanda (h # hs) mensual =
     (let mes = mesDe (h div 24)
      in sumarHoras mix precios demanda hs
           (mensual [mes := sumarHora (mensual ! mes) (mix ! h) (precios ! h) (demanda ! h)]))"

definition calcularResumenMensual ::
  "gen list \<Rightarrow> real list \<Rightarrow> real list \<Rightarrow> resumenMes list" where
  "calcularResumenMensual mix precios demanda =
     map convertirMes (sumarHoras mix precios demanda [0..<HORAS_ANIO] (replicate 12 resumenMes0))"

text \<open>A quotient that the source does not guard: \<^term>\<open>None\<close> where the divisor is 0.\<close>

definition cociente :: "real \<Rightarrow> real \<Rightarrow> real option" where
  "cociente a b = (if b = 0 then None else Some (a / b))"

record resultados =
  contadores :: acumuladores
  demandaAjustadaTWh :: real
  nuclearEfectivaGW :: real
  precioMedio :: real
  precioMedioPonderado :: real
  precioP10 :: "real option"
  precioMediana :: "real option"
  precioP90 :: "real option"
  precioMin :: "real option"
  precioMax :: "real option"
  coberturaRenovable :: "real option"
  dependenciaGas :: "real option"
  vertidosPct :: real
  mensual :: "resumenMes list"
  mix :: "gen list"
  precios :: "real list"
  demandaHoraria :: "real list"

text \<open>The aggregation that follows the loop in \<^verbatim>\<open>simular\<close>, from the hour records and the
  final state of the loop.\<close>

definition agregar :: "params \<Rightarrow> traza list \<times> estado \<Rightarrow> resultados" where
  "agregar p bucle =
     (let r = R (snd bucle);
          mixH = map t_gen (fst bucle);
          precioArr = map t_precio (fst bucle);
          demandaHorariaGW = map t_demandaGW (fst bucle);
          pMedio = sum_list precioArr / real HORAS_ANIO;
          genTotal = foldl (\<lambda>s g. s + gen_nuclear g + gen_solar g + gen_eolica g
                              + gen_hidraulica g + gen_gas g + gen_baterias g + gen_bombeo g
                              + gen_importacion g) 0 mixH;
          genRenovable = foldl (\<lambda>s g. s + gen_solar g + gen_eolica g + gen_hidraulica g) 0 mixH;
          genGas = foldl (\<lambda>s g. s + gen_gas g) 0 mixH;
          genVRE = foldl (\<lambda>s g. s + gen_solar g + gen_eolica g) 0 mixH
      in \<lparr> contadores = r,
           demandaAjustadaTWh = calcularDemandaAjustada p,
           nuclearEfectivaGW = calcularNuclearDisponible p,
           precioMedio = pMedio,
           precioMedioPonderado = (if demandaTotalGWh r > 0
                                   then precioPonderadoSum r / demandaTotalGWh r else pMedio),
           precioP10 = percentil precioArr 10,
           precioMediana = percentil precioArr 50,
           precioP90 = percentil precioArr 90,
           precioMin = (if precioArr = [] then None else Some (Min (set precioArr))),
           precioMax = (if precioArr = [] then None else Some (Max (set precioArr))),
           coberturaRenovable = map_option (\<lambda>q. q * 100) (cociente genRenovable genTotal),
           dependenciaGas = map_option (\<lambda>q. q * 100) (cociente genGas genTotal),
           vertidosPct = (if genVRE > 0 then (vertidosTWh r * 1000 / genVRE) * 100 else 0),
           mensual = calcularResumenMensual mixH precioArr demandaHorariaGW,
           mix = mixH,
           precios = precioArr,
           demandaHoraria = demandaHorariaGW \<rparr>)"

definition simular :: "params \<Rightarrow> resultados" where
  "simular p = agregar p (ejecutarBucle p)"

subsection \<open>JavaScript numbers: overflow and NaN\<close>

text \<open>Price formation multiplies and adds its parameters without a bound on their size, so
  for finite parameters an intermediate result can leave the range of doubles: it becomes
  \<^verbatim>\<open>Infinity\<close>, and \<^verbatim>\<open>Infinity * 0\<close> or \<^verbatim>\<open>Infinity - Infinity\<close> is NaN, which
  \<^verbatim>\<open>Math.min\<close> and \<^verbatim>\<open>Math.max\<close> hand on. \<open>numero\<close> is a JavaScript number with these
  values: a finite value, one of the two infinities, or NaN. Rounding inside the finite
  range and the sign of a zero are not modelled.\<close>

datatype numero = Num real | MasInf | MenosInf | NaN

text \<open>An exact result at or beyond 2^1024 - 2^970 in magnitude, half an ulp above the
  largest double, rounds to an infinity.\<close>

definition UMBRAL_DESBORDE :: real where
  "UMBRAL_DESBORDE = 2 ^ 1024 - 2 ^ 970"

definition redondear :: "real \<Rightarrow> numero" where
  "redondear x =
     (if UMBRAL_DESBORDE \<le> x then MasInf
      else if x \<le> - UMBRAL_DESBORDE then MenosInf
      else Num x)"

text \<open>The operators \<^verbatim>\<open>+\<close>, unary and binary \<^verbatim>\<open>-\<close>, \<^verbatim>\<open>*\<close>, \<^verbatim>\<open>/\<close>, \<^verbatim>\<open><\<close> and \<^verbatim>\<open><=\<close> of
  JavaScript on these values; a comparison with NaN is false, and a zero divisor is taken
  as +0.\<close>

instantiation numero :: "{plus, minus, uminus, times, inverse, ord}"
begin

fun plus_numero :: "numero \<Rightarrow> numero \<Rightarrow> numero" where
  "plus_numero (Num a) (Num b) = redondear (a + b)"
| "plus_numero (Num a) MasInf = MasInf"
| "plus_numero (Num a) MenosInf = MenosInf"
| "plus_numero MasInf (Num b) = MasInf"
| "plus_numero MasInf MasInf = MasInf"
| "plus_numero MenosInf (Num b) = MenosInf"
| "plus_numero MenosInf MenosInf = MenosInf"
| "plus_numero _ _ = NaN"

fun uminus_numero :: "numero \<Rightarrow> numero" where
  "uminus_numero (Num a) = Num (- a)"
| "uminus_numero MasInf = MenosInf"
| "uminus_numero MenosInf = MasInf"
| "uminus_numero NaN = NaN"

definition minus_numero :: "numero \<Rightarrow> numero \<Rightarrow> numero" where
  "minus_numero x y = (x::numero) + (- y)"

fun times_numero :: "numero \<Rightarrow> numero \<Rightarrow> numero" where
  "times_numero (Num a) (Num b) = redondear (a * b)"
| "times_numero (Num a) MasInf = (if a = 0 then NaN else if 0 < a then MasInf else MenosInf)"
| "times_numero (Num a) MenosInf = (if a = 0 then NaN else if 0 < a then MenosInf else MasInf)"
| "times_numero MasInf (Num b) = (if b = 0 then NaN else if 0 < b then MasInf else MenosInf)"
| "times_numero MenosInf (Num b) = (if b = 0 then NaN else if 0 < b then MenosInf else MasInf)"
| "times_numero MasInf MasInf = MasInf"
| "times_numero MasInf MenosInf = MenosInf"
| "times_numero MenosInf MasInf = MenosInf"
| "times_numero MenosInf MenosInf = MasInf"
| "times_numero _ _ = NaN"

fun divide_numero :: "numero \<Rightarrow> numero \<Rightarrow> numero" where
  "divide_numero (Num a) (Num b) =
     (if b = 0 then (if a = 0 then NaN else if 0 < a then MasInf else MenosInf)
      else redondear (a / b))"
| "divide_numero (Num a) MasInf = Num 0"
| "divide_numero (Num a) MenosInf = Num 0"
| "divide_numero MasInf (Num b) = (if 0 \<le> b then MasInf else MenosInf)"
| "divide_numero MenosInf (Num b) = (if 0 \<le> b then MenosInf else MasInf)"
| "divide_numero _ _ = NaN"

definition inverse_numero :: "numero \<Rightarrow> numero" where
  "inverse_numero x = divide (Num 1) (x::numero)"

fun less_numero :: "numero \<Rightarrow> numero \<Rightarrow> bool" where
  "less_numero (Num a) (Num b) = (a < b)"
| "less_numero (Num a) MasInf = True"
| "less_numero MenosInf (Num b) = True"
| "less_numero MenosInf MasInf = True"
| "less_numero _ _ = False"

fun less_eq_numero :: "numero \<Rightarrow> numero \<Rightarrow> bool" where
  "less_eq_numero (Num a) (Num b) = (a \<le> b)"
| "less_eq_numero (Num a) MasInf = True"
| "less_eq_numero MenosInf (Num b) = True"
| "less_eq_numero MenosInf MasInf = True"
| "less_eq_numero MasInf MasInf = True"
| "less_eq_numero MenosInf MenosInf = True"
| "less_eq_numero _ _ = False"

instance ..

end

text \<open>\<^verbatim>\<open>Math.max\<close> and \<^verbatim>\<open>Math.min\<close> of two arguments return NaN as soon as one argument is
  NaN; \<^verbatim>\<open>Math.pow(x, 1.5)\<close> is NaN for a negative finite base.\<close>

fun Math_max :: "numero \<Rightarrow> numero \<Rightarrow> numero" where
  "Math_max NaN y = NaN"
| "Math_max x NaN = NaN"
| "Math_max MasInf y = MasInf"
| "Math_max x MasInf = MasInf"
| "Math_max MenosInf y = y"
| "Math_max x MenosInf = x"
| "Math_max (Num a) (Num b) = Num (max a b)"

fun Math_min :: "numero \<Rightarrow> numero \<Rightarrow> numero" where
  "Math_min NaN y = NaN"
| "Math_min x NaN = NaN"
| "Math_min MenosInf y = MenosInf"
| "Math_min x MenosInf = MenosInf"
| "Math_min MasInf y = y"
| "Math_min x MasInf = x"
| "Math_min (Num a) (Num b) = Num (min a b)"

fun Math_pow15 :: "numero \<Rightarrow> numero" where
  "Math_pow15 (Num x) = (if x < 0 then NaN else redondear (x powr 1.5))"
| "Math_pow15 MasInf = MasInf"
| "Math_pow15 MenosInf = MasInf"
| "Math_pow15 NaN = NaN"

subsection \<open>Marginal price formation over JavaScript numbers\<close>

text \<open>What a call of \<^verbatim>\<open>calcularPrecioMarginal\<close> reads of its arguments, as JavaScript numbers:
  \<^verbatim>\<open>gen.gas\<close>, \<^verbatim>\<open>gen.hidraulica\<close>, \<^verbatim>\<open>demandaGW\<close>, \<^verbatim>\<open>ratioRenovable\<close>, the three fields of
  \<^verbatim>\<open>contexto\<close> and \<^verbatim>\<open>gasAnterior\<close>. The parameters stay the finite numbers of the record
  \<open>params\<close>.\<close>

record entradaPrecio =
  e_gas :: numero
  e_hidraulica :: numero
  e_demandaGW :: numero
  e_ratioRenovable :: numero
  e_importacion :: numero
  e_exportacion :: numero
  e_deficit :: numero
  e_gasAnterior :: numero

text \<open>\<^verbatim>\<open>calcularPrecioMarginal\<close> once more, statement by statement, with every operation on
  JavaScript numbers.\<close>

definition costeCCGT_JS :: "params \<Rightarrow> numero" where
  "costeCCGT_JS p =
     (let calorEsp = Num 1 / Math_max (Num 0.45) (Num (rendimientoCCGT p));
          costeComb = Num (precioGas p) * calorEsp;
          costeCO2 = (Num FACTOR_CO2_GAS / Math_max (Num 0.45) (Num (rendimientoCCGT p)))
                     * Num (precioCO2 p)
      in costeComb + costeCO2 + Num (omCCGT p))"

definition precioTecnologia_JS :: "params \<Rightarrow> entradaPrecio \<Rightarrow> numero" where
  "precioTecnologia_JS p e =
     (let stressCCGT = Math_min (Num 1) (e_gas e / Math_max (Num 0.5) (Num (ccgt p)));
          stressHidro = Math_min (Num 1) (e_hidraulica e / Math_max (Num 0.5) (Num (hidraulica p)))
      in if e_ratioRenovable e > Num 1.20 then
           (let exceso = e_ratioRenovable e - Num 1
            in Math_max (Num (- 20)) (Num 5 - exceso * Num 45))
         else if e_ratioRenovable e > Num 1.05 then
           Num 5 + (Num 1.2 - e_ratioRenovable e) * Num 100
         else if e_gas e > Num 0.3 then
           (let primaStress = Num 12 * Math_pow15 stressCCGT;
                deltGas = Math_max (Num 0) (e_gas e - e_gasAnterior e);
                primaRampa = (if deltGas > Num 1 then Num 3 * deltGas else Num 0)
            in costeCCGT_JS p + primaStress + primaRampa)
         else if e_hidraulica e > Num 0.5 then Num 25 + Num 25 * stressHidro
         else Num 6 + (Num 1 - e_ratioRenovable e) * Num 30)"

definition precioRegulado_JS :: "params \<Rightarrow> entradaPrecio \<Rightarrow> numero" where
  "precioRegulado_JS p e =
     (let precio0 = precioTecnologia_JS p e;
          precio1 = (if e_importacion e > Num 0 then
                       (let stressImport =
                              Math_min (Num 1)
                                (e_importacion e / Math_max (Num 0.5) (Num (interconexion p)))
                        in Math_max precio0
                             (Num (precioImport p) * (Num 0.85 + Num 0.3 * stressImport)))
                     else precio0);
          precio2 = (if e_exportacion e > Num 0
                     then Math_min precio1 (Num (precioExport p) + Num 10)
                     else precio1);
          precio3 = (if e_deficit e > Num 0.3 then
                       (let deficitPct = e_deficit e / Math_max (Num 1) (e_demandaGW e)
                        in Math_max precio2
                             (Num (precioEscasez p) * Math_min (Num 1) (deficitPct * Num 4)))
                     else precio2)
      in precio3 * (Num 1 + Num (perdidasRed p)) + Num (cargosSistema p))"

definition calcularPrecioMarginal_JS :: "params \<Rightarrow> entradaPrecio \<Rightarrow> numero" where
  "calcularPrecioMarginal_JS p e =
     Math_min (Num 500) (Math_max (Num (- 25)) (precioRegulado_JS p e))"

text \<open>The arguments of a call with finite values.\<close>

definition entradaFinita :: "gen \<Rightarrow> real \<Rightarrow> real \<Rightarrow> contexto \<Rightarrow> real \<Rightarrow> entradaPrecio" where
  "entradaFinita g demandaGW ratioRenovable ctx gasAnt =
     \<lparr> e_gas = Num (gen_gas g), e_hidraulica = Num (gen_hidraulica g),
       e_demandaGW = Num demandaGW, e_ratioRenovable = Num ratioRenovable,
       e_importacion = Num (ctx_importacion ctx), e_exportacion = Num (ctx_exportacion ctx),
       e_deficit = Num (ctx_deficit ctx), e_gasAnterior = Num gasAnt \<rparr>"

text \<open>Inputs of moderate size: every parameter and argument that price formation multiplies
  or adds is at most 10^100 in magnitude. (The parameters and arguments that only appear
  under \<^verbatim>\<open>Math.max(c, .)\<close> as divisors, or only in a comparison, need no bound.)\<close>

definition MAGNITUD :: real where
  "MAGNITUD = 10 ^ 100"

definition moderado :: "real \<Rightarrow> bool" where
  "moderado x \<longleftrightarrow> \<bar>x\<bar> \<le> MAGNITUD"

definition entradasModeradas ::
  "params \<Rightarrow> gen \<Rightarrow> real \<Rightarrow> real \<Rightarrow> contexto \<Rightarrow> real \<Rightarrow> bool" where
  "entradasModeradas p g demandaGW ratioRenovable ctx gasAnt \<longleftrightarrow>
     moderado (precioGas p) \<and> moderado (precioCO2 p) \<and> moderado (omCCGT p) \<and>
     moderado (precioImport p) \<and> moderado (precioExport p) \<and> moderado (precioEscasez p) \<and>
     moderado (perdidasRed p) \<and> moderado (cargosSistema p) \<and>
     moderado (gen_gas g) \<and> moderado (gen_hidraulica g) \<and> moderado ratioRenovable \<and>
     moderado (ctx_importacion ctx) \<and> moderado (ctx_deficit ctx) \<and> moderado gasAnt"

text \<open>The call of price formation in hour \<open>h\<close> of the loop, from the hour record: the loop
  passes \<^verbatim>\<open>gen\<close>, \<^verbatim>\<open>demandaGW\<close>, \<^verbatim>\<open>ratioRen\<close>, \<^verbatim>\<open>ctx\<close> and \<^verbatim>\<open>gasAnterior\<close>. The dispatch
  that produces these values is the real-valued one above; \<open>precios_JS\<close> is the price
  series with the overflow of price formation.\<close>

definition ratioDeHora :: "traza \<Rightarrow> real" where
  "ratioDeHora t = (if t_demandaGW t > 0 then t_genBase t / t_demandaGW t else 0)"

definition entradaDeHora :: "traza \<Rightarrow> entradaPrecio" where
  "entradaDeHora t =
     entradaFinita (t_gen t) (t_demandaGW t) (ratioDeHora t)
       (contextoPrecio (t_demandaGW t) (t_genBase t) (t_gen t)) (t_gasAnterior t)"

definition horaModerada :: "params \<Rightarrow> traza \<Rightarrow> bool" where
  "horaModerada p t \<longleftrightarrow>
     entradasModeradas p (t_gen t) (t_demandaGW t) (ratioDeHora t)
       (contextoPrecio (t_demandaGW t) (t_genBase t) (t_gen t)) (t_gasAnterior t)"

definition precios_JS :: "params \<Rightarrow> numero list" where
  "precios_JS p = map (\<lambda>t. calcularPrecioMarginal_JS p (entradaDeHora t)) (trazas p)"

subsection \<open>Percentiles over JavaScript numbers\<close>

text \<open>\<^verbatim>\<open>Float64Array.prototype.sort\<close> without a comparator orders numerically and puts every
  NaN last: minus infinities, the finite values in ascending order, plus infinities, NaNs.\<close>

fun finitos :: "numero list \<Rightarrow> real list" where
  "finitos [] = []"
| "finitos (Num x # xs) = x # finitos xs"
| "finitos (y # xs) = finitos xs"

definition ordenar_JS :: "numero list \<Rightarrow> numero list" where
  "ordenar_JS xs =
     replicate (count_list xs MenosInf) MenosInf @ map Num (sort (finitos xs))
     @ replicate (count_list xs MasInf) MasInf @ replicate (count_list xs NaN) NaN"

text \<open>A read at an index: \<^term>\<open>None\<close> is \<^verbatim>\<open>undefined\<close>, outside the array.\<close>

definition leer_JS :: "numero list \<Rightarrow> int \<Rightarrow> numero option" where
  "leer_JS xs i = (if 0 \<le> i \<and> i < int (length xs) then Some (xs ! nat i) else None)"

text \<open>\<^verbatim>\<open>percentil\<close> on such an array; arithmetic on \<^verbatim>\<open>undefined\<close> gives NaN.\<close>

definition percentil_JS :: "numero list \<Rightarrow> real \<Rightarrow> numero option" where
  "percentil_JS arr p =
     (if arr = [] then Some (Num 0)
      else let sorted = ordenar_JS arr;
               k = (real (length sorted) - 1) * (p / 100);
               f = \<lfloor>k\<rfloor>;
               c = \<lceil>k\<rceil>
           in if f = c then leer_JS sorted f
              else (case (leer_JS sorted f, leer_JS sorted c) of
                      (Some sf, Some sc) \<Rightarrow> Some (sf + (sc - sf) * Num (k - of_int f))
                    | _ \<Rightarrow> Some NaN))"

text \<open>\<^verbatim>\<open>R.precioP10\<close>, \<^verbatim>\<open>R.precioMediana\<close> and \<^verbatim>\<open>R.precioP90\<close> of a run.\<close>

definition precioP10_JS :: "params \<Rightarrow> numero option" where
  "precioP10_JS p = percentil_JS (precios_JS p) 10"

definition precioMediana_JS :: "params \<Rightarrow> numero option" where
  "precioMediana_JS p = percentil_JS (precios_JS p) 50"

definition precioP90_JS :: "params \<Rightarrow> numero option" where
  "precioP90_JS p = percentil_JS (precios_JS p) 90"

subsection \<open>The generators as objects\<close>

text \<open>\<^verbatim>\<open>simular\<close> creates four \<^verbatim>\<open>SeededRNG\<close> objects with \<^verbatim>\<open>new\<close> and the methods \<^verbatim>\<open>next\<close> and
  \<^verbatim>\<open>gauss\<close> overwrite the field \<^verbatim>\<open>seed\<close> of the object they are called on. Here the objects
  live in a store: the list of the \<^verbatim>\<open>seed\<close> fields of all \<^verbatim>\<open>SeededRNG\<close> objects created so
  far, also by earlier runs, and a reference is an index into it. \<^verbatim>\<open>new\<close> appends an object;
  a run only ever uses references it has obtained from \<^verbatim>\<open>new\<close>.\<close>

type_synonym monton = "real list"

definition nuevoRNG :: "real \<Rightarrow> monton \<Rightarrow> nat \<times> monton" where
  "nuevoRNG seed m = (length m, m @ [seed])"

text \<open>The seed step of \<^verbatim>\<open>next\<close>, \<^verbatim>\<open>Math.sin(this.seed * 9301 + 49297) * 49271\<close>, is the
  parameter \<open>G\<close> of everything that draws from a generator in the store: the program's
  step is this expression rounded to doubles, and \<open>pasoSemilla\<close> is the expression over the
  reals, the step of \<open>SeededRNG_next\<close> above.\<close>

definition pasoSemilla :: "real \<Rightarrow> real" where
  "pasoSemilla seed = sin (seed * 9301 + 49297) * 49271"

definition RNG_next :: "(real \<Rightarrow> real) \<Rightarrow> nat \<Rightarrow> monton \<Rightarrow> real \<times> monton" where
  "RNG_next G a m =
     (let seed' = G (m ! a)
      in (seed' - of_int \<lfloor>seed'\<rfloor>, m[a := seed']))"

definition RNG_gauss ::
  "(real \<Rightarrow> real) \<Rightarrow> nat \<Rightarrow> real \<Rightarrow> real \<Rightarrow> monton \<Rightarrow> real \<times> monton" where
  "RNG_gauss G a media sigma m =
     (let (n1, m1) = RNG_next G a m;
          u1 = max (1 / 10 ^ 10) n1;
          (u2, m2) = RNG_next G a m1;
          z = sqrt (- 2 * ln u1) * cos (2 * pi * u2)
      in (media + sigma * z, m2))"

text \<open>\<^verbatim>\<open>generarSerieViento(rng)\<close> and \<^verbatim>\<open>generarSerieDemanda(rng)\<close> on the object \<open>a\<close>: they
  return the series and the store they leave.\<close>

function generarBloquesEn ::
  "(real \<Rightarrow> real) \<Rightarrow> nat \<Rightarrow> nat \<Rightarrow> monton \<Rightarrow> bloque list \<times> monton" where
  "generarBloquesEn G a h m =
     (if h < HORAS_ANIO then
        (let r1 = RNG_next G a m;
             dur = nat \<lfloor>48 + fst r1 * 120\<rfloor>;
             r2 = RNG_next G a (snd r1);
             resto = generarBloquesEn G a (h + dur) (snd r2)
         in (\<lparr>inicio = h, duracion = dur, intensidad = fst r2\<rparr> # fst resto, snd resto))
      else ([], m))"
  by pat_completeness auto
termination
proof (relation "measure (\<lambda>(G, a, h, m). HORAS_ANIO - h)")
  show "wf (measure (\<lambda>(G, a, h, m). HORAS_ANIO - h))"
    by simp
next
  fix G :: "real \<Rightarrow> real" and a h :: nat and m :: monton and r1 :: "real \<times> monton"
    and dur :: nat and r2 :: "real \<times> monton"
  assume less: "h < HORAS_ANIO" and r1: "r1 = RNG_next G a m"
    and dur: "dur = nat \<lfloor>48 + fst r1 * 120\<rfloor>"
  have "0 \<le> fst r1"
    by (simp add: r1 RNG_next_def Let_def)
  then have "0 \<le> \<lfloor>fst r1 * 120\<rfloor>"
    by simp
  then have "0 < dur"
    unfolding dur by linarith
  with less show "((G, a, h + dur, snd r2), G, a, h, m)
                  \<in> measure (\<lambda>(G, a, h, m). HORAS_ANIO - h)"
    by simp
qed

declare generarBloquesEn.simps [simp del]

fun vientoHorasEn ::
  "(real \<Rightarrow> real) \<Rightarrow> nat \<Rightarrow> bloque list \<Rightarrow> nat list \<Rightarrow> real \<Rightarrow> monton
     \<Rightarrow> real list \<times> monton" where
  "vientoHorasEn G a bloques [] estado m = ([], m)"
| "vientoHorasEn G a bloques (i # resto) estado m =
     (let dia = i div 24;
          hora = i mod 24;
          mes = \<lfloor>real dia / 30.5\<rfloor>;
          baseEstacional = 0.28 + 0.14 * cos ((of_int mes - 0.5) * pi / 6);
          sinoptico = (case find (\<lambda>b. i \<ge> inicio b \<and> i < inicio b + duracion b) bloques of
                         Some b \<Rightarrow> baseEstacional * (0.3 + intensidad b * 1.4)
                       | None \<Rightarrow> baseEstacional);
          diurno = 1 + 0.08 * sin ((real hora - 6) * pi / 12);
          alpha = 0.94;
          r = RNG_gauss G a 0 0.06 m;
          estado' = alpha * estado + (1 - alpha) * sinoptico + fst r;
          sig = vientoHorasEn G a bloques resto estado' (snd r)
      in (max 0.02 (min 0.92 (estado' * diurno)) # fst sig, snd sig))"

definition generarSerieVientoEn :: "(real \<Rightarrow> real) \<Rightarrow> nat \<Rightarrow> monton \<Rightarrow> real list \<times> monton" where
  "generarSerieVientoEn G a m =
     (let bl = generarBloquesEn G a 0 m
      in vientoHorasEn G a (fst bl) [0..<HORAS_ANIO] 0.30 (snd bl))"

fun demandaHorasEn ::
  "(real \<Rightarrow> real) \<Rightarrow> nat \<Rightarrow> nat list \<Rightarrow> monton \<Rightarrow> real list \<times> monton" where
  "demandaHorasEn G a [] m = ([], m)"
| "demandaHorasEn G a (i # resto) m =
     (let dia = i div 24;
          hora = i mod 24;
          mes = mesDe dia;
          diaSemana = dia mod 7;
          tempBase = TEMP_MENSUAL ! mes;
          varDiurna = 4.5 * sin ((real hora - 6) * pi / 12);
          r = RNG_gauss G a 0 1.5 m;
          temp = tempBase + varDiurna + fst r;
          factorTemp0 = (if temp < 15 then 1 + (15 - temp) * 0.013 else 1);
          factorTemp = (if temp > 25 then 1 + (temp - 25) * 0.018 else factorTemp0);
          picoManana = exp (- (((real hora - 10) / 2.8)\<^sup>2)) * 0.28;
          picoTarde = exp (- (((real hora - 20) / 2.5)\<^sup>2)) * 0.32;
          baseNocturna = 0.62;
          perfilHorario = baseNocturna + picoManana + picoTarde;
          factorLaboral = (if diaSemana < 5 then 1.04 else 0.87);
          n = RNG_next G a (snd r);
          ruidoDemanda = 0.97 + fst n * 0.06;
          sig = demandaHorasEn G a resto (snd n)
      in (perfilHorario * factorLaboral * factorTemp * ruidoDemanda # fst sig, snd sig))"

definition generarSerieDemandaEn ::
  "(real \<Rightarrow> real) \<Rightarrow> nat \<Rightarrow> monton \<Rightarrow> real list \<times> monton" where
  "generarSerieDemandaEn G a m = demandaHorasEn G a [0..<HORAS_ANIO] m"

text \<open>The loop body from the value \<open>u\<close> that \<^verbatim>\<open>rngMeteo.next()\<close> has returned: it is
  \<open>pasoHora\<close> without the draw. With the cloud generator as the object \<open>a\<close> of the store, the
  body draws from the object, which keeps the advanced seed; the field \<open>rngMeteo\<close> of the
  loop state is not used then.\<close>

definition cuerpoHora ::
  "params \<Rightarrow> real \<Rightarrow> real \<Rightarrow> real \<Rightarrow> real \<Rightarrow> nat \<Rightarrow> real \<Rightarrow> estado \<Rightarrow> estado \<times> traza" where
  "cuerpoHora p nuclearGW demandaMediaGW sd sv h u st =
     (let dia = h div 24;
          hora = h mod 24;
          demandaGW = demandaMediaGW * sd;
          flexCapGW = min (flexibilidadGW p) (demandaGW * (flexibilidadPct p / 100));
          nubes = 0.65 + u * 0.35;
          g0 = genInicial (nuclearGW * FC_NUCLEAR) (solar p * calcularSolar dia hora nubes)
                 (eolica p * sv);
          genBase = gen_nuclear g0 + gen_solar g0 + gen_eolica g0;
          a = asignar p flexCapGW demandaGW g0 (hidraulica p * calcularHidro p dia)
                (gasAnterior st) (estadoBateria st) (estadoBombeo st);
          g = a_gen a;
          eBat = a_estadoBateria a * (1 - AUTODESCARGA_BAT);
          ratioRen = (if demandaGW > 0 then genBase / demandaGW else 0);
          ctx = contextoPrecio demandaGW genBase g;
          precio = calcularPrecioMarginal p g demandaGW ratioRen ctx (gasAnterior st)
      in (st \<lparr> estadoBateria := eBat, estadoBombeo := a_estadoBombeo a, gasAnterior := gen_gas g,
               R := acumular p a demandaGW precio (R st) \<rparr>,
          \<lparr> t_gen = g, t_precio = precio, t_demandaGW = demandaGW, t_genBase = genBase,
            t_flexUp = a_flexUp a, t_flexDown = a_flexDown a, t_deficit = a_deficit a,
            t_ctxDeficit = ctx_deficit ctx, t_gasAnterior = gasAnterior st,
            t_bateriaAsignada = a_estadoBateria a, t_estadoBateria = eBat,
            t_estadoBombeo = a_estadoBombeo a \<rparr>))"

definition pasoHoraEn ::
  "(real \<Rightarrow> real) \<Rightarrow> params \<Rightarrow> real \<Rightarrow> real \<Rightarrow> real \<Rightarrow> real \<Rightarrow> nat \<Rightarrow> nat \<Rightarrow> estado
     \<Rightarrow> monton \<Rightarrow> (estado \<times> traza) \<times> monton" where
  "pasoHoraEn G p nuclearGW demandaMediaGW sd sv h a st m =
     (let n = RNG_next G a m
      in (cuerpoHora p nuclearGW demandaMediaGW sd sv h (fst n) st, snd n))"

fun bucleHorarioEn ::
  "(real \<Rightarrow> real) \<Rightarrow> params \<Rightarrow> real \<Rightarrow> real \<Rightarrow> real list \<Rightarrow> real list \<Rightarrow> nat \<Rightarrow> nat list
     \<Rightarrow> estado \<Rightarrow> monton \<Rightarrow> (traza list \<times> estado) \<times> monton" where
  "bucleHorarioEn G p nuclearGW demandaMediaGW serieDemanda serieViento a [] st m = (([], st), m)"
| "bucleHorarioEn G p nuclearGW demandaMediaGW serieDemanda serieViento a (h # hs) st m =
     (let paso = pasoHoraEn G p nuclearGW demandaMediaGW (serieDemanda ! h) (serieViento ! h)
                   h a st m;
          resto = bucleHorarioEn G p nuclearGW demandaMediaGW serieDemanda serieViento a hs
                    (fst (fst paso)) (snd paso)
      in ((snd (fst paso) # fst (fst resto), snd (fst resto)), snd resto))"

text \<open>One execution of \<^verbatim>\<open>simular()\<close> on a simulator with parameters \<open>p\<close>, started in the
  store \<open>m\<close>: the four \<^verbatim>\<open>new SeededRNG(...)\<close> in the order of the source (the first,
  \<^verbatim>\<open>rng\<close>, with \<^verbatim>\<open>p.semilla || 42\<close>, is never used), the two series, the loop, the
  aggregation. It returns the results and the store it leaves. \<^verbatim>\<open>this.params\<close> is only
  read.\<close>

definition simularEn :: "(real \<Rightarrow> real) \<Rightarrow> params \<Rightarrow> monton \<Rightarrow> resultados \<times> monton" where
  "simularEn G p m =
     (let rng = nuevoRNG (if semilla p = 0 then 42 else semilla p) m;
          demandaAnualTWh = calcularDemandaAjustada p;
          demandaMediaGW = demandaAnualTWh * 1000 / real HORAS_ANIO;
          nuclearGW = calcularNuclearDisponible p;
          rngViento = nuevoRNG (semilla p * 7 + 13) (snd rng);
          serieViento = generarSerieVientoEn G (fst rngViento) (snd rngViento);
          rngDemanda = nuevoRNG (semilla p * 3 + 7) (snd serieViento);
          serieDemanda = generarSerieDemandaEn G (fst rngDemanda) (snd rngDemanda);
          rngMeteo = nuevoRNG (semilla p * 11 + 37) (snd serieDemanda);
          bucle = bucleHorarioEn G p nuclearGW demandaMediaGW (fst serieDemanda) (fst serieViento)
                    (fst rngMeteo) [0..<HORAS_ANIO] (estadoInicial p) (snd rngMeteo)
      in (agregar p (fst bucle), snd bucle))"

text \<open>Two calls, on the object \<open>a\<close> of the store \<open>m\<close> and on the object \<open>a'\<close> of the store
  \<open>m'\<close>, have the same effect: they return the same value and leave the same seed in their
  object, and nothing else changed in either store.\<close>

definition mismoEfecto ::
  "nat \<Rightarrow> nat \<Rightarrow> monton \<Rightarrow> monton \<Rightarrow> 'r \<times> monton \<Rightarrow> 'r \<times> monton \<Rightarrow> bool" where
  "mismoEfecto a a' m m' x x' \<longleftrightarrow>
     fst x = fst x' \<and> (\<exists>s. snd x = m[a := s] \<and> snd x' = m'[a' := s])"

subsection \<open>Interpolation\<close>

text \<open>The value \<open>percentil\<close> returns for the position \<open>k\<close> in a sorted array: the entry at
  \<open>k\<close> when \<open>k\<close> is an index, the linear interpolation of its two neighbours otherwise.\<close>

definition interpolar :: "real list \<Rightarrow> real \<Rightarrow> real" where
  "interpolar ordenado k =
     (if \<lfloor>k\<rfloor> = \<lceil>k\<rceil> then ordenado ! nat \<lfloor>k\<rfloor>
      else ordenado ! nat \<lfloor>k\<rfloor>
           + (ordenado ! nat \<lceil>k\<rceil> - ordenado ! nat \<lfloor>k\<rfloor>) * (k - of_int \<lfloor>k\<rfloor>))"

subsection \<open>The specification's wording of two leaf models\<close>

text \<open>The solar capacity factor as the specification words it: 0 when the sine of the solar
  elevation is at most 0.01, otherwise the clamp to [0, 1] of
  sin(elevation) \<times> transmittance \<times> cloud factor \<times> 1.35 with
  transmittance = 0.75 \<times> 0.70 ^ (AM ^ 0.678) and air mass AM = 1 / sin(elevation).\<close>

definition solarSegunEspecificacion :: "nat \<Rightarrow> nat \<Rightarrow> real \<Rightarrow> real" where
  "solarSegunEspecificacion dia hora nubes =
     (if sinElev dia hora \<le> 0.01 then 0
      else let AM = 1 / sinElev dia hora;
               transmitancia = 0.75 * (0.70 powr (AM powr 0.678))
           in max 0 (min 1 (sinElev dia hora * transmitancia * nubes * 1.35)))"

text \<open>The decommission ramp as the specification words it: linear from 1 at the base year to
  0 at the decommission year, 0 for target years at or beyond the decommission year, 1 for
  target years at or before the base year.\<close>

definition rampaCierre :: "real \<Rightarrow> real \<Rightarrow> real \<Rightarrow> real" where
  "rampaCierre base cierre anio =
     (if anio \<ge> cierre then 0
      else if anio \<le> base then 1
      else 1 - (anio - base) / (cierre - base))"

definition nuclearSegunEspecificacion :: "params \<Rightarrow> real" where
  "nuclearSegunEspecificacion p =
     (if aplicarPlanNuclear p
      then nuclear p * rampaCierre 2026 (cierreNuclear p) (anioObjetivo p)
      else nuclear p)"

subsection \<open>Scenarios used below\<close>

text \<open>A scenario with no generation, storage, flexibility or interconnection at all: every
  hour is a deficit hour that nothing covers.\<close>

definition escenarioSinCapacidad :: params where
  "escenarioSinCapacidad =
     PARAMS_DEFAULT \<lparr> nuclear := 0, solar := 0, eolica := 0, hidraulica := 0, ccgt := 0,
                      bateriasPotencia := 0, bateriasCapacidad := 0, bombeo := 0,
                      bombeoCapacidad := 0, flexibilidadGW := 0, interconexion := 0 \<rparr>"

text \<open>The same scenario with a network-loss rate of -2 and a system charge of 200, for a
  given scarcity price.\<close>

definition escenarioPerdidasNegativas :: "real \<Rightarrow> params" where
  "escenarioPerdidasNegativas e =
     escenarioSinCapacidad \<lparr> perdidasRed := - 2, cargosSistema := 200, precioEscasez := e \<rparr>"

text \<open>A scenario with 100 GW of nuclear kept in service, no solar or wind, and an installed
  gas capacity of -1 GW: every hour is a surplus hour.\<close>

definition escenarioGasNegativo :: params where
  "escenarioGasNegativo =
     PARAMS_DEFAULT \<lparr> nuclear := 100, aplicarPlanNuclear := False, solar := 0, eolica := 0,
                      ccgt := - 1 \<rparr>"

text \<open>The scenario without capacity, but with 3 GW of interconnection, an import price of
  1.7e308 and a network-loss rate of -1: every hour imports 3 GW.\<close>

definition escenarioImportacionCara :: params where
  "escenarioImportacionCara =
     escenarioSinCapacidad \<lparr> interconexion := 3, precioImport := 17 * 10 ^ 307,
                             perdidasRed := - 1 \<rparr>"

text \<open>Two runs that differ only in what price formation makes of them: the states agree on
  everything the dispatch reads, and the hour records agree on everything but the price,
  which is not lower in the second.\<close>

definition mismoDespacho :: "estado \<Rightarrow> estado \<Rightarrow> bool" where
  "mismoDespacho st st' \<longleftrightarrow>
     estadoBateria st' = estadoBateria st \<and> estadoBombeo st' = estadoBombeo st \<and>
     gasAnterior st' = gasAnterior st \<and> rngMeteo st' = rngMeteo st"

definition precioNoMenor :: "traza \<Rightarrow> traza \<Rightarrow> bool" where
  "precioNoMenor t t' \<longleftrightarrow>
     t_gen t' = t_gen t \<and> t_demandaGW t' = t_demandaGW t \<and> t_precio t \<le> t_precio t'"

section \<open>Properties\<close>

subsection \<open>The generator and the loop\<close>

lemma next_rango: "0 \<le> fst (SeededRNG_next s) \<and> fst (SeededRNG_next s) < 1"
  by (simp add: SeededRNG_next_def Let_def) linarith

lemma length_bucleHorario:
  "length (fst (bucleHorario p n d sD sV hs st)) = length hs"
  by (induction hs arbitrary: st) (simp_all add: Let_def)

lemma bucle_invariante:
  assumes "\<And>h st. h \<in> set hs \<Longrightarrow> I st \<Longrightarrow>
             I (fst (pasoHora p n d (sD ! h) (sV ! h) h st)) \<and>
             Q (snd (pasoHora p n d (sD ! h) (sV ! h) h st))"
    and "I st"
  shows "I (snd (bucleHorario p n d sD sV hs st)) \<and>
         (\<forall>t \<in> set (fst (bucleHorario p n d sD sV hs st)). Q t)"
  using assms
proof (induction hs arbitrary: st)
  case Nil
  then show ?case by simp
next
  case (Cons h hs)
  have paso: "I (fst (pasoHora p n d (sD ! h) (sV ! h) h st))"
    and q: "Q (snd (pasoHora p n d (sD ! h) (sV ! h) h st))"
    using Cons.prems(1)[of h st] Cons.prems(2) by simp_all
  have "I (snd (bucleHorario p n d sD sV hs (fst (pasoHora p n d (sD ! h) (sV ! h) h st)))) \<and>
        (\<forall>t \<in> set (fst (bucleHorario p n d sD sV hs (fst (pasoHora p n d (sD ! h) (sV ! h) h st)))). Q t)"
    by (rule Cons.IH) (use Cons.prems(1) paso in auto)
  with q show ?case by (simp add: Let_def)
qed

subsection \<open>One allocation\<close>



lemma tramo_pos_iff: "0 < tramo r l \<longleftrightarrow> 0 < r \<and> 0 < l"
  by (simp add: tramo_def)










lemma ramaExcedente_ceros:
  "gen_hidraulica (a_gen (ramaExcedente p f exc g eB eBo)) = 0"
  "gen_gas (a_gen (ramaExcedente p f exc g eB eBo)) = 0"
  "gen_baterias (a_gen (ramaExcedente p f exc g eB eBo)) = gen_baterias g"
  "gen_bombeo (a_gen (ramaExcedente p f exc g eB eBo)) = gen_bombeo g"
  "gen_importacion (a_gen (ramaExcedente p f exc g eB eBo)) = gen_importacion g"
  "gen_nuclear (a_gen (ramaExcedente p f exc g eB eBo)) = gen_nuclear g"
  "gen_solar (a_gen (ramaExcedente p f exc g eB eBo)) = gen_solar g"
  "gen_eolica (a_gen (ramaExcedente p f exc g eB eBo)) = gen_eolica g"
  "a_flexDown (ramaExcedente p f exc g eB eBo) = 0"
  "a_deficit (ramaExcedente p f exc g eB eBo) = 0"
  unfolding ramaExcedente_def Let_def by simp_all

lemma ramaDeficit_base:
  "gen_nuclear (a_gen (ramaDeficit p f d0 hdisp ga g eB eBo)) = gen_nuclear g"
  "gen_solar (a_gen (ramaDeficit p f d0 hdisp ga g eB eBo)) = gen_solar g"
  "gen_eolica (a_gen (ramaDeficit p f d0 hdisp ga g eB eBo)) = gen_eolica g"
  "gen_vertido (a_gen (ramaDeficit p f d0 hdisp ga g eB eBo)) = gen_vertido g"
  "gen_cargaBaterias (a_gen (ramaDeficit p f d0 hdisp ga g eB eBo)) = gen_cargaBaterias g"
  "gen_cargaBombeo (a_gen (ramaDeficit p f d0 hdisp ga g eB eBo)) = gen_cargaBombeo g"
  "gen_exportacion (a_gen (ramaDeficit p f d0 hdisp ga g eB eBo)) = gen_exportacion g"
  "a_flexUp (ramaDeficit p f d0 hdisp ga g eB eBo) = 0"
  unfolding ramaDeficit_def Let_def by simp_all





lemma asignar_base:
  "gen_nuclear (a_gen (asignar p f dem g0 hdisp ga eB eBo)) = gen_nuclear g0"
  "gen_solar (a_gen (asignar p f dem g0 hdisp ga eB eBo)) = gen_solar g0"
  "gen_eolica (a_gen (asignar p f dem g0 hdisp ga eB eBo)) = gen_eolica g0"
  unfolding asignar_def Let_def
  by (simp_all add: ramaExcedente_ceros ramaDeficit_base)





text \<open>Gas output of one allocation.\<close>

lemma despachoGas_cotas:
  assumes "0 \<le> ccgt p" "0 \<le> ga"
  shows "0 \<le> despachoGas p d ga" and "despachoGas p d ga \<le> ccgt p"
    and "despachoGas p d ga \<le> ga + ccgt p * RAMPA_CCGT"
proof -
  have r: "0 \<le> ccgt p * RAMPA_CCGT" using assms(1) by (simp add: RAMPA_CCGT_def)
  show "0 \<le> despachoGas p d ga"
    using assms r by (simp add: despachoGas_def Let_def)
  show "despachoGas p d ga \<le> ccgt p"
    using assms by (simp add: despachoGas_def Let_def min_le_iff_disj)
  show "despachoGas p d ga \<le> ga + ccgt p * RAMPA_CCGT"
    using assms r by (simp add: despachoGas_def Let_def min_le_iff_disj add.commute)
qed

lemma asignar_gas:
  assumes "0 \<le> ccgt p" "0 \<le> ga"
  shows "0 \<le> gen_gas (a_gen (asignar p f dem g0 hdisp ga eB eBo))
       \<and> gen_gas (a_gen (asignar p f dem g0 hdisp ga eB eBo)) \<le> ccgt p
       \<and> gen_gas (a_gen (asignar p f dem g0 hdisp ga eB eBo)) \<le> ga + ccgt p * RAMPA_CCGT"
proof (cases "0 < gen_nuclear g0 + gen_solar g0 + gen_eolica g0 - dem")
  case True
  then have "gen_gas (a_gen (asignar p f dem g0 hdisp ga eB eBo)) = 0"
    unfolding asignar_def Let_def by (simp add: ramaExcedente_ceros)
  moreover have "0 \<le> ccgt p * RAMPA_CCGT" using assms(1) by (simp add: RAMPA_CCGT_def)
  ultimately show ?thesis using assms by simp
next
  case False
  then have "\<exists>d. gen_gas (a_gen (asignar p f dem g0 hdisp ga eB eBo)) = despachoGas p d ga"
    unfolding asignar_def ramaDeficit_def Let_def by auto
  then show ?thesis
    using despachoGas_cotas[OF assms] by auto
qed


subsection \<open>One hour of the loop\<close>

lemma pasoHora_forma:
  "\<exists>f g0 hdisp r.
     gen_baterias g0 = 0 \<and> gen_bombeo g0 = 0 \<and> gen_importacion g0 = 0 \<and>
     snd (pasoHora p n d sd sv h st) =
       \<lparr> t_gen = a_gen (asignar p f (d * sd) g0 hdisp (gasAnterior st) (estadoBateria st) (estadoBombeo st)),
         t_precio = calcularPrecioMarginal p
            (a_gen (asignar p f (d * sd) g0 hdisp (gasAnterior st) (estadoBateria st) (estadoBombeo st)))
            (d * sd) r
            (contextoPrecio (d * sd) (gen_nuclear g0 + gen_solar g0 + gen_eolica g0)
               (a_gen (asignar p f (d * sd) g0 hdisp (gasAnterior st) (estadoBateria st) (estadoBombeo st))))
            (gasAnterior st),
         t_demandaGW = d * sd,
         t_genBase = gen_nuclear g0 + gen_solar g0 + gen_eolica g0,
         t_flexUp = a_flexUp (asignar p f (d * sd) g0 hdisp (gasAnterior st) (estadoBateria st) (estadoBombeo st)),
         t_flexDown = a_flexDown (asignar p f (d * sd) g0 hdisp (gasAnterior st) (estadoBateria st) (estadoBombeo st)),
         t_deficit = a_deficit (asignar p f (d * sd) g0 hdisp (gasAnterior st) (estadoBateria st) (estadoBombeo st)),
         t_ctxDeficit = ctx_deficit (contextoPrecio (d * sd) (gen_nuclear g0 + gen_solar g0 + gen_eolica g0)
               (a_gen (asignar p f (d * sd) g0 hdisp (gasAnterior st) (estadoBateria st) (estadoBombeo st)))),
         t_gasAnterior = gasAnterior st,
         t_bateriaAsignada = a_estadoBateria (asignar p f (d * sd) g0 hdisp (gasAnterior st) (estadoBateria st) (estadoBombeo st)),
         t_estadoBateria = a_estadoBateria (asignar p f (d * sd) g0 hdisp (gasAnterior st) (estadoBateria st) (estadoBombeo st))
                           * (1 - AUTODESCARGA_BAT),
         t_estadoBombeo = a_estadoBombeo (asignar p f (d * sd) g0 hdisp (gasAnterior st) (estadoBateria st) (estadoBombeo st)) \<rparr>"
  unfolding pasoHora_def Let_def
  by (intro exI[of _ "min (flexibilidadGW p) (d * sd * (flexibilidadPct p / 100))"]
        exI[of _ "genInicial (n * FC_NUCLEAR)
                    (solar p * calcularSolar (h div 24) (h mod 24)
                       (0.65 + fst (SeededRNG_next (rngMeteo st)) * 0.35))
                    (eolica p * sv)"]
        exI[of _ "hidraulica p * calcularHidro p (h div 24)"]
        exI[of _ "if d * sd > 0
                  then (gen_nuclear (genInicial (n * FC_NUCLEAR)
                    (solar p * calcularSolar (h div 24) (h mod 24)
                       (0.65 + fst (SeededRNG_next (rngMeteo st)) * 0.35))
                    (eolica p * sv)) + gen_solar (genInicial (n * FC_NUCLEAR)
                    (solar p * calcularSolar (h div 24) (h mod 24)
                       (0.65 + fst (SeededRNG_next (rngMeteo st)) * 0.35))
                    (eolica p * sv)) + gen_eolica (genInicial (n * FC_NUCLEAR)
                    (solar p * calcularSolar (h div 24) (h mod 24)
                       (0.65 + fst (SeededRNG_next (rngMeteo st)) * 0.35))
                    (eolica p * sv))) / (d * sd) else 0"])
     (simp add: genInicial_def)

lemma pasoHora_estado:
  "estadoBateria (fst (pasoHora p n d sd sv h st)) = t_estadoBateria (snd (pasoHora p n d sd sv h st))"
  "estadoBombeo (fst (pasoHora p n d sd sv h st)) = t_estadoBombeo (snd (pasoHora p n d sd sv h st))"
  "gasAnterior (fst (pasoHora p n d sd sv h st)) = gen_gas (t_gen (snd (pasoHora p n d sd sv h st)))"
  "t_gasAnterior (snd (pasoHora p n d sd sv h st)) = gasAnterior st"
  unfolding pasoHora_def Let_def by simp_all




lemma paso_gas:
  fixes p n d sd sv h st
  defines "t \<equiv> snd (pasoHora p n d sd sv h st)"
  assumes "0 \<le> ccgt p" "0 \<le> gasAnterior st"
  shows "0 \<le> gen_gas (t_gen t) \<and> gen_gas (t_gen t) \<le> ccgt p
       \<and> gen_gas (t_gen t) \<le> t_gasAnterior t + ccgt p * RAMPA_CCGT"
proof -
  note A = asignar_gas[OF assms(2-3)]
  show ?thesis
    unfolding t_def
    using pasoHora_forma[of p n d sd sv h st]
    by (elim exE conjE) (simp add: A)
qed

lemma calcularPrecioMarginal_cotas:
  "- 25 \<le> calcularPrecioMarginal p g dem r ctx ga \<and> calcularPrecioMarginal p g dem r ctx ga \<le> 500"
  unfolding calcularPrecioMarginal_def by simp

lemma paso_precio:
  "- 25 \<le> t_precio (snd (pasoHora p n d sd sv h st)) \<and> t_precio (snd (pasoHora p n d sd sv h st)) \<le> 500"
  unfolding pasoHora_def Let_def by (simp add: calcularPrecioMarginal_cotas)

subsection \<open>The whole year\<close>

lemma length_trazas: "length (trazas p) = HORAS_ANIO"
  unfolding trazas_def ejecutarBucle_def Let_def by (simp add: length_bucleHorario)

lemma trazas_nth: "h < HORAS_ANIO \<Longrightarrow> trazas p ! h \<in> set (trazas p)"
  by (simp add: length_trazas)

lemma trazas_invariante:
  assumes "\<And>n d sd sv h st. I st \<Longrightarrow>
             I (fst (pasoHora p n d sd sv h st)) \<and> Q (snd (pasoHora p n d sd sv h st))"
    and "I (estadoInicial p)"
  shows "\<forall>t \<in> set (trazas p). Q t"
  unfolding trazas_def ejecutarBucle_def Let_def
  using bucle_invariante[where I = I and Q = Q, OF assms(1) assms(2)] by blast

lemma bucle_cadena:
  "i < length hs \<Longrightarrow>
   t_gasAnterior (fst (bucleHorario p n d sD sV hs st) ! i) =
     (if i = 0 then gasAnterior st
      else gen_gas (t_gen (fst (bucleHorario p n d sD sV hs st) ! (i - 1))))"
proof (induction hs arbitrary: st i)
  case Nil
  then show ?case by simp
next
  case (Cons h hs)
  let ?paso = "pasoHora p n d (sD ! h) (sV ! h) h st"
  let ?resto = "fst (bucleHorario p n d sD sV hs (fst ?paso))"
  have lista: "fst (bucleHorario p n d sD sV (h # hs) st) = snd ?paso # ?resto"
    by (simp add: Let_def)
  show ?case
  proof (cases i)
    case 0
    then show ?thesis unfolding lista by (simp add: pasoHora_estado)
  next
    case (Suc j)
    then have j: "j < length hs" using Cons.prems by simp
    have "t_gasAnterior (?resto ! j) =
            (if j = 0 then gasAnterior (fst ?paso) else gen_gas (t_gen (?resto ! (j - 1))))"
      by (rule Cons.IH[OF j])
    then show ?thesis
      unfolding lista Suc by (cases j) (simp_all add: pasoHora_estado)
  qed
qed

lemma trazas_cadena:
  "h < HORAS_ANIO \<Longrightarrow>
   t_gasAnterior (trazas p ! h) =
     (if h = 0 then 0 else gen_gas (t_gen (trazas p ! (h - 1))))"
  unfolding trazas_def ejecutarBucle_def Let_def
  by (subst bucle_cadena) (simp_all add: estadoInicial_def)

lemma simular_series:
  "mix (simular p) = map t_gen (trazas p)"
  "precios (simular p) = map t_precio (trazas p)"
  "demandaHoraria (simular p) = map t_demandaGW (trazas p)"
  unfolding simular_def agregar_def trazas_def Let_def by simp_all

subsection \<open>Storage levels\<close>



subsection \<open>Surplus hours and counters\<close>

lemma asignar_excedente:
  assumes "gen_nuclear g0 + gen_solar g0 + gen_eolica g0 > dem"
  shows "a_deficit (asignar p f dem g0 hdisp ga eB eBo) = 0"
    and "a_flexDown (asignar p f dem g0 hdisp ga eB eBo) = 0"
    and "gen_gas (a_gen (asignar p f dem g0 hdisp ga eB eBo)) = 0"
    and "gen_hidraulica (a_gen (asignar p f dem g0 hdisp ga eB eBo)) = 0"
  using assms unfolding asignar_def Let_def by (simp_all add: ramaExcedente_ceros)

lemma paso_excedente:
  fixes p n d sd sv h st
  defines "t \<equiv> snd (pasoHora p n d sd sv h st)"
  assumes "t_genBase t > t_demandaGW t"
  shows "t_deficit t = 0 \<and> t_flexDown t = 0 \<and> gen_gas (t_gen t) = 0 \<and> gen_hidraulica (t_gen t) = 0"
  using assms(2) unfolding t_def
  using pasoHora_forma[of p n d sd sv h st]
  by (elim exE conjE) (simp add: asignar_excedente)

lemma paso_contadores:
  "horasDeficit (R (fst (pasoHora p n d sd sv h st)))
     = contar (t_deficit (snd (pasoHora p n d sd sv h st)) > 0.3) (horasDeficit (R st))"
  "horasPrecioAlto (R (fst (pasoHora p n d sd sv h st)))
     = contar (t_precio (snd (pasoHora p n d sd sv h st)) > 150) (horasPrecioAlto (R st))"
  unfolding pasoHora_def acumular_def Let_def by simp_all

lemma bucle_horasDeficit:
  "horasDeficit (R (snd (bucleHorario p n d sD sV hs st)))
     = horasDeficit (R st)
       + length (filter (\<lambda>t. t_deficit t > 0.3) (fst (bucleHorario p n d sD sV hs st)))"
  by (induction hs arbitrary: st) (simp_all add: Let_def paso_contadores contar_def)

lemma bucle_horasPrecioAlto:
  "horasPrecioAlto (R (snd (bucleHorario p n d sD sV hs st)))
     = horasPrecioAlto (R st)
       + length (filter (\<lambda>t. t_precio t > 150) (fst (bucleHorario p n d sD sV hs st)))"
  by (induction hs arbitrary: st) (simp_all add: Let_def paso_contadores contar_def)

lemma simular_contadores:
  "horasDeficit (contadores (simular p)) = length (filter (\<lambda>t. t_deficit t > 0.3) (trazas p))"
  "horasPrecioAlto (contadores (simular p)) = length (filter (\<lambda>t. t_precio t > 150) (trazas p))"
  unfolding simular_def agregar_def trazas_def ejecutarBucle_def Let_def
  by (simp_all add: bucle_horasDeficit bucle_horasPrecioAlto estadoInicial_def acumuladores0_def)

subsection \<open>Energy balance\<close>



subsection \<open>Gas ramp\<close>

text \<open>
  C5, as amended. With a non-negative installed gas capacity, the gas output of every hour
  is at most the installed capacity and at most the previous hour's gas output plus 0.15
  times the installed capacity; the previous hour's output is the ramp reference the hour
  reads, and the reference of hour 0 is 0, so the gas output of hour 0 is at most 0.15
  times the installed capacity.
\<close>

theorem rampa_gas:
  assumes "0 \<le> ccgt p"
  shows "\<forall>h < HORAS_ANIO.
           gen_gas (mix (simular p) ! h) \<le> ccgt p
         \<and> t_gasAnterior (trazas p ! h) = (if h = 0 then 0 else gen_gas (mix (simular p) ! (h - 1)))
         \<and> gen_gas (mix (simular p) ! h) \<le> t_gasAnterior (trazas p ! h) + ccgt p * 0.15
         \<and> (if h = 0 then gen_gas (mix (simular p) ! h) \<le> ccgt p * 0.15
            else gen_gas (mix (simular p) ! h) \<le> gen_gas (mix (simular p) ! (h - 1)) + ccgt p * 0.15)"
proof -
  define Q where "Q = (\<lambda>t::traza. 0 \<le> gen_gas (t_gen t) \<and> gen_gas (t_gen t) \<le> ccgt p
                          \<and> gen_gas (t_gen t) \<le> t_gasAnterior t + ccgt p * RAMPA_CCGT)"
  have paso: "0 \<le> gasAnterior (fst (pasoHora p n d sd sv h st)) \<and> Q (snd (pasoHora p n d sd sv h st))"
    if "0 \<le> gasAnterior st" for n d sd sv h st
    unfolding Q_def using paso_gas[OF assms that, of n d sd sv h]
    by (simp add: pasoHora_estado)
  have "\<forall>t \<in> set (trazas p). Q t"
    by (rule trazas_invariante[where I = "\<lambda>st::estado. 0 \<le> gasAnterior st", OF paso])
       (simp_all add: estadoInicial_def)
  then have q: "Q (trazas p ! h)" if "h < HORAS_ANIO" for h
    using trazas_nth that by blast
  show ?thesis
  proof (intro allI impI)
    fix h assume h: "h < HORAS_ANIO"
    then have h1: "h - 1 < HORAS_ANIO" by simp
    have m: "mix (simular p) ! h = t_gen (trazas p ! h)"
      "mix (simular p) ! (h - 1) = t_gen (trazas p ! (h - 1))"
      using h h1 by (simp_all add: simular_series length_trazas)
    have c: "t_gasAnterior (trazas p ! h) = (if h = 0 then 0 else gen_gas (t_gen (trazas p ! (h - 1))))"
      by (rule trazas_cadena[OF h])
    show "gen_gas (mix (simular p) ! h) \<le> ccgt p
         \<and> t_gasAnterior (trazas p ! h) = (if h = 0 then 0 else gen_gas (mix (simular p) ! (h - 1)))
         \<and> gen_gas (mix (simular p) ! h) \<le> t_gasAnterior (trazas p ! h) + ccgt p * 0.15
         \<and> (if h = 0 then gen_gas (mix (simular p) ! h) \<le> ccgt p * 0.15
            else gen_gas (mix (simular p) ! h) \<le> gen_gas (mix (simular p) ! (h - 1)) + ccgt p * 0.15)"
      using q[OF h] c unfolding m Q_def RAMPA_CCGT_def by (cases "h = 0") simp_all
  qed
qed

theorem rampa_gas_witness:
  "0 \<le> ccgt PARAMS_DEFAULT
   \<and> gen_gas (mix (simular PARAMS_DEFAULT) ! 0) \<le> 24 * 0.15
   \<and> gen_gas (mix (simular PARAMS_DEFAULT) ! 1) \<le> gen_gas (mix (simular PARAMS_DEFAULT) ! 0) + 24 * 0.15
   \<and> gen_gas (mix (simular PARAMS_DEFAULT) ! 1) \<le> 24"
proof -
  have c: "0 \<le> ccgt PARAMS_DEFAULT" by (simp add: PARAMS_DEFAULT_def)
  have h: "(0::nat) < HORAS_ANIO" "(1::nat) < HORAS_ANIO" by (simp_all add: HORAS_ANIO_def)
  have v: "ccgt PARAMS_DEFAULT = 24" by (simp add: PARAMS_DEFAULT_def)
  show ?thesis
    using rampa_gas[OF c, rule_format, OF h(1)] rampa_gas[OF c, rule_format, OF h(2)] c
    unfolding v by simp
qed

subsection \<open>The deficit handed to price formation\<close>



subsection \<open>Bounds on the demand series\<close>

lemma gauss_cota: "\<bar>fst (SeededRNG_gauss 0 sigma s)\<bar> \<le> 14 * \<bar>sigma\<bar>"
proof -
  define u1 where "u1 = max (1 / 10 ^ 10) (fst (SeededRNG_next s))"
  define u2 where "u2 = fst (SeededRNG_next (snd (SeededRNG_next s)))"
  have val: "fst (SeededRNG_gauss 0 sigma s) = sigma * (sqrt (- 2 * ln u1) * cos (2 * pi * u2))"
    unfolding SeededRNG_gauss_def Let_def split_def u1_def u2_def by simp
  have lo: "1 / 10 ^ 10 \<le> u1" and pos: "0 < u1"
    unfolding u1_def by (simp_all add: less_max_iff_disj)
  have hi: "u1 \<le> 1"
    unfolding u1_def using next_rango[of s] by simp
  have "ln (10::real) \<le> 10 - 1"
    by (rule ln_le_minus_one) simp
  then have "ln ((10::real) ^ 10) \<le> 90"
    using ln_realpow[of "10::real" 10] by simp
  moreover have "ln (1 / (10::real) ^ 10) = - ln (10 ^ 10)"
    by (simp add: ln_div)
  moreover have "ln (1 / 10 ^ 10) \<le> ln u1"
    using lo by (subst ln_le_cancel_iff) (use pos in simp_all)
  ultimately have l1: "- 90 \<le> ln u1" by linarith
  have l2: "ln u1 \<le> 0"
    using hi pos by simp
  have "sqrt (- 2 * ln u1) \<le> sqrt 196"
    using l1 by (subst real_sqrt_le_iff) linarith
  moreover have "sqrt 196 = 14"
    using real_sqrt_abs[of 14] by simp
  ultimately have s: "sqrt (- 2 * ln u1) \<le> 14" by simp
  have s0: "0 \<le> sqrt (- 2 * ln u1)"
    using l2 by simp
  have "\<bar>sqrt (- 2 * ln u1) * cos (2 * pi * u2)\<bar> = sqrt (- 2 * ln u1) * \<bar>cos (2 * pi * u2)\<bar>"
    using s0 by (simp add: abs_mult)
  also have "\<dots> \<le> 14 * 1"
    using s s0 by (intro mult_mono) simp_all
  finally have "\<bar>sqrt (- 2 * ln u1) * cos (2 * pi * u2)\<bar> \<le> 14" by simp
  then have "\<bar>sigma\<bar> * \<bar>sqrt (- 2 * ln u1) * cos (2 * pi * u2)\<bar> \<le> \<bar>sigma\<bar> * 14"
    by (intro mult_left_mono) simp_all
  then show ?thesis
    unfolding val by (simp add: abs_mult mult.commute)
qed

lemma mesDe_menor: "mesDe dia < 12"
  by (simp add: mesDe_def)

lemma temp_mensual_cotas:
  assumes "m < 12"
  shows "6 \<le> TEMP_MENSUAL ! m \<and> TEMP_MENSUAL ! m \<le> 27"
proof -
  have todos: "\<forall>x \<in> set TEMP_MENSUAL. 6 \<le> x \<and> x \<le> 27"
    by (simp add: TEMP_MENSUAL_def)
  have "length TEMP_MENSUAL = 12"
    by (simp add: TEMP_MENSUAL_def)
  then have "TEMP_MENSUAL ! m \<in> set TEMP_MENSUAL"
    using assms by simp
  with todos show ?thesis by blast
qed

lemma producto_cotas:
  fixes a b c e :: real
  assumes "62 / 100 \<le> a" "a \<le> 122 / 100" "87 / 100 \<le> b" "b \<le> 104 / 100"
    and "1 \<le> c" "c \<le> 3 / 2" "97 / 100 \<le> e" "e \<le> 103 / 100"
  shows "1 / 2 \<le> a * b * c * e" and "a * b * c * e \<le> 2"
proof -
  have ab: "(62 / 100) * (87 / 100) \<le> a * b" "a * b \<le> (122 / 100) * (104 / 100)"
    using assms by (intro mult_mono; simp)+
  then have ab0: "0 \<le> a * b" by simp
  have abc: "(62 / 100) * (87 / 100) * 1 \<le> a * b * c" "a * b * c \<le> (122 / 100) * (104 / 100) * (3 / 2)"
    using ab ab0 assms by (intro mult_mono; simp)+
  then have abc0: "0 \<le> a * b * c" by simp
  have "(62 / 100) * (87 / 100) * 1 * (97 / 100) \<le> a * b * c * e"
    using abc abc0 assms by (intro mult_mono; simp)
  then show "1 / 2 \<le> a * b * c * e" by simp
  have "a * b * c * e \<le> (122 / 100) * (104 / 100) * (3 / 2) * (103 / 100)"
    using abc abc0 assms by (intro mult_mono; simp)
  then show "a * b * c * e \<le> 2" by simp
qed

lemma demandaHoras_cotas:
  "x \<in> set (demandaHoras hs seed) \<Longrightarrow> 1 / 2 \<le> x \<and> x \<le> 2"
proof (induction hs arbitrary: seed)
  case Nil
  then show ?case by simp
next
  case (Cons i hs)
  define hora where "hora = i mod 24"
  define r where "r = SeededRNG_gauss 0 1.5 seed"
  define temp where "temp = TEMP_MENSUAL ! mesDe (i div 24) + 4.5 * sin ((real hora - 6) * pi / 12) + fst r"
  define factorTemp where "factorTemp =
    (if temp > 25 then 1 + (temp - 25) * 0.018 else if temp < 15 then 1 + (15 - temp) * 0.013 else 1)"
  define E1 where "E1 = exp (- (((real hora - 10) / 2.8)\<^sup>2))"
  define E2 where "E2 = exp (- (((real hora - 20) / 2.5)\<^sup>2))"
  define perfil where "perfil = 0.62 + E1 * 0.28 + E2 * 0.32"
  define laboral where "laboral = (if (i div 24) mod 7 < 5 then 1.04 else 0.87 :: real)"
  define nx where "nx = SeededRNG_next (snd r)"
  define ruido where "ruido = 0.97 + fst nx * 0.06"
  have lista: "demandaHoras (i # hs) seed
                = perfil * laboral * factorTemp * ruido # demandaHoras hs (snd nx)"
    unfolding perfil_def E1_def E2_def laboral_def factorTemp_def ruido_def nx_def temp_def
      r_def hora_def
    by (simp add: Let_def)
  have g: "\<bar>fst r\<bar> \<le> 21"
    unfolding r_def using gauss_cota[of "1.5" seed] by simp
  have tm: "6 \<le> TEMP_MENSUAL ! mesDe (i div 24) \<and> TEMP_MENSUAL ! mesDe (i div 24) \<le> 27"
    by (rule temp_mensual_cotas[OF mesDe_menor])
  have sn: "- 1 \<le> sin ((real hora - 6) * pi / 12)" "sin ((real hora - 6) * pi / 12) \<le> 1"
    by simp_all
  have t: "- 20 \<le> temp" "temp \<le> 52.5"
    unfolding temp_def using g tm sn by linarith+
  have ft: "1 \<le> factorTemp" "factorTemp \<le> 3 / 2"
    unfolding factorTemp_def using t by auto
  have e1: "0 \<le> E1" "E1 \<le> 1" and e2: "0 \<le> E2" "E2 \<le> 1"
    unfolding E1_def E2_def by simp_all
  have "perfil = 62 / 100 + E1 * (28 / 100) + E2 * (32 / 100)"
    unfolding perfil_def by simp
  then have pf: "62 / 100 \<le> perfil" "perfil \<le> 122 / 100"
    using e1 e2 by linarith+
  have lb: "87 / 100 \<le> laboral" "laboral \<le> 104 / 100"
    unfolding laboral_def by simp_all
  have "ruido = 97 / 100 + fst nx * (6 / 100)"
    unfolding ruido_def by simp
  then have rd: "97 / 100 \<le> ruido" "ruido \<le> 103 / 100"
    using next_rango[of "snd r"] unfolding nx_def by linarith+
  have cab: "1 / 2 \<le> perfil * laboral * factorTemp * ruido \<and> perfil * laboral * factorTemp * ruido \<le> 2"
    using producto_cotas[OF pf lb ft rd] by simp
  from Cons.prems have "x = perfil * laboral * factorTemp * ruido \<or> x \<in> set (demandaHoras hs (snd nx))"
    unfolding lista by simp
  then show ?case
    using cab Cons.IH by blast
qed

lemma length_demandaHoras: "length (demandaHoras hs seed) = length hs"
  by (induction hs arbitrary: seed) (simp_all add: Let_def)

lemma serieDemanda_cotas:
  assumes "h < HORAS_ANIO"
  shows "1 / 2 \<le> generarSerieDemanda s ! h \<and> generarSerieDemanda s ! h \<le> 2"
proof -
  have "generarSerieDemanda s ! h \<in> set (demandaHoras [0..<HORAS_ANIO] s)"
    unfolding generarSerieDemanda_def using assms by (simp add: length_demandaHoras)
  then show ?thesis by (rule demandaHoras_cotas)
qed

lemma demandaMedia_cotas:
  "20 \<le> calcularDemandaAjustada p * 1000 / real HORAS_ANIO
   \<and> calcularDemandaAjustada p * 1000 / real HORAS_ANIO \<le> 42"
proof -
  have "180 \<le> calcularDemandaAjustada p" "calcularDemandaAjustada p \<le> 360"
    unfolding calcularDemandaAjustada_def Let_def by simp_all
  then show ?thesis
    unfolding HORAS_ANIO_def by simp
qed

lemma demandaHora_cotas:
  assumes "h < HORAS_ANIO"
  shows "10 \<le> calcularDemandaAjustada p * 1000 / real HORAS_ANIO * generarSerieDemanda s ! h"
    and "calcularDemandaAjustada p * 1000 / real HORAS_ANIO * generarSerieDemanda s ! h \<le> 84"
proof -
  let ?d = "calcularDemandaAjustada p * 1000 / real HORAS_ANIO"
  let ?s = "generarSerieDemanda s ! h"
  have "20 * (1 / 2) \<le> ?d * ?s"
    using demandaMedia_cotas[of p] serieDemanda_cotas[OF assms, of s]
    by (intro mult_mono) simp_all
  then show "10 \<le> ?d * ?s" by simp
  have "?d * ?s \<le> 42 * 2"
    using demandaMedia_cotas[of p] serieDemanda_cotas[OF assms, of s]
    by (intro mult_mono) simp_all
  then show "?d * ?s \<le> 84" by simp
qed

lemma trazas_invariante_demanda:
  assumes "\<And>d sd sv h st. 10 \<le> d * sd \<Longrightarrow> d * sd \<le> 84 \<Longrightarrow> I st \<Longrightarrow>
             I (fst (pasoHora p (calcularNuclearDisponible p) d sd sv h st))
             \<and> Q (snd (pasoHora p (calcularNuclearDisponible p) d sd sv h st))"
    and "I (estadoInicial p)"
  shows "\<forall>t \<in> set (trazas p). Q t"
proof -
  let ?d = "calcularDemandaAjustada p * 1000 / real HORAS_ANIO"
  let ?sD = "generarSerieDemanda (semilla p * 3 + 7)"
  let ?sV = "generarSerieViento (semilla p * 7 + 13)"
  have paso: "I (fst (pasoHora p (calcularNuclearDisponible p) ?d (?sD ! h) (?sV ! h) h st))
              \<and> Q (snd (pasoHora p (calcularNuclearDisponible p) ?d (?sD ! h) (?sV ! h) h st))"
    if "h \<in> set [0..<HORAS_ANIO]" "I st" for h st
  proof -
    have h: "h < HORAS_ANIO" using that(1) by simp
    show ?thesis
      by (rule assms(1)[OF demandaHora_cotas[OF h] that(2)])
  qed
  show ?thesis
    unfolding trazas_def ejecutarBucle_def Let_def
    using bucle_invariante[where I = I and Q = Q and hs = "[0..<HORAS_ANIO]", OF paso assms(2)]
    by blast
qed

subsection \<open>A scenario without capacity\<close>

lemma asignar_sinCapacidad:
  assumes "ccgt p = 0" "interconexion p = 0" "f \<le> 0" "0 < dem"
  shows "asignar p f dem (genInicial 0 0 0) 0 0 0 0 =
           \<lparr> a_gen = genInicial 0 0 0, a_estadoBateria = 0, a_estadoBombeo = 0,
             a_flexUp = 0, a_flexDown = 0, a_deficit = dem \<rparr>"
  using assms
  unfolding asignar_def ramaDeficit_def Let_def genInicial_def tramo_def descarga_def
    despachoGas_def RAMPA_CCGT_def
  by simp

lemma precio_sinCapacidad:
  assumes "1 \<le> dem"
  shows "calcularPrecioMarginal p (genInicial 0 0 0) dem 0
           (contextoPrecio dem 0 (genInicial 0 0 0)) 0
         = min 500 (max (- 25) (max 36 (precioEscasez p) * (1 + perdidasRed p) + cargosSistema p))"
proof -
  have t: "precioTecnologia p (genInicial 0 0 0) 0 0 = 36"
    unfolding precioTecnologia_def Let_def genInicial_def by simp
  have c: "contextoPrecio dem 0 (genInicial 0 0 0)
           = \<lparr> ctx_importacion = 0, ctx_exportacion = 0, ctx_deficit = dem \<rparr>"
    unfolding contextoPrecio_def genInicial_def using assms by simp
  have m: "max 1 dem = dem" using assms by simp
  have "precioRegulado p (genInicial 0 0 0) dem 0
          \<lparr> ctx_importacion = 0, ctx_exportacion = 0, ctx_deficit = dem \<rparr> 0
        = max 36 (precioEscasez p) * (1 + perdidasRed p) + cargosSistema p"
    unfolding precioRegulado_def Let_def t using assms by (simp add: m)
  then show ?thesis
    unfolding calcularPrecioMarginal_def c by simp
qed

lemma paso_sinCapacidad:
  assumes "solar p = 0" "eolica p = 0" "hidraulica p = 0" "ccgt p = 0"
    and "flexibilidadGW p = 0" "interconexion p = 0"
    and "estadoBateria st = 0" "estadoBombeo st = 0" "gasAnterior st = 0"
    and "10 \<le> d * sd"
  shows "snd (pasoHora p 0 d sd sv h st) =
           \<lparr> t_gen = genInicial 0 0 0,
             t_precio = min 500 (max (- 25)
                          (max 36 (precioEscasez p) * (1 + perdidasRed p) + cargosSistema p)),
             t_demandaGW = d * sd, t_genBase = 0, t_flexUp = 0, t_flexDown = 0,
             t_deficit = d * sd, t_ctxDeficit = d * sd, t_gasAnterior = 0,
             t_bateriaAsignada = 0, t_estadoBateria = 0, t_estadoBombeo = 0 \<rparr>"
    and "estadoBateria (fst (pasoHora p 0 d sd sv h st)) = 0"
    and "estadoBombeo (fst (pasoHora p 0 d sd sv h st)) = 0"
    and "gasAnterior (fst (pasoHora p 0 d sd sv h st)) = 0"
proof -
  have pos: "0 < d * sd" "1 \<le> d * sd" using assms(10) by simp_all
  have g0: "genInicial (0 * FC_NUCLEAR) (0 * x) (0 * y) = genInicial 0 0 0" for x y
    by simp
  note a = asignar_sinCapacidad[OF assms(4) assms(6) _ pos(1)]
  have gb: "gen_nuclear (genInicial 0 0 0) + gen_solar (genInicial 0 0 0)
            + gen_eolica (genInicial 0 0 0) = 0"
    by (simp add: genInicial_def)
  have gg: "gen_gas (genInicial 0 0 0) = 0"
    by (simp add: genInicial_def)
  have c: "ctx_deficit (contextoPrecio (d * sd) 0 (genInicial 0 0 0)) = d * sd"
    unfolding contextoPrecio_def genInicial_def using pos by simp
  show "snd (pasoHora p 0 d sd sv h st) =
           \<lparr> t_gen = genInicial 0 0 0,
             t_precio = min 500 (max (- 25)
                          (max 36 (precioEscasez p) * (1 + perdidasRed p) + cargosSistema p)),
             t_demandaGW = d * sd, t_genBase = 0, t_flexUp = 0, t_flexDown = 0,
             t_deficit = d * sd, t_ctxDeficit = d * sd, t_gasAnterior = 0,
             t_bateriaAsignada = 0, t_estadoBateria = 0, t_estadoBombeo = 0 \<rparr>"
    unfolding pasoHora_def Let_def assms(1-9) g0 gb
    using pos by (simp add: a c precio_sinCapacidad[OF pos(2)])
  show "estadoBateria (fst (pasoHora p 0 d sd sv h st)) = 0"
    "estadoBombeo (fst (pasoHora p 0 d sd sv h st)) = 0"
    "gasAnterior (fst (pasoHora p 0 d sd sv h st)) = 0"
    unfolding pasoHora_def Let_def assms(1-9) g0 gb
    by (simp_all add: a gg)
qed

lemma trazas_sinCapacidad:
  assumes "calcularNuclearDisponible p = 0" "solar p = 0" "eolica p = 0" "hidraulica p = 0"
    and "ccgt p = 0" "flexibilidadGW p = 0" "interconexion p = 0"
    and "bateriasCapacidad p = 0" "bombeoCapacidad p = 0"
  shows "\<forall>t \<in> set (trazas p).
           10 \<le> t_demandaGW t \<and> t_gen t = genInicial 0 0 0 \<and> t_genBase t = 0
         \<and> t_flexUp t = 0 \<and> t_flexDown t = 0 \<and> t_deficit t = t_demandaGW t
         \<and> t_precio t = min 500 (max (- 25)
                           (max 36 (precioEscasez p) * (1 + perdidasRed p) + cargosSistema p))"
proof (rule trazas_invariante_demanda[where
         I = "\<lambda>st::estado. estadoBateria st = 0 \<and> estadoBombeo st = 0 \<and> gasAnterior st = 0"])
  show "estadoBateria (estadoInicial p) = 0 \<and> estadoBombeo (estadoInicial p) = 0
        \<and> gasAnterior (estadoInicial p) = 0"
    using assms(8,9) by (simp add: estadoInicial_def)
next
  fix d sd sv :: real and h :: nat and st :: estado
  assume dem: "10 \<le> d * sd"
    and st: "estadoBateria st = 0 \<and> estadoBombeo st = 0 \<and> gasAnterior st = 0"
  note P = paso_sinCapacidad[OF assms(2-7) st[THEN conjunct1] st[THEN conjunct2, THEN conjunct1]
      st[THEN conjunct2, THEN conjunct2] dem, of sv h]
  show "(estadoBateria (fst (pasoHora p (calcularNuclearDisponible p) d sd sv h st)) = 0
         \<and> estadoBombeo (fst (pasoHora p (calcularNuclearDisponible p) d sd sv h st)) = 0
         \<and> gasAnterior (fst (pasoHora p (calcularNuclearDisponible p) d sd sv h st)) = 0)
      \<and> (10 \<le> t_demandaGW (snd (pasoHora p (calcularNuclearDisponible p) d sd sv h st))
         \<and> t_gen (snd (pasoHora p (calcularNuclearDisponible p) d sd sv h st)) = genInicial 0 0 0
         \<and> t_genBase (snd (pasoHora p (calcularNuclearDisponible p) d sd sv h st)) = 0
         \<and> t_flexUp (snd (pasoHora p (calcularNuclearDisponible p) d sd sv h st)) = 0
         \<and> t_flexDown (snd (pasoHora p (calcularNuclearDisponible p) d sd sv h st)) = 0
         \<and> t_deficit (snd (pasoHora p (calcularNuclearDisponible p) d sd sv h st))
             = t_demandaGW (snd (pasoHora p (calcularNuclearDisponible p) d sd sv h st))
         \<and> t_precio (snd (pasoHora p (calcularNuclearDisponible p) d sd sv h st))
             = min 500 (max (- 25)
                 (max 36 (precioEscasez p) * (1 + perdidasRed p) + cargosSistema p)))"
    unfolding assms(1) P using dem by simp
qed


lemma escenarioPerdidasNegativas_precio:
  assumes "0 \<le> e" "e \<le> 200"
  shows "\<forall>t \<in> set (trazas (escenarioPerdidasNegativas e)). t_precio t = 200 - max 36 e"
proof -
  let ?p = "escenarioPerdidasNegativas e"
  have k: "min 500 (max (- 25) (max 36 (precioEscasez ?p) * (1 + perdidasRed ?p) + cargosSistema ?p))
           = 200 - max 36 e"
    using assms by (simp add: escenarioPerdidasNegativas_def escenarioSinCapacidad_def)
  have "\<forall>t \<in> set (trazas ?p).
           10 \<le> t_demandaGW t \<and> t_gen t = genInicial 0 0 0 \<and> t_genBase t = 0
         \<and> t_flexUp t = 0 \<and> t_flexDown t = 0 \<and> t_deficit t = t_demandaGW t
         \<and> t_precio t = min 500 (max (- 25)
                           (max 36 (precioEscasez ?p) * (1 + perdidasRed ?p) + cargosSistema ?p))"
    by (rule trazas_sinCapacidad)
       (simp_all add: escenarioPerdidasNegativas_def escenarioSinCapacidad_def PARAMS_DEFAULT_def
          calcularNuclearDisponible_def)
  then show ?thesis
    unfolding k by blast
qed

lemma escenarioGasNegativo_gas:
  "\<forall>t \<in> set (trazas escenarioGasNegativo). gen_gas (t_gen t) = 0"
proof (rule trazas_invariante_demanda[where I = "\<lambda>st::estado. True"])
  show True ..
next
  fix d sd sv :: real and h :: nat and st :: estado
  assume dem: "d * sd \<le> 84"
  let ?t = "snd (pasoHora escenarioGasNegativo (calcularNuclearDisponible escenarioGasNegativo)
                   d sd sv h st)"
  have n: "calcularNuclearDisponible escenarioGasNegativo = 100"
    by (simp add: escenarioGasNegativo_def calcularNuclearDisponible_def)
  have "t_genBase ?t = 90" "t_demandaGW ?t = d * sd"
    unfolding pasoHora_def Let_def n
    by (simp_all add: escenarioGasNegativo_def genInicial_def FC_NUCLEAR_def)
  then have "t_genBase ?t > t_demandaGW ?t"
    using dem by simp
  then have "gen_gas (t_gen ?t) = 0"
    using paso_excedente by blast
  then show "True \<and> gen_gas (t_gen ?t) = 0" by simp
qed

subsection \<open>Raising the scarcity price\<close>

lemma escasez_campos:
  "nuclear (p\<lparr>precioEscasez := e\<rparr>) = nuclear p"
  "hidraulica (p\<lparr>precioEscasez := e\<rparr>) = hidraulica p"
  "ccgt (p\<lparr>precioEscasez := e\<rparr>) = ccgt p"
  "bateriasPotencia (p\<lparr>precioEscasez := e\<rparr>) = bateriasPotencia p"
  "bateriasCapacidad (p\<lparr>precioEscasez := e\<rparr>) = bateriasCapacidad p"
  "bombeo (p\<lparr>precioEscasez := e\<rparr>) = bombeo p"
  "bombeoCapacidad (p\<lparr>precioEscasez := e\<rparr>) = bombeoCapacidad p"
  "precioGas (p\<lparr>precioEscasez := e\<rparr>) = precioGas p"
  "precioCO2 (p\<lparr>precioEscasez := e\<rparr>) = precioCO2 p"
  "rendimientoCCGT (p\<lparr>precioEscasez := e\<rparr>) = rendimientoCCGT p"
  "omCCGT (p\<lparr>precioEscasez := e\<rparr>) = omCCGT p"
  "cargosSistema (p\<lparr>precioEscasez := e\<rparr>) = cargosSistema p"
  "perdidasRed (p\<lparr>precioEscasez := e\<rparr>) = perdidasRed p"
  "semilla (p\<lparr>precioEscasez := e\<rparr>) = semilla p"
  "demandaAnual (p\<lparr>precioEscasez := e\<rparr>) = demandaAnual p"
  "hidraulicidad (p\<lparr>precioEscasez := e\<rparr>) = hidraulicidad p"
  "anioObjetivo (p\<lparr>precioEscasez := e\<rparr>) = anioObjetivo p"
  "crecimientoDemanda (p\<lparr>precioEscasez := e\<rparr>) = crecimientoDemanda p"
  "electrificacionTWh (p\<lparr>precioEscasez := e\<rparr>) = electrificacionTWh p"
  "eficienciaDemanda (p\<lparr>precioEscasez := e\<rparr>) = eficienciaDemanda p"
  "aplicarPlanNuclear (p\<lparr>precioEscasez := e\<rparr>) = aplicarPlanNuclear p"
  "cierreNuclear (p\<lparr>precioEscasez := e\<rparr>) = cierreNuclear p"
  "interconexion (p\<lparr>precioEscasez := e\<rparr>) = interconexion p"
  "precioImport (p\<lparr>precioEscasez := e\<rparr>) = precioImport p"
  "precioExport (p\<lparr>precioEscasez := e\<rparr>) = precioExport p"
  "precioEscasez (p\<lparr>precioEscasez := e\<rparr>) = e"
  by simp_all

lemma asignar_escasez:
  "asignar (p\<lparr>precioEscasez := e\<rparr>) f dem g0 hdisp ga eB eBo = asignar p f dem g0 hdisp ga eB eBo"
  unfolding asignar_def ramaExcedente_def ramaDeficit_def cargaDeBombeo_def despachoGas_def
    escasez_campos
  by (rule refl)

lemma calcularHidro_escasez: "calcularHidro (p\<lparr>precioEscasez := e\<rparr>) dia = calcularHidro p dia"
  unfolding calcularHidro_def escasez_campos by (rule refl)

lemma precioTecnologia_escasez:
  "precioTecnologia (p\<lparr>precioEscasez := e\<rparr>) g r ga = precioTecnologia p g r ga"
  unfolding precioTecnologia_def costeCCGT_def escasez_campos by (rule refl)

lemma precio_monotono:
  assumes "precioEscasez p \<le> e" "0 \<le> 1 + perdidasRed p"
  shows "calcularPrecioMarginal p g dem r ctx ga
         \<le> calcularPrecioMarginal (p\<lparr>precioEscasez := e\<rparr>) g dem r ctx ga"
proof -
  define precio1 where "precio1 =
    (if ctx_importacion ctx > 0
     then max (precioTecnologia p g r ga)
            (precioImport p * (0.85 + 0.3 * min 1 (ctx_importacion ctx / max 0.5 (interconexion p))))
     else precioTecnologia p g r ga)"
  define precio2 where "precio2 =
    (if ctx_exportacion ctx > 0 then min precio1 (precioExport p + 10) else precio1)"
  define m where "m = min 1 (ctx_deficit ctx / max 1 dem * 4)"
  define precio3 where "precio3 = (\<lambda>pe. if ctx_deficit ctx > 0.3 then max precio2 (pe * m) else precio2)"
  have r1: "precioRegulado p g dem r ctx ga
            = precio3 (precioEscasez p) * (1 + perdidasRed p) + cargosSistema p"
    unfolding precioRegulado_def Let_def precio3_def m_def precio2_def precio1_def
    by (rule refl)
  have r2: "precioRegulado (p\<lparr>precioEscasez := e\<rparr>) g dem r ctx ga
            = precio3 e * (1 + perdidasRed p) + cargosSistema p"
    unfolding precioRegulado_def Let_def precio3_def m_def precio2_def precio1_def
      precioTecnologia_escasez escasez_campos
    by (rule refl)
  have "precio3 (precioEscasez p) \<le> precio3 e"
  proof (cases "ctx_deficit ctx > 0.3")
    case True
    then have "0 \<le> ctx_deficit ctx / max 1 dem * 4" by simp
    then have "0 \<le> m" unfolding m_def by simp
    then have "precioEscasez p * m \<le> e * m"
      using assms(1) by (rule mult_right_mono[rotated])
    then show ?thesis
      unfolding precio3_def using True by (simp add: max.coboundedI2)
  next
    case False
    then show ?thesis unfolding precio3_def by simp
  qed
  then have "precio3 (precioEscasez p) * (1 + perdidasRed p) \<le> precio3 e * (1 + perdidasRed p)"
    using assms(2) by (rule mult_right_mono)
  then have "precioRegulado p g dem r ctx ga \<le> precioRegulado (p\<lparr>precioEscasez := e\<rparr>) g dem r ctx ga"
    unfolding r1 r2 by simp
  then show ?thesis
    unfolding calcularPrecioMarginal_def by (simp add: min.coboundedI2 max.coboundedI2)
qed

lemma paso_escasez:
  assumes "precioEscasez p \<le> e" "0 \<le> 1 + perdidasRed p" "mismoDespacho st st'"
  shows "mismoDespacho (fst (pasoHora p n d sd sv h st))
           (fst (pasoHora (p\<lparr>precioEscasez := e\<rparr>) n d sd sv h st'))"
    and "precioNoMenor (snd (pasoHora p n d sd sv h st))
           (snd (pasoHora (p\<lparr>precioEscasez := e\<rparr>) n d sd sv h st'))"
proof -
  have st: "estadoBateria st' = estadoBateria st" "estadoBombeo st' = estadoBombeo st"
    "gasAnterior st' = gasAnterior st" "rngMeteo st' = rngMeteo st"
    using assms(3) unfolding mismoDespacho_def by simp_all
  show "mismoDespacho (fst (pasoHora p n d sd sv h st))
           (fst (pasoHora (p\<lparr>precioEscasez := e\<rparr>) n d sd sv h st'))"
    unfolding pasoHora_def Let_def mismoDespacho_def st
    by (simp add: asignar_escasez calcularHidro_escasez)
  show "precioNoMenor (snd (pasoHora p n d sd sv h st))
           (snd (pasoHora (p\<lparr>precioEscasez := e\<rparr>) n d sd sv h st'))"
    unfolding pasoHora_def Let_def precioNoMenor_def st
    by (simp add: asignar_escasez calcularHidro_escasez precio_monotono[OF assms(1,2)])
qed

lemma bucle_escasez:
  assumes "precioEscasez p \<le> e" "0 \<le> 1 + perdidasRed p"
  shows "mismoDespacho st st' \<Longrightarrow>
         list_all2 precioNoMenor (fst (bucleHorario p n d sD sV hs st))
           (fst (bucleHorario (p\<lparr>precioEscasez := e\<rparr>) n d sD sV hs st'))"
proof (induction hs arbitrary: st st')
  case Nil
  then show ?case by simp
next
  case (Cons h hs)
  note P = paso_escasez[OF assms Cons.prems, of n d "sD ! h" "sV ! h" h]
  show ?case
    using P(2) Cons.IH[OF P(1)] by (simp add: Let_def)
qed

lemma trazas_escasez:
  assumes "precioEscasez p \<le> e" "0 \<le> 1 + perdidasRed p"
  shows "list_all2 precioNoMenor (trazas p) (trazas (p\<lparr>precioEscasez := e\<rparr>))"
proof -
  have 1: "calcularDemandaAjustada (p\<lparr>precioEscasez := e\<rparr>) = calcularDemandaAjustada p"
    unfolding calcularDemandaAjustada_def escasez_campos by (rule refl)
  have 2: "calcularNuclearDisponible (p\<lparr>precioEscasez := e\<rparr>) = calcularNuclearDisponible p"
    unfolding calcularNuclearDisponible_def escasez_campos by (rule refl)
  have 3: "estadoInicial (p\<lparr>precioEscasez := e\<rparr>) = estadoInicial p"
    unfolding estadoInicial_def escasez_campos by (rule refl)
  have 4: "mismoDespacho (estadoInicial p) (estadoInicial p)"
    unfolding mismoDespacho_def by simp
  show ?thesis
    unfolding trazas_def ejecutarBucle_def Let_def 1 2 3
    using bucle_escasez[OF assms 4] by simp
qed

lemma filter_monotono:
  "list_all2 Rel xs ys \<Longrightarrow> (\<And>x y. Rel x y \<Longrightarrow> P x \<Longrightarrow> P' y) \<Longrightarrow>
   length (filter P xs) \<le> length (filter P' ys)"
  by (induction rule: list_all2_induct) auto

text \<open>
  C6, as amended. For two configurations that differ only in the scarcity price, the second
  not lower than the first, and a network-loss rate of at least -1: the dispatch of every
  hour is the same in both runs, the price of every hour of the second run is not lower than
  that of the first, and so the count of high-price hours of the second run is not lower
  than that of the first.
\<close>

theorem escasez_monotona:
  assumes "precioEscasez p \<le> e" "0 \<le> 1 + perdidasRed p"
  shows "mix (simular (p\<lparr>precioEscasez := e\<rparr>)) = mix (simular p)
       \<and> (\<forall>h < HORAS_ANIO. precios (simular p) ! h \<le> precios (simular (p\<lparr>precioEscasez := e\<rparr>)) ! h)
       \<and> horasPrecioAlto (contadores (simular p))
           \<le> horasPrecioAlto (contadores (simular (p\<lparr>precioEscasez := e\<rparr>)))"
proof -
  let ?p' = "p\<lparr>precioEscasez := e\<rparr>"
  note L = trazas_escasez[OF assms]
  have n: "precioNoMenor (trazas p ! h) (trazas ?p' ! h)" if "h < HORAS_ANIO" for h
    using L that by (simp add: list_all2_conv_all_nth length_trazas)
  have "map t_gen (trazas ?p') = map t_gen (trazas p)"
    using n by (intro nth_equalityI) (simp_all add: length_trazas precioNoMenor_def)
  then have a: "mix (simular ?p') = mix (simular p)"
    by (simp add: simular_series)
  have b: "precios (simular p) ! h \<le> precios (simular ?p') ! h" if "h < HORAS_ANIO" for h
    using n[OF that] that by (simp add: simular_series length_trazas precioNoMenor_def)
  have "length (filter (\<lambda>t. t_precio t > 150) (trazas p))
        \<le> length (filter (\<lambda>t. t_precio t > 150) (trazas ?p'))"
    by (rule filter_monotono[OF L]) (simp add: precioNoMenor_def)
  then have c: "horasPrecioAlto (contadores (simular p)) \<le> horasPrecioAlto (contadores (simular ?p'))"
    by (simp add: simular_contadores)
  show ?thesis using a b c by blast
qed

theorem escasez_monotona_witness:
  "precioEscasez PARAMS_DEFAULT \<le> 500 \<and> 0 \<le> 1 + perdidasRed PARAMS_DEFAULT
   \<and> mix (simular (PARAMS_DEFAULT\<lparr>precioEscasez := 500\<rparr>)) = mix (simular PARAMS_DEFAULT)
   \<and> precios (simular PARAMS_DEFAULT) ! 0 \<le> precios (simular (PARAMS_DEFAULT\<lparr>precioEscasez := 500\<rparr>)) ! 0
   \<and> horasPrecioAlto (contadores (simular PARAMS_DEFAULT))
       \<le> horasPrecioAlto (contadores (simular (PARAMS_DEFAULT\<lparr>precioEscasez := 500\<rparr>)))"
proof -
  have a: "precioEscasez PARAMS_DEFAULT \<le> 500" "0 \<le> 1 + perdidasRed PARAMS_DEFAULT"
    by (simp_all add: PARAMS_DEFAULT_def)
  have h: "(0::nat) < HORAS_ANIO" by (simp add: HORAS_ANIO_def)
  show ?thesis
    using escasez_monotona[OF a] a h by blast
qed

text \<open>
  C6 as stated fails: with a network-loss rate of -2 the regulated pass-through turns a
  higher scarcity floor into a lower price. In the scenario without capacity, with a system
  charge of 200, every hour is priced 164 at a scarcity price of 0 and 100 at a scarcity
  price of 100, so raising the scarcity price takes the count of high-price hours from 8760
  to 0.
\<close>

theorem escasez_monotona_counterexample:
  "precioEscasez (escenarioPerdidasNegativas 0) \<le> 100
   \<and> (escenarioPerdidasNegativas 0)\<lparr>precioEscasez := 100\<rparr> = escenarioPerdidasNegativas 100
   \<and> horasPrecioAlto (contadores (simular (escenarioPerdidasNegativas 0))) = 8760
   \<and> horasPrecioAlto (contadores (simular ((escenarioPerdidasNegativas 0)\<lparr>precioEscasez := 100\<rparr>))) = 0"
proof -
  have e: "(escenarioPerdidasNegativas 0)\<lparr>precioEscasez := 100\<rparr> = escenarioPerdidasNegativas 100"
    by (simp add: escenarioPerdidasNegativas_def)
  have "\<forall>t \<in> set (trazas (escenarioPerdidasNegativas 0)). t_precio t = 200 - max 36 0"
    by (rule escenarioPerdidasNegativas_precio) simp_all
  then have "filter (\<lambda>t. t_precio t > 150) (trazas (escenarioPerdidasNegativas 0))
             = trazas (escenarioPerdidasNegativas 0)"
    by (intro filter_True) simp
  then have a: "horasPrecioAlto (contadores (simular (escenarioPerdidasNegativas 0))) = 8760"
    by (simp add: simular_contadores length_trazas HORAS_ANIO_def)
  have "\<forall>t \<in> set (trazas (escenarioPerdidasNegativas 100)). t_precio t = 200 - max 36 100"
    by (rule escenarioPerdidasNegativas_precio) simp_all
  then have "filter (\<lambda>t. t_precio t > 150) (trazas (escenarioPerdidasNegativas 100)) = []"
    by (intro filter_False) simp
  then have b: "horasPrecioAlto (contadores (simular (escenarioPerdidasNegativas 100))) = 0"
    by (simp add: simular_contadores)
  have c: "precioEscasez (escenarioPerdidasNegativas 0) \<le> 100"
    by (simp add: escenarioPerdidasNegativas_def)
  show ?thesis
    unfolding e using a b c by simp
qed


text \<open>
  C5 as stated fails for a negative installed gas capacity. In the scenario with 100 GW of
  nuclear and an installed gas capacity of -1 GW every hour is a surplus hour, whose gas
  output is 0: above the installed capacity, and above the previous hour's output plus 0.15
  times the installed capacity.
\<close>

theorem rampa_gas_counterexample:
  "\<not> gen_gas (mix (simular escenarioGasNegativo) ! 1) \<le> ccgt escenarioGasNegativo
   \<and> \<not> gen_gas (mix (simular escenarioGasNegativo) ! 1)
         \<le> gen_gas (mix (simular escenarioGasNegativo) ! 0) + ccgt escenarioGasNegativo * 0.15
   \<and> \<not> gen_gas (mix (simular escenarioGasNegativo) ! 0) \<le> ccgt escenarioGasNegativo * 0.15"
proof -
  have h: "(0::nat) < HORAS_ANIO" "(1::nat) < HORAS_ANIO" by (simp_all add: HORAS_ANIO_def)
  have g: "gen_gas (t_gen (trazas escenarioGasNegativo ! 0)) = 0"
    "gen_gas (t_gen (trazas escenarioGasNegativo ! 1)) = 0"
    using escenarioGasNegativo_gas trazas_nth[OF h(1)] trazas_nth[OF h(2)] by blast+
  have m: "mix (simular escenarioGasNegativo) ! 0 = t_gen (trazas escenarioGasNegativo ! 0)"
    "mix (simular escenarioGasNegativo) ! 1 = t_gen (trazas escenarioGasNegativo ! 1)"
    using h by (simp_all add: simular_series length_trazas)
  have c: "ccgt escenarioGasNegativo = - 1"
    by (simp add: escenarioGasNegativo_def)
  show ?thesis
    unfolding m g c by simp
qed

subsection \<open>Percentiles\<close>

lemma leer_valido: "0 \<le> i \<Longrightarrow> i < int (length xs) \<Longrightarrow> leer xs i = Some (xs ! nat i)"
  by (simp add: leer_def)

lemma posicion_indices:
  assumes "0 \<le> k" "k \<le> real n - 1"
  shows "0 \<le> \<lfloor>k\<rfloor>" "\<lceil>k\<rceil> < int n" "\<lfloor>k\<rfloor> < int n" "0 \<le> \<lceil>k\<rceil>"
proof -
  show f0: "0 \<le> \<lfloor>k\<rfloor>" using assms(1) by simp
  have "k \<le> of_int (int n - 1)" using assms(2) by simp
  then have "\<lceil>k\<rceil> \<le> int n - 1" by (simp only: ceiling_le_iff)
  then show c: "\<lceil>k\<rceil> < int n" by simp
  show "\<lfloor>k\<rfloor> < int n" using c floor_le_ceiling[of k] by linarith
  show "0 \<le> \<lceil>k\<rceil>" using f0 floor_le_ceiling[of k] by linarith
qed

lemma percentil_interpolar:
  assumes "arr \<noteq> []" "0 \<le> p" "p \<le> 100"
  shows "percentil arr p = Some (interpolar (sort arr) ((real (length arr) - 1) * (p / 100)))"
proof -
  define k where "k = (real (length arr) - 1) * (p / 100)"
  have n: "1 \<le> real (length arr)"
    using assms(1) by (cases arr) simp_all
  have k0: "0 \<le> k" unfolding k_def using n assms(2) by simp
  have "(real (length arr) - 1) * (p / 100) \<le> (real (length arr) - 1) * 1"
    using n assms(3) by (intro mult_left_mono) simp_all
  then have k1: "k \<le> real (length (sort arr)) - 1" unfolding k_def by simp
  note I = posicion_indices[OF k0 k1]
  have lf: "leer (sort arr) \<lfloor>k\<rfloor> = Some (sort arr ! nat \<lfloor>k\<rfloor>)"
    by (rule leer_valido[OF I(1) I(3)])
  have lc: "leer (sort arr) \<lceil>k\<rceil> = Some (sort arr ! nat \<lceil>k\<rceil>)"
    by (rule leer_valido[OF I(4) I(2)])
  have pk: "percentil arr p =
      (if \<lfloor>k\<rfloor> = \<lceil>k\<rceil> then leer (sort arr) \<lfloor>k\<rfloor>
       else (case (leer (sort arr) \<lfloor>k\<rfloor>, leer (sort arr) \<lceil>k\<rceil>) of
               (Some sf, Some sc) \<Rightarrow> Some (sf + (sc - sf) * (k - of_int \<lfloor>k\<rfloor>))
             | _ \<Rightarrow> None))"
    unfolding percentil_def Let_def length_sort k_def[symmetric] using assms(1) by simp
  have "percentil arr p = Some (interpolar (sort arr) k)"
    unfolding pk interpolar_def lf lc by simp
  then show ?thesis
    unfolding k_def .
qed

lemma interpolar_cotas:
  assumes "sorted s" "0 \<le> k" "k \<le> real (length s) - 1"
  shows "s ! nat \<lfloor>k\<rfloor> \<le> interpolar s k" and "interpolar s k \<le> s ! nat \<lceil>k\<rceil>"
proof -
  note I = posicion_indices[OF assms(2,3)]
  have fc: "nat \<lfloor>k\<rfloor> \<le> nat \<lceil>k\<rceil>" by (rule nat_mono[OF floor_le_ceiling])
  have c: "nat \<lceil>k\<rceil> < length s" using I(2) I(4) by linarith
  have ord: "s ! nat \<lfloor>k\<rfloor> \<le> s ! nat \<lceil>k\<rceil>"
    by (rule sorted_nth_mono[OF assms(1) fc c])
  define t where "t = k - of_int \<lfloor>k\<rfloor>"
  have t: "0 \<le> t" "t \<le> 1" unfolding t_def by linarith+
  define dlt where "dlt = s ! nat \<lceil>k\<rceil> - s ! nat \<lfloor>k\<rfloor>"
  have d: "0 \<le> dlt" unfolding dlt_def using ord by simp
  have p0: "0 \<le> dlt * t" using d t by simp
  have "dlt * t \<le> dlt * 1" using d t by (intro mult_left_mono) simp_all
  then have p1: "dlt * t \<le> dlt" by simp
  have v: "interpolar s k = (if \<lfloor>k\<rfloor> = \<lceil>k\<rceil> then s ! nat \<lfloor>k\<rfloor> else s ! nat \<lfloor>k\<rfloor> + dlt * t)"
    unfolding interpolar_def dlt_def t_def by simp
  show "s ! nat \<lfloor>k\<rfloor> \<le> interpolar s k"
    unfolding v using p0 by simp
  show "interpolar s k \<le> s ! nat \<lceil>k\<rceil>"
  proof (cases "\<lfloor>k\<rfloor> = \<lceil>k\<rceil>")
    case True
    then show ?thesis unfolding v by simp
  next
    case False
    then show ?thesis unfolding v using p1 unfolding dlt_def by simp
  qed
qed

lemma interpolar_mono:
  assumes "sorted s" "0 \<le> k" "k \<le> k'" "k' \<le> real (length s) - 1"
  shows "interpolar s k \<le> interpolar s k'"
proof (cases "\<lceil>k\<rceil> \<le> \<lfloor>k'\<rfloor>")
  case True
  have k1: "k \<le> real (length s) - 1" and k0': "0 \<le> k'" using assms by linarith+
  note I' = posicion_indices[OF k0' assms(4)]
  note I = posicion_indices[OF assms(2) k1]
  have "nat \<lceil>k\<rceil> \<le> nat \<lfloor>k'\<rfloor>" by (rule nat_mono[OF True])
  moreover have "nat \<lfloor>k'\<rfloor> < length s" using I'(1) I'(3) by linarith
  ultimately have "s ! nat \<lceil>k\<rceil> \<le> s ! nat \<lfloor>k'\<rfloor>"
    by (rule sorted_nth_mono[OF assms(1)])
  then show ?thesis
    using interpolar_cotas(2)[OF assms(1,2) k1] interpolar_cotas(1)[OF assms(1) k0' assms(4)]
    by linarith
next
  case False
  have k1: "k \<le> real (length s) - 1" and k0': "0 \<le> k'" using assms by linarith+
  note I' = posicion_indices[OF k0' assms(4)]
  have ff: "\<lfloor>k\<rfloor> \<le> \<lfloor>k'\<rfloor>" using assms(3) by (rule floor_mono)
  have c1: "\<lceil>k\<rceil> \<le> \<lfloor>k\<rfloor> + 1" using ceiling_diff_floor_le_1[of k] by linarith
  have f: "\<lfloor>k'\<rfloor> = \<lfloor>k\<rfloor>" and c: "\<lceil>k\<rceil> = \<lfloor>k\<rfloor> + 1"
    using False ff c1 by linarith+
  have cc: "\<lceil>k\<rceil> \<le> \<lceil>k'\<rceil>" using assms(3) by (rule ceiling_mono)
  have c1': "\<lceil>k'\<rceil> \<le> \<lfloor>k'\<rfloor> + 1" using ceiling_diff_floor_le_1[of k'] by linarith
  have c': "\<lceil>k'\<rceil> = \<lfloor>k\<rfloor> + 1"
    using cc c1' c f by linarith
  have ne: "\<lfloor>k\<rfloor> \<noteq> \<lceil>k\<rceil>" "\<lfloor>k'\<rfloor> \<noteq> \<lceil>k'\<rceil>"
    using c c' f by linarith+
  define a where "a = s ! nat \<lfloor>k\<rfloor>"
  define b where "b = s ! nat (\<lfloor>k\<rfloor> + 1)"
  have v: "interpolar s k = a + (b - a) * (k - of_int \<lfloor>k\<rfloor>)"
    unfolding interpolar_def a_def b_def using ne(1) by (simp add: c)
  have v': "interpolar s k' = a + (b - a) * (k' - of_int \<lfloor>k\<rfloor>)"
    unfolding interpolar_def a_def b_def using ne(2) by (simp add: c' f)
  have "nat \<lfloor>k\<rfloor> \<le> nat (\<lfloor>k\<rfloor> + 1)" by simp
  moreover have "nat (\<lfloor>k\<rfloor> + 1) < length s" using I'(2) I'(4) unfolding c' by linarith
  ultimately have "a \<le> b"
    unfolding a_def b_def by (rule sorted_nth_mono[OF assms(1)])
  then have "(b - a) * (k - of_int \<lfloor>k\<rfloor>) \<le> (b - a) * (k' - of_int \<lfloor>k\<rfloor>)"
    using assms(3) by (intro mult_left_mono) simp_all
  then show ?thesis
    unfolding v v' by simp
qed

lemma percentil_monotono:
  assumes "arr \<noteq> []" "0 \<le> p" "p \<le> q" "q \<le> 100"
  shows "\<exists>a b. percentil arr p = Some a \<and> percentil arr q = Some b \<and> a \<le> b"
proof -
  have p1: "p \<le> 100" and q0: "0 \<le> q" using assms by linarith+
  have n: "1 \<le> real (length arr)"
    using assms(1) by (cases arr) simp_all
  let ?k = "\<lambda>x. (real (length arr) - 1) * (x / 100)"
  have k0: "0 \<le> ?k p" using n assms(2) by simp
  have kk: "?k p \<le> ?k q" using n assms(3) by (intro mult_left_mono) simp_all
  have "?k q \<le> (real (length arr) - 1) * 1"
    using n assms(4) by (intro mult_left_mono) simp_all
  then have k1: "?k q \<le> real (length (sort arr)) - 1" by simp
  have "interpolar (sort arr) (?k p) \<le> interpolar (sort arr) (?k q)"
    by (rule interpolar_mono[OF _ k0 kk k1]) simp
  then show ?thesis
    unfolding percentil_interpolar[OF assms(1,2) p1] percentil_interpolar[OF assms(1) q0 assms(4)]
    by simp
qed

subsection \<open>Arithmetic without overflow\<close>

lemma magnitud_cotas: "1000 \<le> MAGNITUD" "1000 * MAGNITUD * MAGNITUD < UMBRAL_DESBORDE"
  unfolding MAGNITUD_def UMBRAL_DESBORDE_def by simp_all

lemma magnitud_lineal: "1000 * MAGNITUD < UMBRAL_DESBORDE"
proof -
  have "1 \<le> MAGNITUD" "0 \<le> 1000 * MAGNITUD"
    using magnitud_cotas(1) by simp_all
  then have "1000 * MAGNITUD * 1 \<le> 1000 * MAGNITUD * MAGNITUD"
    by (intro mult_left_mono)
  then show ?thesis using magnitud_cotas(2) by simp
qed

lemma redondear_finito: "\<bar>x\<bar> < UMBRAL_DESBORDE \<Longrightarrow> redondear x = Num x"
  unfolding redondear_def by auto

lemma op_suma:
  assumes "\<bar>a\<bar> \<le> ca" "\<bar>b\<bar> \<le> cb" "ca + cb < UMBRAL_DESBORDE"
  shows "Num a + Num b = Num (a + b)" "\<bar>a + b\<bar> \<le> ca + cb"
proof -
  show b: "\<bar>a + b\<bar> \<le> ca + cb" using assms(1,2) by linarith
  then have "\<bar>a + b\<bar> < UMBRAL_DESBORDE" using assms(3) by linarith
  then show "Num a + Num b = Num (a + b)" by (simp add: redondear_finito)
qed

lemma op_resta:
  assumes "\<bar>a\<bar> \<le> ca" "\<bar>b\<bar> \<le> cb" "ca + cb < UMBRAL_DESBORDE"
  shows "Num a - Num b = Num (a - b)" "\<bar>a - b\<bar> \<le> ca + cb"
proof -
  show b: "\<bar>a - b\<bar> \<le> ca + cb" using assms(1,2) by linarith
  then have "\<bar>a + - b\<bar> < UMBRAL_DESBORDE" using assms(3) by simp
  then show "Num a - Num b = Num (a - b)" by (simp add: minus_numero_def redondear_finito)
qed

lemma op_producto:
  assumes "\<bar>a\<bar> \<le> ca" "\<bar>b\<bar> \<le> cb" "ca * cb < UMBRAL_DESBORDE"
  shows "Num a * Num b = Num (a * b)" "\<bar>a * b\<bar> \<le> ca * cb"
proof -
  have "\<bar>a\<bar> * \<bar>b\<bar> \<le> ca * cb"
    using assms(1,2) by (intro mult_mono) simp_all
  then show b: "\<bar>a * b\<bar> \<le> ca * cb" by (simp add: abs_mult)
  then have "\<bar>a * b\<bar> < UMBRAL_DESBORDE" using assms(3) by linarith
  then show "Num a * Num b = Num (a * b)" by (simp add: redondear_finito)
qed

lemma op_cociente:
  assumes "\<bar>a\<bar> \<le> ca" "d \<le> b" "0 < d" "ca / d < UMBRAL_DESBORDE"
  shows "Num a / Num b = Num (a / b)" "\<bar>a / b\<bar> \<le> ca / d"
proof -
  have b0: "0 < b" using assms(2,3) by linarith
  have ca0: "0 \<le> ca" using assms(1) by linarith
  have "\<bar>a\<bar> / b \<le> ca / d"
    using assms(1,2,3) b0 ca0 by (intro frac_le) simp_all
  then show b: "\<bar>a / b\<bar> \<le> ca / d" using b0 by simp
  then have "\<bar>a / b\<bar> < UMBRAL_DESBORDE" using assms(4) by linarith
  then show "Num a / Num b = Num (a / b)" using b0 by (simp add: redondear_finito)
qed

lemma costeCCGT_JS_finito:
  assumes "\<bar>precioGas p\<bar> \<le> MAGNITUD" "\<bar>precioCO2 p\<bar> \<le> MAGNITUD" "\<bar>omCCGT p\<bar> \<le> MAGNITUD"
  shows "costeCCGT_JS p = Num (costeCCGT p)" "\<bar>costeCCGT p\<bar> \<le> 6 * MAGNITUD"
proof -
  note K = magnitud_cotas(1) magnitud_lineal
  define m where "m = max 0.45 (rendimientoCCGT p)"
  have m: "45 / 100 \<le> m" unfolding m_def by simp
  have mx: "Math_max (Num 0.45) (Num (rendimientoCCGT p)) = Num m"
    unfolding m_def by simp
  have u: "\<bar>1::real\<bar> \<le> 1" "\<bar>FACTOR_CO2_GAS\<bar> \<le> 1"
    by (simp_all add: FACTOR_CO2_GAS_def)
  have pq: "(0::real) < 45 / 100" by simp
  have lim: "(1::real) / (45 / 100) < UMBRAL_DESBORDE"
    using K by simp
  note c1 = op_cociente[OF u(1) m pq lim]
  note c2 = op_cociente[OF u(2) m pq lim]
  have l3: "MAGNITUD * (1 / (45 / 100)) < UMBRAL_DESBORDE" using K by simp
  note c3 = op_producto[OF assms(1) c1(2) l3]
  have l4: "1 / (45 / 100) * MAGNITUD < UMBRAL_DESBORDE" using K by simp
  note c4 = op_producto[OF c2(2) assms(2) l4]
  have l5: "MAGNITUD * (1 / (45 / 100)) + 1 / (45 / 100) * MAGNITUD < UMBRAL_DESBORDE"
    using K by simp
  note c5 = op_suma[OF c3(2) c4(2) l5]
  have l6: "MAGNITUD * (1 / (45 / 100)) + 1 / (45 / 100) * MAGNITUD + MAGNITUD < UMBRAL_DESBORDE"
    using K by simp
  note c6 = op_suma[OF c5(2) assms(3) l6]
  have v: "costeCCGT p = precioGas p * (1 / m) + FACTOR_CO2_GAS / m * precioCO2 p + omCCGT p"
    unfolding costeCCGT_def Let_def m_def by (rule refl)
  show "costeCCGT_JS p = Num (costeCCGT p)"
    unfolding costeCCGT_JS_def Let_def mx c1(1) c2(1) c3(1) c4(1) c5(1) c6(1) v by (rule refl)
  have "MAGNITUD * (1 / (45 / 100)) + 1 / (45 / 100) * MAGNITUD + MAGNITUD \<le> 6 * MAGNITUD"
    using K by simp
  with c6(2) show "\<bar>costeCCGT p\<bar> \<le> 6 * MAGNITUD"
    unfolding v by (rule order_trans)
qed

lemma entrada_campos:
  "e_gas (entradaFinita g dem r ctx ga) = Num (gen_gas g)"
  "e_hidraulica (entradaFinita g dem r ctx ga) = Num (gen_hidraulica g)"
  "e_demandaGW (entradaFinita g dem r ctx ga) = Num dem"
  "e_ratioRenovable (entradaFinita g dem r ctx ga) = Num r"
  "e_importacion (entradaFinita g dem r ctx ga) = Num (ctx_importacion ctx)"
  "e_exportacion (entradaFinita g dem r ctx ga) = Num (ctx_exportacion ctx)"
  "e_deficit (entradaFinita g dem r ctx ga) = Num (ctx_deficit ctx)"
  "e_gasAnterior (entradaFinita g dem r ctx ga) = Num ga"
  by (simp_all add: entradaFinita_def)

lemma abs_min_cota: "\<bar>b\<bar> \<le> c \<Longrightarrow> 1 \<le> c \<Longrightarrow> \<bar>min 1 b\<bar> \<le> (c::real)"
  by (simp add: min_def)

lemma abs_max_cota: "\<bar>a\<bar> \<le> c \<Longrightarrow> \<bar>b\<bar> \<le> c \<Longrightarrow> \<bar>max a b\<bar> \<le> (c::real)"
  by (simp add: max_def)

lemma abs_min_cota2: "\<bar>a\<bar> \<le> c \<Longrightarrow> \<bar>b\<bar> \<le> c \<Longrightarrow> \<bar>min a b\<bar> \<le> (c::real)"
  by (simp add: min_def)

lemma precioTecnologia_JS_finito:
  assumes "\<bar>precioGas p\<bar> \<le> MAGNITUD" "\<bar>precioCO2 p\<bar> \<le> MAGNITUD" "\<bar>omCCGT p\<bar> \<le> MAGNITUD"
    and "\<bar>gen_gas g\<bar> \<le> MAGNITUD" "\<bar>gen_hidraulica g\<bar> \<le> MAGNITUD"
    and "\<bar>r\<bar> \<le> MAGNITUD" "\<bar>ga\<bar> \<le> MAGNITUD"
  shows "precioTecnologia_JS p (entradaFinita g dem r ctx ga) = Num (precioTecnologia p g r ga)"
    and "\<bar>precioTecnologia p g r ga\<bar> \<le> 200 * MAGNITUD"
proof -
  note K = magnitud_cotas(1) magnitud_lineal
  note cc = costeCCGT_JS_finito[OF assms(1-3)]
  define mc where "mc = max 0.5 (ccgt p)"
  define mh where "mh = max 0.5 (hidraulica p)"
  have m: "1 / 2 \<le> mc" "1 / 2 \<le> mh" unfolding mc_def mh_def by simp_all
  have mx: "Math_max (Num 0.5) (Num (ccgt p)) = Num mc"
    "Math_max (Num 0.5) (Num (hidraulica p)) = Num mh"
    unfolding mc_def mh_def by simp_all
  have half: "(0::real) < 1 / 2" by simp
  have ld: "MAGNITUD / (1 / 2) < UMBRAL_DESBORDE" using K by simp
  note qc = op_cociente[OF assms(4) m(1) half ld]
  note qh = op_cociente[OF assms(5) m(2) half ld]
  define sc where "sc = min 1 (gen_gas g / mc)"
  define sh where "sh = min 1 (gen_hidraulica g / mh)"
  have smin: "Math_min (Num 1) (Num (gen_gas g / mc)) = Num sc"
    "Math_min (Num 1) (Num (gen_hidraulica g / mh)) = Num sh"
    unfolding sc_def sh_def by simp_all
  have K2: "1 \<le> MAGNITUD / (1 / 2)" using K by simp
  have sb: "\<bar>sc\<bar> \<le> MAGNITUD / (1 / 2)" "\<bar>sh\<bar> \<le> MAGNITUD / (1 / 2)"
    unfolding sc_def sh_def by (rule abs_min_cota[OF qc(2) K2], rule abs_min_cota[OF qh(2) K2])
  have cnd: "(Num 1.20 < Num r) = (1.20 < r)" "(Num 1.05 < Num r) = (1.05 < r)"
    "(Num 0.3 < Num (gen_gas g)) = (0.3 < gen_gas g)"
    "(Num 0.5 < Num (gen_hidraulica g)) = (0.5 < gen_hidraulica g)"
    by simp_all
  have n1: "\<bar>1::real\<bar> \<le> 1" "\<bar>45::real\<bar> \<le> 45" "\<bar>5::real\<bar> \<le> 5" "\<bar>1.2::real\<bar> \<le> 2"
    "\<bar>100::real\<bar> \<le> 100" "\<bar>12::real\<bar> \<le> 12" "\<bar>3::real\<bar> \<le> 3" "\<bar>25::real\<bar> \<le> 25"
    "\<bar>6::real\<bar> \<le> 6" "\<bar>30::real\<bar> \<le> 30"
    by simp_all
  consider (a) "1.20 < r" | (b) "\<not> 1.20 < r" "1.05 < r"
    | (c) "\<not> 1.20 < r" "\<not> 1.05 < r" "0.3 < gen_gas g"
    | (d) "\<not> 1.20 < r" "\<not> 1.05 < r" "\<not> 0.3 < gen_gas g" "0.5 < gen_hidraulica g"
    | (e) "\<not> 1.20 < r" "\<not> 1.05 < r" "\<not> 0.3 < gen_gas g" "\<not> 0.5 < gen_hidraulica g"
    by blast
  then have "precioTecnologia_JS p (entradaFinita g dem r ctx ga) = Num (precioTecnologia p g r ga)
             \<and> \<bar>precioTecnologia p g r ga\<bar> \<le> 200 * MAGNITUD"
  proof cases
    case a
    have l1: "MAGNITUD + 1 < UMBRAL_DESBORDE" using K by simp
    note x1 = op_resta[OF assms(6) n1(1) l1]
    have l2: "(MAGNITUD + 1) * 45 < UMBRAL_DESBORDE" using K by simp
    note x2 = op_producto[OF x1(2) n1(2) l2]
    have l3: "5 + (MAGNITUD + 1) * 45 < UMBRAL_DESBORDE" using K by simp
    note x3 = op_resta[OF n1(3) x2(2) l3]
    have x4: "Math_max (Num (- 20)) (Num (5 - (r - 1) * 45)) = Num (max (- 20) (5 - (r - 1) * 45))"
      by simp
    have v: "precioTecnologia p g r ga = max (- 20) (5 - (r - 1) * 45)"
      unfolding precioTecnologia_def Let_def using a by simp
    have js: "precioTecnologia_JS p (entradaFinita g dem r ctx ga) = Num (max (- 20) (5 - (r - 1) * 45))"
      unfolding precioTecnologia_JS_def Let_def entrada_campos cnd x1(1) x2(1) x3(1) x4
      using a by simp
    have "\<bar>max (- 20) (5 - (r - 1) * 45)\<bar> \<le> 5 + (MAGNITUD + 1) * 45"
      by (rule abs_max_cota) (use x3(2) K in simp_all)
    moreover have "5 + (MAGNITUD + 1) * 45 \<le> 200 * MAGNITUD"
      using K by simp
    ultimately have "\<bar>max (- 20) (5 - (r - 1) * 45)\<bar> \<le> 200 * MAGNITUD"
      by (rule order_trans)
    then show ?thesis unfolding v js by simp
  next
    case b
    have l1: "2 + MAGNITUD < UMBRAL_DESBORDE" using K by simp
    note x1 = op_resta[OF n1(4) assms(6) l1]
    have l2: "(2 + MAGNITUD) * 100 < UMBRAL_DESBORDE" using K by simp
    note x2 = op_producto[OF x1(2) n1(5) l2]
    have l3: "5 + (2 + MAGNITUD) * 100 < UMBRAL_DESBORDE" using K by simp
    note x3 = op_suma[OF n1(3) x2(2) l3]
    have v: "precioTecnologia p g r ga = 5 + (1.2 - r) * 100"
      unfolding precioTecnologia_def Let_def using b by simp
    have js: "precioTecnologia_JS p (entradaFinita g dem r ctx ga) = Num (5 + (1.2 - r) * 100)"
      unfolding precioTecnologia_JS_def Let_def entrada_campos cnd x1(1) x2(1) x3(1)
      using b by simp
    have "5 + (2 + MAGNITUD) * 100 \<le> 200 * MAGNITUD"
      using K by simp
    with x3(2) have "\<bar>5 + (1.2 - r) * 100\<bar> \<le> 200 * MAGNITUD"
      by (rule order_trans)
    then show ?thesis unfolding v js by simp
  next
    case c
    have mc0: "0 < mc" using m(1) by simp
    have q0: "0 < gen_gas g / mc" using c(3) mc0 by simp
    have s0: "0 < sc" "sc \<le> 1" unfolding sc_def using q0 by simp_all
    define pw where "pw = sc powr 1.5"
    have pw: "0 \<le> pw" "pw \<le> 1"
      unfolding pw_def using s0 by (simp_all add: powr_le1)
    have pwb: "\<bar>pw\<bar> \<le> 1" using pw by simp
    have "\<bar>pw\<bar> < UMBRAL_DESBORDE" using pwb K by linarith
    then have x1: "Math_pow15 (Num sc) = Num pw"
      unfolding pw_def using s0 by (simp add: redondear_finito)
    have l2: "(12::real) * 1 < UMBRAL_DESBORDE" using K by simp
    note x2 = op_producto[OF n1(6) pwb l2]
    have l3: "MAGNITUD + MAGNITUD < UMBRAL_DESBORDE" using K by simp
    note x3 = op_resta[OF assms(4) assms(7) l3]
    define md where "md = max 0 (gen_gas g - ga)"
    have x4: "Math_max (Num 0) (Num (gen_gas g - ga)) = Num md"
      unfolding md_def by simp
    have mdb: "\<bar>md\<bar> \<le> MAGNITUD + MAGNITUD"
      unfolding md_def by (rule abs_max_cota) (use x3(2) K in simp_all)
    have x5: "(Num 1 < Num md) = (1 < md)" by simp
    have l6: "3 * (MAGNITUD + MAGNITUD) < UMBRAL_DESBORDE" using K by simp
    note x6 = op_producto[OF n1(7) mdb l6]
    define pr where "pr = (if 1 < md then 3 * md else 0)"
    have x7: "(if 1 < md then Num (3 * md) else Num 0) = Num pr"
      unfolding pr_def by simp
    have prb: "\<bar>pr\<bar> \<le> 3 * (MAGNITUD + MAGNITUD)"
    proof (cases "1 < md")
      case True
      then show ?thesis unfolding pr_def using x6(2) by simp
    next
      case False
      then show ?thesis unfolding pr_def using K by simp
    qed
    have l8: "6 * MAGNITUD + 12 * 1 < UMBRAL_DESBORDE" using K by simp
    note x8 = op_suma[OF cc(2) x2(2) l8]
    have l9: "6 * MAGNITUD + 12 * 1 + 3 * (MAGNITUD + MAGNITUD) < UMBRAL_DESBORDE" using K by simp
    note x9 = op_suma[OF x8(2) prb l9]
    have v: "precioTecnologia p g r ga = costeCCGT p + 12 * pw + pr"
      unfolding precioTecnologia_def Let_def pw_def pr_def md_def sc_def mc_def using c by simp
    have js: "precioTecnologia_JS p (entradaFinita g dem r ctx ga) = Num (costeCCGT p + 12 * pw + pr)"
      unfolding precioTecnologia_JS_def Let_def entrada_campos cnd mx qc(1) qh(1) smin x1 x2(1)
        x3(1) x4 x5 x6(1) x7 cc(1) x8(1) x9(1)
      using c by simp
    have "6 * MAGNITUD + 12 * 1 + 3 * (MAGNITUD + MAGNITUD) \<le> 200 * MAGNITUD"
      using K by simp
    with x9(2) have "\<bar>costeCCGT p + 12 * pw + pr\<bar> \<le> 200 * MAGNITUD"
      by (rule order_trans)
    then show ?thesis unfolding v js by simp
  next
    case d
    have l1: "25 * (MAGNITUD / (1 / 2)) < UMBRAL_DESBORDE" using K by simp
    note x1 = op_producto[OF n1(8) sb(2) l1]
    have l2: "25 + 25 * (MAGNITUD / (1 / 2)) < UMBRAL_DESBORDE" using K by simp
    note x2 = op_suma[OF n1(8) x1(2) l2]
    have v: "precioTecnologia p g r ga = 25 + 25 * sh"
      unfolding precioTecnologia_def Let_def sh_def mh_def using d by simp
    have js: "precioTecnologia_JS p (entradaFinita g dem r ctx ga) = Num (25 + 25 * sh)"
      unfolding precioTecnologia_JS_def Let_def entrada_campos cnd mx qc(1) qh(1) smin x1(1) x2(1)
      using d by simp
    have "25 + 25 * (MAGNITUD / (1 / 2)) \<le> 200 * MAGNITUD"
      using K by simp
    with x2(2) have "\<bar>25 + 25 * sh\<bar> \<le> 200 * MAGNITUD"
      by (rule order_trans)
    then show ?thesis unfolding v js by simp
  next
    case e
    have l1: "1 + MAGNITUD < UMBRAL_DESBORDE" using K by simp
    note x1 = op_resta[OF n1(1) assms(6) l1]
    have l2: "(1 + MAGNITUD) * 30 < UMBRAL_DESBORDE" using K by simp
    note x2 = op_producto[OF x1(2) n1(10) l2]
    have l3: "6 + (1 + MAGNITUD) * 30 < UMBRAL_DESBORDE" using K by simp
    note x3 = op_suma[OF n1(9) x2(2) l3]
    have v: "precioTecnologia p g r ga = 6 + (1 - r) * 30"
      unfolding precioTecnologia_def Let_def using e by simp
    have js: "precioTecnologia_JS p (entradaFinita g dem r ctx ga) = Num (6 + (1 - r) * 30)"
      unfolding precioTecnologia_JS_def Let_def entrada_campos cnd x1(1) x2(1) x3(1)
      using e by simp
    have "6 + (1 + MAGNITUD) * 30 \<le> 200 * MAGNITUD"
      using K by simp
    with x3(2) have "\<bar>6 + (1 - r) * 30\<bar> \<le> 200 * MAGNITUD"
      by (rule order_trans)
    then show ?thesis unfolding v js by simp
  qed
  then show "precioTecnologia_JS p (entradaFinita g dem r ctx ga) = Num (precioTecnologia p g r ga)"
    and "\<bar>precioTecnologia p g r ga\<bar> \<le> 200 * MAGNITUD"
    by simp_all
qed

lemma magnitud_cuadrado: "200 * MAGNITUD * (1 + MAGNITUD) + MAGNITUD < UMBRAL_DESBORDE"
proof -
  have k: "1000 \<le> MAGNITUD" by (rule magnitud_cotas(1))
  then have "MAGNITUD * 1 \<le> MAGNITUD * MAGNITUD"
    by (intro mult_left_mono) simp_all
  then have "200 * MAGNITUD * (1 + MAGNITUD) + MAGNITUD \<le> 1000 * MAGNITUD * MAGNITUD"
    using k by (simp add: algebra_simps)
  then show ?thesis using magnitud_cotas(2) by linarith
qed

lemma precioRegulado_JS_finito:
  assumes "\<bar>precioGas p\<bar> \<le> MAGNITUD" "\<bar>precioCO2 p\<bar> \<le> MAGNITUD" "\<bar>omCCGT p\<bar> \<le> MAGNITUD"
    and "\<bar>gen_gas g\<bar> \<le> MAGNITUD" "\<bar>gen_hidraulica g\<bar> \<le> MAGNITUD"
    and "\<bar>r\<bar> \<le> MAGNITUD" "\<bar>ga\<bar> \<le> MAGNITUD"
    and "\<bar>ctx_importacion ctx\<bar> \<le> MAGNITUD" "\<bar>ctx_deficit ctx\<bar> \<le> MAGNITUD"
    and "\<bar>precioImport p\<bar> \<le> MAGNITUD" "\<bar>precioExport p\<bar> \<le> MAGNITUD"
    and "\<bar>precioEscasez p\<bar> \<le> MAGNITUD" "\<bar>perdidasRed p\<bar> \<le> MAGNITUD"
    and "\<bar>cargosSistema p\<bar> \<le> MAGNITUD"
  shows "precioRegulado_JS p (entradaFinita g dem r ctx ga) = Num (precioRegulado p g dem r ctx ga)"
proof -
  note K = magnitud_cotas(1) magnitud_lineal
  note t = precioTecnologia_JS_finito[OF assms(1-7)]
  define P0 where "P0 = precioTecnologia p g r ga"
  define imp where "imp = ctx_importacion ctx"
  define dfc where "dfc = ctx_deficit ctx"
  have b0: "\<bar>P0\<bar> \<le> 200 * MAGNITUD" unfolding P0_def by (rule t(2))
  have n1: "\<bar>0.3::real\<bar> \<le> 1" "\<bar>0.85::real\<bar> \<le> 1" "\<bar>10::real\<bar> \<le> 10" "\<bar>4::real\<bar> \<le> 4"
    "\<bar>1::real\<bar> \<le> 1"
    by simp_all
  have K200: "MAGNITUD \<le> 200 * MAGNITUD" "MAGNITUD + 10 \<le> 200 * MAGNITUD"
    "MAGNITUD * (1 + 1 * 1) \<le> 200 * MAGNITUD" "MAGNITUD * 1 \<le> 200 * MAGNITUD"
    using K by simp_all
  \<comment> \<open>the import floor\<close>
  define P1 where "P1 = (if imp > 0 then
      max P0 (precioImport p * (0.85 + 0.3 * min 1 (imp / max 0.5 (interconexion p)))) else P0)"
  have j1: "(if Num 0 < Num imp
             then Math_max (Num P0)
                    (Num (precioImport p)
                     * (Num 0.85 + Num 0.3
                        * Math_min (Num 1) (Num imp / Math_max (Num 0.5) (Num (interconexion p)))))
             else Num P0) = Num P1 \<and> \<bar>P1\<bar> \<le> 200 * MAGNITUD"
  proof (cases "0 < imp")
    case True
    define mi where "mi = max 0.5 (interconexion p)"
    have mi: "1 / 2 \<le> mi" unfolding mi_def by simp
    have mx: "Math_max (Num 0.5) (Num (interconexion p)) = Num mi" unfolding mi_def by simp
    have half: "(0::real) < 1 / 2" by simp
    have ld: "MAGNITUD / (1 / 2) < UMBRAL_DESBORDE" using K by simp
    have bi: "\<bar>imp\<bar> \<le> MAGNITUD" unfolding imp_def by (rule assms(8))
    note q = op_cociente[OF bi mi half ld]
    define si where "si = min 1 (imp / mi)"
    have mn: "Math_min (Num 1) (Num (imp / mi)) = Num si" unfolding si_def by simp
    have "0 < imp / mi" using True mi by simp
    then have "0 < si" "si \<le> 1" unfolding si_def by simp_all
    then have sb: "\<bar>si\<bar> \<le> 1" by simp
    have l1: "(1::real) * 1 < UMBRAL_DESBORDE" using K by simp
    note x1 = op_producto[OF n1(1) sb l1]
    have l2: "(1::real) + 1 * 1 < UMBRAL_DESBORDE" using K by simp
    note x2 = op_suma[OF n1(2) x1(2) l2]
    have l3: "MAGNITUD * (1 + 1 * 1) < UMBRAL_DESBORDE" using K by simp
    note x3 = op_producto[OF assms(10) x2(2) l3]
    have v: "P1 = max P0 (precioImport p * (0.85 + 0.3 * si))"
      unfolding P1_def si_def mi_def using True by simp
    have "\<bar>precioImport p * (0.85 + 0.3 * si)\<bar> \<le> 200 * MAGNITUD"
      using x3(2) K200(3) by (rule order_trans)
    then have "\<bar>P1\<bar> \<le> 200 * MAGNITUD"
      unfolding v using b0 by (intro abs_max_cota)
    moreover have "Math_max (Num P0)
                    (Num (precioImport p)
                     * (Num 0.85 + Num 0.3
                        * Math_min (Num 1) (Num imp / Math_max (Num 0.5) (Num (interconexion p)))))
                   = Num P1"
      unfolding mx q(1) mn x1(1) x2(1) x3(1) v by simp
    ultimately show ?thesis using True by simp
  next
    case False
    then show ?thesis unfolding P1_def using b0 by simp
  qed
  \<comment> \<open>the export cap\<close>
  define P2 where "P2 = (if ctx_exportacion ctx > 0 then min P1 (precioExport p + 10) else P1)"
  have j2: "(if Num 0 < Num (ctx_exportacion ctx)
             then Math_min (Num P1) (Num (precioExport p) + Num 10)
             else Num P1) = Num P2 \<and> \<bar>P2\<bar> \<le> 200 * MAGNITUD"
  proof (cases "0 < ctx_exportacion ctx")
    case True
    have l1: "MAGNITUD + 10 < UMBRAL_DESBORDE" using K by simp
    note x1 = op_suma[OF assms(11) n1(3) l1]
    have "\<bar>precioExport p + 10\<bar> \<le> 200 * MAGNITUD"
      using x1(2) K200(2) by (rule order_trans)
    then have "\<bar>P2\<bar> \<le> 200 * MAGNITUD"
      unfolding P2_def using True j1 by (simp add: abs_min_cota2)
    moreover have "Math_min (Num P1) (Num (precioExport p) + Num 10) = Num P2"
      unfolding x1(1) P2_def using True by simp
    ultimately show ?thesis using True by simp
  next
    case False
    then show ?thesis unfolding P2_def using j1 by simp
  qed
  \<comment> \<open>the scarcity floor\<close>
  define P3 where "P3 = (if dfc > 0.3 then
      max P2 (precioEscasez p * min 1 (dfc / max 1 dem * 4)) else P2)"
  have j3: "(if Num 0.3 < Num dfc
             then Math_max (Num P2)
                    (Num (precioEscasez p)
                     * Math_min (Num 1) (Num dfc / Math_max (Num 1) (Num dem) * Num 4))
             else Num P2) = Num P3 \<and> \<bar>P3\<bar> \<le> 200 * MAGNITUD"
  proof (cases "0.3 < dfc")
    case True
    define md where "md = max 1 dem"
    have md: "1 \<le> md" unfolding md_def by simp
    have mx: "Math_max (Num 1) (Num dem) = Num md" unfolding md_def by simp
    have one: "(0::real) < 1" by simp
    have ld: "MAGNITUD / 1 < UMBRAL_DESBORDE" using K by simp
    have bd: "\<bar>dfc\<bar> \<le> MAGNITUD" unfolding dfc_def by (rule assms(9))
    note q = op_cociente[OF bd md one ld]
    have l1: "MAGNITUD / 1 * 4 < UMBRAL_DESBORDE" using K by simp
    note x1 = op_producto[OF q(2) n1(4) l1]
    define sd where "sd = min 1 (dfc / md * 4)"
    have mn: "Math_min (Num 1) (Num (dfc / md * 4)) = Num sd" unfolding sd_def by simp
    have "0 < dfc" "0 < md" using True md by simp_all
    then have "0 < dfc / md * 4" by simp
    then have "0 < sd" "sd \<le> 1" unfolding sd_def by simp_all
    then have sb: "\<bar>sd\<bar> \<le> 1" by simp
    have l2: "MAGNITUD * 1 < UMBRAL_DESBORDE" using K by simp
    note x2 = op_producto[OF assms(12) sb l2]
    have v: "P3 = max P2 (precioEscasez p * sd)"
      unfolding P3_def sd_def md_def using True by simp
    have "\<bar>precioEscasez p * sd\<bar> \<le> 200 * MAGNITUD"
      using x2(2) K200(4) by (rule order_trans)
    then have "\<bar>P3\<bar> \<le> 200 * MAGNITUD"
      unfolding v using j2 by (intro abs_max_cota) simp_all
    moreover have "Math_max (Num P2)
                    (Num (precioEscasez p)
                     * Math_min (Num 1) (Num dfc / Math_max (Num 1) (Num dem) * Num 4))
                   = Num P3"
      unfolding mx q(1) x1(1) mn x2(1) v by simp
    ultimately show ?thesis using True by simp
  next
    case False
    then show ?thesis unfolding P3_def using j2 by simp
  qed
  \<comment> \<open>the regulated pass-through\<close>
  have l4: "1 + MAGNITUD < UMBRAL_DESBORDE" using K by simp
  note x4 = op_suma[OF n1(5) assms(13) l4]
  have l5: "200 * MAGNITUD * (1 + MAGNITUD) < UMBRAL_DESBORDE"
    using magnitud_cuadrado K by linarith
  note x5 = op_producto[OF j3[THEN conjunct2] x4(2) l5]
  note x6 = op_suma[OF x5(2) assms(14) magnitud_cuadrado]
  have cnd: "(Num 0 < Num (ctx_importacion ctx)) = (Num 0 < Num imp)"
    "(Num 0.3 < Num (ctx_deficit ctx)) = (Num 0.3 < Num dfc)"
    unfolding imp_def dfc_def by simp_all
  have v: "precioRegulado p g dem r ctx ga = P3 * (1 + perdidasRed p) + cargosSistema p"
    unfolding precioRegulado_def Let_def P3_def P2_def P1_def P0_def imp_def dfc_def by (rule refl)
  have js: "precioRegulado_JS p (entradaFinita g dem r ctx ga)
            = Num P3 * (Num 1 + Num (perdidasRed p)) + Num (cargosSistema p)"
    unfolding precioRegulado_JS_def Let_def entrada_campos t(1) P0_def[symmetric]
      imp_def[symmetric] dfc_def[symmetric] j1[THEN conjunct1] j2[THEN conjunct1]
      j3[THEN conjunct1]
    by (rule refl)
  show ?thesis
    unfolding js v x4(1) x5(1) x6(1) by (rule refl)
qed

lemma calcularPrecioMarginal_JS_finito:
  assumes "\<bar>precioGas p\<bar> \<le> MAGNITUD" "\<bar>precioCO2 p\<bar> \<le> MAGNITUD" "\<bar>omCCGT p\<bar> \<le> MAGNITUD"
    and "\<bar>gen_gas g\<bar> \<le> MAGNITUD" "\<bar>gen_hidraulica g\<bar> \<le> MAGNITUD"
    and "\<bar>r\<bar> \<le> MAGNITUD" "\<bar>ga\<bar> \<le> MAGNITUD"
    and "\<bar>ctx_importacion ctx\<bar> \<le> MAGNITUD" "\<bar>ctx_deficit ctx\<bar> \<le> MAGNITUD"
    and "\<bar>precioImport p\<bar> \<le> MAGNITUD" "\<bar>precioExport p\<bar> \<le> MAGNITUD"
    and "\<bar>precioEscasez p\<bar> \<le> MAGNITUD" "\<bar>perdidasRed p\<bar> \<le> MAGNITUD"
    and "\<bar>cargosSistema p\<bar> \<le> MAGNITUD"
  shows "calcularPrecioMarginal_JS p (entradaFinita g dem r ctx ga)
         = Num (calcularPrecioMarginal p g dem r ctx ga)"
  unfolding calcularPrecioMarginal_JS_def calcularPrecioMarginal_def
    precioRegulado_JS_finito[OF assms]
  by simp

lemma acotar_forma:
  "(Math_min (Num 500) (Math_max (Num (- 25)) x) = NaN \<longleftrightarrow> x = NaN)
   \<and> (Math_min (Num 500) (Math_max (Num (- 25)) x) = NaN
      \<or> (\<exists>v. Math_min (Num 500) (Math_max (Num (- 25)) x) = Num v \<and> - 25 \<le> v \<and> v \<le> 500))"
  by (cases x) simp_all

subsection \<open>Hour records and the call of price formation\<close>

lemma paso_llamada:
  fixes p n d sd sv h st
  defines "t \<equiv> snd (pasoHora p n d sd sv h st)"
  shows "t_precio t = calcularPrecioMarginal p (t_gen t) (t_demandaGW t) (ratioDeHora t)
           (contextoPrecio (t_demandaGW t) (t_genBase t) (t_gen t)) (t_gasAnterior t)"
  unfolding t_def ratioDeHora_def pasoHora_def Let_def by simp

lemma trazas_llamada:
  "\<forall>t \<in> set (trazas p).
     t_precio t = calcularPrecioMarginal p (t_gen t) (t_demandaGW t) (ratioDeHora t)
           (contextoPrecio (t_demandaGW t) (t_genBase t) (t_gen t)) (t_gasAnterior t)"
  by (rule trazas_invariante[where I = "\<lambda>st::estado. True"]) (simp_all add: paso_llamada)

lemma length_precios_JS: "length (precios_JS p) = HORAS_ANIO"
  by (simp add: precios_JS_def length_trazas)

lemma precios_JS_nth:
  "h < HORAS_ANIO \<Longrightarrow>
   precios_JS p ! h = calcularPrecioMarginal_JS p (entradaDeHora (trazas p ! h))"
  by (simp add: precios_JS_def length_trazas)

lemma precio_JS_forma:
  "(calcularPrecioMarginal_JS p e = NaN \<longleftrightarrow> precioRegulado_JS p e = NaN)
   \<and> (calcularPrecioMarginal_JS p e = NaN
      \<or> (\<exists>v. calcularPrecioMarginal_JS p e = Num v \<and> - 25 \<le> v \<and> v \<le> 500))"
  unfolding calcularPrecioMarginal_JS_def by (rule acotar_forma)

lemma modestas_finito:
  assumes "entradasModeradas p g dem r ctx ga"
  shows "calcularPrecioMarginal_JS p (entradaFinita g dem r ctx ga)
         = Num (calcularPrecioMarginal p g dem r ctx ga)"
  using assms unfolding entradasModeradas_def moderado_def
  by (intro calcularPrecioMarginal_JS_finito) blast+

subsection \<open>An import price that overflows\<close>

lemma max_infinito: "Math_max x MasInf = MasInf \<or> Math_max x MasInf = NaN"
  by (cases x) simp_all

lemma max_infinito2: "x = MasInf \<or> x = NaN \<Longrightarrow> Math_max x y = MasInf \<or> Math_max x y = NaN"
  by (cases y) auto

lemma precio_JS_importacion_cara:
  assumes "interconexion p = 3" "precioImport p = 17 * 10 ^ 307" "perdidasRed p = - 1"
    and "e_importacion e = Num 3" "e_exportacion e = Num 0"
  shows "calcularPrecioMarginal_JS p e = NaN"
proof -
  have imp: "Num (precioImport p)
             * (Num 0.85 + Num 0.3 * Math_min (Num 1)
                  (e_importacion e / Math_max (Num 0.5) (Num (interconexion p)))) = MasInf"
    unfolding assms by (simp add: redondear_def UMBRAL_DESBORDE_def)
  define precio1 where "precio1 = Math_max (precioTecnologia_JS p e) MasInf"
  have p1: "precio1 = MasInf \<or> precio1 = NaN"
    unfolding precio1_def by (rule max_infinito)
  define precio3 where "precio3 =
     (if e_deficit e > Num 0.3 then
        Math_max precio1
          (Num (precioEscasez p)
           * Math_min (Num 1) (e_deficit e / Math_max (Num 1) (e_demandaGW e) * Num 4))
      else precio1)"
  have p3: "precio3 = MasInf \<or> precio3 = NaN"
    unfolding precio3_def using p1 max_infinito2[OF p1] by simp
  have cero: "Num 1 + Num (perdidasRed p) = Num 0"
    unfolding assms by (simp add: redondear_def UMBRAL_DESBORDE_def)
  have r: "precioRegulado_JS p e = precio3 * Num 0 + Num (cargosSistema p)"
    unfolding precioRegulado_JS_def Let_def imp cero precio3_def precio1_def
    using assms(4,5) by simp
  have "precioRegulado_JS p e = NaN"
    unfolding r using p3 by auto
  then show ?thesis
    unfolding calcularPrecioMarginal_JS_def by simp
qed

lemma asignar_soloImportacion:
  assumes "ccgt p = 0" "interconexion p = 3" "f \<le> 0" "3 < dem"
  shows "asignar p f dem (genInicial 0 0 0) 0 0 0 0 =
           \<lparr> a_gen = (genInicial 0 0 0) \<lparr> gen_importacion := 3 \<rparr>, a_estadoBateria = 0,
             a_estadoBombeo = 0, a_flexUp = 0, a_flexDown = 0, a_deficit = dem - 3 \<rparr>"
  using assms
  unfolding asignar_def ramaDeficit_def Let_def genInicial_def tramo_def descarga_def
    despachoGas_def RAMPA_CCGT_def
  by simp

lemma paso_soloImportacion:
  assumes "solar p = 0" "eolica p = 0" "hidraulica p = 0" "ccgt p = 0"
    and "flexibilidadGW p = 0" "interconexion p = 3"
    and "estadoBateria st = 0" "estadoBombeo st = 0" "gasAnterior st = 0"
    and "10 \<le> d * sd"
  shows "gen_importacion (t_gen (snd (pasoHora p 0 d sd sv h st))) = 3"
    and "gen_exportacion (t_gen (snd (pasoHora p 0 d sd sv h st))) = 0"
    and "estadoBateria (fst (pasoHora p 0 d sd sv h st)) = 0"
    and "estadoBombeo (fst (pasoHora p 0 d sd sv h st)) = 0"
    and "gasAnterior (fst (pasoHora p 0 d sd sv h st)) = 0"
proof -
  have pos: "3 < d * sd" using assms(10) by simp
  have g0: "genInicial (0 * FC_NUCLEAR) (0 * x) (0 * y) = genInicial 0 0 0" for x y
    by simp
  note a = asignar_soloImportacion[OF assms(4) assms(6) _ pos]
  have gg: "gen_gas ((genInicial 0 0 0) \<lparr> gen_importacion := 3 \<rparr>) = 0"
    "gen_importacion ((genInicial 0 0 0) \<lparr> gen_importacion := 3 \<rparr>) = 3"
    "gen_exportacion ((genInicial 0 0 0) \<lparr> gen_importacion := 3 \<rparr>) = 0"
    by (simp_all add: genInicial_def)
  show "gen_importacion (t_gen (snd (pasoHora p 0 d sd sv h st))) = 3"
    "gen_exportacion (t_gen (snd (pasoHora p 0 d sd sv h st))) = 0"
    "estadoBateria (fst (pasoHora p 0 d sd sv h st)) = 0"
    "estadoBombeo (fst (pasoHora p 0 d sd sv h st)) = 0"
    "gasAnterior (fst (pasoHora p 0 d sd sv h st)) = 0"
    unfolding pasoHora_def Let_def assms(1-9) g0
    by (simp_all add: a gg)
qed

lemma escenarioImportacionCara_trazas:
  "\<forall>t \<in> set (trazas escenarioImportacionCara).
     gen_importacion (t_gen t) = 3 \<and> gen_exportacion (t_gen t) = 0"
proof (rule trazas_invariante_demanda[where
         I = "\<lambda>st::estado. estadoBateria st = 0 \<and> estadoBombeo st = 0 \<and> gasAnterior st = 0"])
  show "estadoBateria (estadoInicial escenarioImportacionCara) = 0
        \<and> estadoBombeo (estadoInicial escenarioImportacionCara) = 0
        \<and> gasAnterior (estadoInicial escenarioImportacionCara) = 0"
    by (simp add: estadoInicial_def escenarioImportacionCara_def escenarioSinCapacidad_def)
next
  fix d sd sv :: real and h :: nat and st :: estado
  assume dem: "10 \<le> d * sd"
    and st: "estadoBateria st = 0 \<and> estadoBombeo st = 0 \<and> gasAnterior st = 0"
  let ?p = escenarioImportacionCara
  have n: "calcularNuclearDisponible ?p = 0"
    by (simp add: escenarioImportacionCara_def escenarioSinCapacidad_def PARAMS_DEFAULT_def
        calcularNuclearDisponible_def)
  have c: "solar ?p = 0" "eolica ?p = 0" "hidraulica ?p = 0" "ccgt ?p = 0"
    "flexibilidadGW ?p = 0" "interconexion ?p = 3"
    by (simp_all add: escenarioImportacionCara_def escenarioSinCapacidad_def)
  note P = paso_soloImportacion[OF c st[THEN conjunct1] st[THEN conjunct2, THEN conjunct1]
      st[THEN conjunct2, THEN conjunct2] dem, of sv h]
  show "(estadoBateria (fst (pasoHora ?p (calcularNuclearDisponible ?p) d sd sv h st)) = 0
         \<and> estadoBombeo (fst (pasoHora ?p (calcularNuclearDisponible ?p) d sd sv h st)) = 0
         \<and> gasAnterior (fst (pasoHora ?p (calcularNuclearDisponible ?p) d sd sv h st)) = 0)
      \<and> (gen_importacion (t_gen (snd (pasoHora ?p (calcularNuclearDisponible ?p) d sd sv h st))) = 3
         \<and> gen_exportacion (t_gen (snd (pasoHora ?p (calcularNuclearDisponible ?p) d sd sv h st))) = 0)"
    unfolding n using P by simp
qed

lemma entradaDeHora_campos:
  "e_importacion (entradaDeHora t) = Num (gen_importacion (t_gen t))"
  "e_exportacion (entradaDeHora t) = Num (gen_exportacion (t_gen t))"
  by (simp_all add: entradaDeHora_def entradaFinita_def contextoPrecio_def)

lemma escenarioImportacionCara_precios:
  "precios_JS escenarioImportacionCara = replicate HORAS_ANIO NaN"
proof -
  have "calcularPrecioMarginal_JS escenarioImportacionCara (entradaDeHora t) = NaN"
    if "t \<in> set (trazas escenarioImportacionCara)" for t
  proof (rule precio_JS_importacion_cara)
    show "interconexion escenarioImportacionCara = 3"
      "precioImport escenarioImportacionCara = 17 * 10 ^ 307"
      "perdidasRed escenarioImportacionCara = - 1"
      by (simp_all add: escenarioImportacionCara_def)
    show "e_importacion (entradaDeHora t) = Num 3" "e_exportacion (entradaDeHora t) = Num 0"
      using escenarioImportacionCara_trazas that by (simp_all add: entradaDeHora_campos)
  qed
  then have "precios_JS escenarioImportacionCara
             = map (\<lambda>t. NaN) (trazas escenarioImportacionCara)"
    unfolding precios_JS_def by (intro map_cong) simp_all
  then show ?thesis
    by (simp add: map_replicate_const length_trazas)
qed

subsection \<open>Percentiles of JavaScript numbers\<close>

lemma finitos_map: "finitos (map Num xs) = xs"
  by (induction xs) simp_all

lemma count_map_Num:
  "count_list (map Num xs) MasInf = 0" "count_list (map Num xs) MenosInf = 0"
  "count_list (map Num xs) NaN = 0"
  by (induction xs) simp_all

lemma ordenar_JS_map: "ordenar_JS (map Num xs) = map Num (sort xs)"
  unfolding ordenar_JS_def by (simp add: finitos_map count_map_Num)

lemma finitos_replicate: "finitos (replicate n NaN) = []"
  by (induction n) simp_all

lemma count_replicate_NaN:
  "count_list (replicate n NaN) NaN = n" "count_list (replicate n NaN) MasInf = 0"
  "count_list (replicate n NaN) MenosInf = 0"
  by (induction n) simp_all

lemma ordenar_JS_replicate: "ordenar_JS (replicate n NaN) = replicate n NaN"
  unfolding ordenar_JS_def by (simp add: finitos_replicate count_replicate_NaN)

lemma leer_JS_valido:
  "0 \<le> i \<Longrightarrow> i < int (length xs) \<Longrightarrow> leer_JS xs i = Some (xs ! nat i)"
  by (simp add: leer_JS_def)

lemma cota_percentil: "(10::real) ^ 300 + (10 ^ 300 + 10 ^ 300) * 1 < UMBRAL_DESBORDE"
  unfolding UMBRAL_DESBORDE_def by simp

lemma percentil_JS_finito:
  assumes "xs \<noteq> []" "\<forall>x \<in> set xs. \<bar>x\<bar> \<le> 10 ^ 300" "0 \<le> q" "q \<le> 100"
  shows "percentil_JS (map Num xs) q
         = Some (Num (interpolar (sort xs) ((real (length xs) - 1) * (q / 100))))"
proof -
  define s where "s = sort xs"
  define k where "k = (real (length xs) - 1) * (q / 100)"
  have ls: "length s = length xs" unfolding s_def by simp
  have n: "1 \<le> real (length xs)"
    using assms(1) by (cases xs) simp_all
  have k0: "0 \<le> k" unfolding k_def using n assms(3) by simp
  have "(real (length xs) - 1) * (q / 100) \<le> (real (length xs) - 1) * 1"
    using n assms(4) by (intro mult_left_mono) simp_all
  then have k1: "k \<le> real (length s) - 1" unfolding k_def ls by simp
  note I = posicion_indices[OF k0 k1]
  have lm: "length (map Num s) = length s" by simp
  have nf: "nat \<lfloor>k\<rfloor> < length s" and nc: "nat \<lceil>k\<rceil> < length s"
    using I by linarith+
  have lf: "leer_JS (map Num s) \<lfloor>k\<rfloor> = Some (Num (s ! nat \<lfloor>k\<rfloor>))"
    using leer_JS_valido[of "\<lfloor>k\<rfloor>" "map Num s"] I(1) I(3) nf by simp
  have lc: "leer_JS (map Num s) \<lceil>k\<rceil> = Some (Num (s ! nat \<lceil>k\<rceil>))"
    using leer_JS_valido[of "\<lceil>k\<rceil>" "map Num s"] I(4) I(2) nc by simp
  define a where "a = s ! nat \<lfloor>k\<rfloor>"
  define b where "b = s ! nat \<lceil>k\<rceil>"
  define t where "t = k - of_int \<lfloor>k\<rfloor>"
  have "a \<in> set xs" "b \<in> set xs"
    unfolding a_def b_def s_def using nf nc ls
    by (metis nth_mem set_sort s_def)+
  then have ab: "\<bar>a\<bar> \<le> 10 ^ 300" "\<bar>b\<bar> \<le> 10 ^ 300"
    using assms(2) by blast+
  have tb: "\<bar>t\<bar> \<le> 1" unfolding t_def by linarith
  have l1: "(10::real) ^ 300 + 10 ^ 300 < UMBRAL_DESBORDE"
    using cota_percentil by simp
  note x1 = op_resta[OF ab(2) ab(1) l1]
  have l2: "((10::real) ^ 300 + 10 ^ 300) * 1 < UMBRAL_DESBORDE"
    using cota_percentil by simp
  note x2 = op_producto[OF x1(2) tb l2]
  note x3 = op_suma[OF ab(1) x2(2) cota_percentil]
  have pj: "percentil_JS (map Num xs) q =
      (if \<lfloor>k\<rfloor> = \<lceil>k\<rceil> then Some (Num a) else Some (Num a + (Num b - Num a) * Num t))"
    unfolding percentil_JS_def Let_def ordenar_JS_map s_def[symmetric] lm ls k_def[symmetric]
      lf lc a_def b_def t_def
    using assms(1) by simp
  have iv: "interpolar s k = (if \<lfloor>k\<rfloor> = \<lceil>k\<rceil> then a else a + (b - a) * t)"
    unfolding interpolar_def a_def b_def t_def by simp
  show ?thesis
    unfolding k_def[symmetric] s_def[symmetric] pj iv x1(1) x2(1) x3(1) by simp
qed

lemma percentil_JS_monotono:
  assumes "xs \<noteq> []" "\<forall>x \<in> set xs. \<bar>x\<bar> \<le> 10 ^ 300" "0 \<le> q1" "q1 \<le> q2" "q2 \<le> 100"
  shows "\<exists>a b. percentil_JS (map Num xs) q1 = Some (Num a)
               \<and> percentil_JS (map Num xs) q2 = Some (Num b) \<and> a \<le> b"
proof -
  have p1: "q1 \<le> 100" and q0: "0 \<le> q2" using assms by linarith+
  obtain a b where r: "percentil xs q1 = Some a" "percentil xs q2 = Some b" "a \<le> b"
    using percentil_monotono[OF assms(1,3,4,5)] by blast
  have "a = interpolar (sort xs) ((real (length xs) - 1) * (q1 / 100))"
    "b = interpolar (sort xs) ((real (length xs) - 1) * (q2 / 100))"
    using r percentil_interpolar[OF assms(1,3) p1] percentil_interpolar[OF assms(1) q0 assms(5)]
    by simp_all
  then show ?thesis
    using r(3) percentil_JS_finito[OF assms(1,2,3) p1] percentil_JS_finito[OF assms(1,2) q0 assms(5)]
    by simp
qed

lemma lista_sin_NaN:
  assumes "\<forall>y \<in> set ys. \<exists>v. y = Num v \<and> P v"
  shows "ys = map Num (finitos ys) \<and> (\<forall>x \<in> set (finitos ys). P x)"
  using assms
proof (induction ys)
  case Nil
  then show ?case by simp
next
  case (Cons y ys)
  then obtain v where "y = Num v" "P v" by auto
  then show ?case using Cons by simp
qed

lemma precios_JS_forma:
  "\<forall>y \<in> set (precios_JS p). y = NaN \<or> (\<exists>v. y = Num v \<and> - 25 \<le> v \<and> v \<le> 500)"
  unfolding precios_JS_def using precio_JS_forma by auto

lemma percentiles_sin_NaN:
  assumes "NaN \<notin> set (precios_JS p)" "0 \<le> q1" "q1 \<le> q2" "q2 \<le> 100"
  shows "\<exists>a b. percentil_JS (precios_JS p) q1 = Some (Num a)
               \<and> percentil_JS (precios_JS p) q2 = Some (Num b) \<and> a \<le> b"
proof -
  define xs where "xs = finitos (precios_JS p)"
  have "\<forall>y \<in> set (precios_JS p). \<exists>v. y = Num v \<and> (- 25 \<le> v \<and> v \<le> 500)"
    using assms(1) precios_JS_forma[of p] by metis
  then have f: "precios_JS p = map Num xs" and c: "\<forall>x \<in> set xs. - 25 \<le> x \<and> x \<le> 500"
    unfolding xs_def using lista_sin_NaN[where ys = "precios_JS p"
        and P = "\<lambda>v. - 25 \<le> v \<and> v \<le> 500"] by blast+
  have "length xs = HORAS_ANIO"
    using length_precios_JS[of p] unfolding f by simp
  then have ne: "xs \<noteq> []" by (auto simp: HORAS_ANIO_def)
  have "(500::real) \<le> 10 ^ 300" by simp
  then have b: "\<forall>x \<in> set xs. \<bar>x\<bar> \<le> 10 ^ 300"
    using c by fastforce
  show ?thesis
    unfolding f by (rule percentil_JS_monotono[OF ne b assms(2-4)])
qed

lemma percentil_JS_todo_NaN:
  "percentil_JS (replicate HORAS_ANIO NaN) 10 = Some NaN"
  "percentil_JS (replicate HORAS_ANIO NaN) 50 = Some NaN"
  "percentil_JS (replicate HORAS_ANIO NaN) 90 = Some NaN"
  unfolding percentil_JS_def Let_def ordenar_JS_replicate HORAS_ANIO_def
  by (simp_all add: leer_JS_def)

lemma percentil_JS_ejemplo:
  "percentil_JS [Num 12, NaN, Num 12] 10 = Some (Num 12)"
  "percentil_JS [Num 12, NaN, Num 12] 50 = Some (Num 12)"
  "percentil_JS [Num 12, NaN, Num 12] 90 = Some NaN"
  unfolding percentil_JS_def Let_def ordenar_JS_def
  by (simp_all add: leer_JS_def minus_numero_def redondear_def UMBRAL_DESBORDE_def)

subsection \<open>Price bounds\<close>

lemma hora_moderada_precio:
  assumes "t \<in> set (trazas p)" "horaModerada p t"
  shows "calcularPrecioMarginal_JS p (entradaDeHora t) = Num (t_precio t)"
  using modestas_finito[OF assms(2)[unfolded horaModerada_def]] trazas_llamada[of p] assms(1)
  unfolding entradaDeHora_def by simp

lemma precios_JS_moderados:
  assumes "h < HORAS_ANIO" "horaModerada p (trazas p ! h)"
  shows "precios_JS p ! h = Num (precios (simular p) ! h)"
  using hora_moderada_precio[OF trazas_nth[OF assms(1)] assms(2)] assms(1)
  by (simp add: precios_JS_nth simular_series length_trazas)

lemma escenarioSinCapacidad_horas:
  "\<forall>t \<in> set (trazas escenarioSinCapacidad).
     t_gen t = genInicial 0 0 0 \<and> t_genBase t = 0 \<and> t_gasAnterior t = 0
     \<and> 10 \<le> t_demandaGW t \<and> t_demandaGW t \<le> 84"
proof (rule trazas_invariante_demanda[where
         I = "\<lambda>st::estado. estadoBateria st = 0 \<and> estadoBombeo st = 0 \<and> gasAnterior st = 0"])
  show "estadoBateria (estadoInicial escenarioSinCapacidad) = 0
        \<and> estadoBombeo (estadoInicial escenarioSinCapacidad) = 0
        \<and> gasAnterior (estadoInicial escenarioSinCapacidad) = 0"
    by (simp add: estadoInicial_def escenarioSinCapacidad_def)
next
  fix d sd sv :: real and h :: nat and st :: estado
  assume dem: "10 \<le> d * sd" "d * sd \<le> 84"
    and st: "estadoBateria st = 0 \<and> estadoBombeo st = 0 \<and> gasAnterior st = 0"
  let ?p = escenarioSinCapacidad
  have n: "calcularNuclearDisponible ?p = 0"
    by (simp add: escenarioSinCapacidad_def PARAMS_DEFAULT_def calcularNuclearDisponible_def)
  have c: "solar ?p = 0" "eolica ?p = 0" "hidraulica ?p = 0" "ccgt ?p = 0"
    "flexibilidadGW ?p = 0" "interconexion ?p = 0"
    by (simp_all add: escenarioSinCapacidad_def)
  note P = paso_sinCapacidad[OF c st[THEN conjunct1] st[THEN conjunct2, THEN conjunct1]
      st[THEN conjunct2, THEN conjunct2] dem(1), of sv h]
  show "(estadoBateria (fst (pasoHora ?p (calcularNuclearDisponible ?p) d sd sv h st)) = 0
         \<and> estadoBombeo (fst (pasoHora ?p (calcularNuclearDisponible ?p) d sd sv h st)) = 0
         \<and> gasAnterior (fst (pasoHora ?p (calcularNuclearDisponible ?p) d sd sv h st)) = 0)
      \<and> (t_gen (snd (pasoHora ?p (calcularNuclearDisponible ?p) d sd sv h st)) = genInicial 0 0 0
         \<and> t_genBase (snd (pasoHora ?p (calcularNuclearDisponible ?p) d sd sv h st)) = 0
         \<and> t_gasAnterior (snd (pasoHora ?p (calcularNuclearDisponible ?p) d sd sv h st)) = 0
         \<and> 10 \<le> t_demandaGW (snd (pasoHora ?p (calcularNuclearDisponible ?p) d sd sv h st))
         \<and> t_demandaGW (snd (pasoHora ?p (calcularNuclearDisponible ?p) d sd sv h st)) \<le> 84)"
    unfolding n P using dem by simp
qed

lemma escenarioSinCapacidad_moderado:
  assumes "t \<in> set (trazas escenarioSinCapacidad)"
  shows "horaModerada escenarioSinCapacidad t"
proof -
  have t: "t_gen t = genInicial 0 0 0" "t_genBase t = 0" "t_gasAnterior t = 0"
    "10 \<le> t_demandaGW t" "t_demandaGW t \<le> 84"
    using escenarioSinCapacidad_horas assms by blast+
  have "(84::real) \<le> 10 ^ 100" by simp
  then have d: "\<bar>t_demandaGW t\<bar> \<le> 10 ^ 100" using t(4,5) by linarith
  show ?thesis
    unfolding horaModerada_def entradasModeradas_def moderado_def MAGNITUD_def ratioDeHora_def
      contextoPrecio_def t(1-3)
    using t(4) d
    by (simp add: genInicial_def escenarioSinCapacidad_def PARAMS_DEFAULT_def)
qed

lemma escenarioSinCapacidad_sin_NaN: "NaN \<notin> set (precios_JS escenarioSinCapacidad)"
proof
  assume "NaN \<in> set (precios_JS escenarioSinCapacidad)"
  then obtain t where t: "t \<in> set (trazas escenarioSinCapacidad)"
    and n: "calcularPrecioMarginal_JS escenarioSinCapacidad (entradaDeHora t) = NaN"
    unfolding precios_JS_def by auto
  show False
    using hora_moderada_precio[OF t escenarioSinCapacidad_moderado[OF t]] n by simp
qed

text \<open>
  C4. With the overflow of doubles, \<open>calcularPrecioMarginal\<close> is the clamp
  \<^verbatim>\<open>Math.min(500, Math.max(-25, .))\<close> of the price obtained after the import floor, the export
  cap, the scarcity floor and the regulated pass-through, and the clamp hands a NaN on: for
  all inputs, finite or not, the result is NaN exactly when the price before the clamp is
  NaN, and lies in [-25, 500] otherwise. For finite inputs of moderate size (magnitude at
  most 10^100) no operation overflows: the result is the real-valued price and lies in
  [-25, 500]. The price stored for each of the 8760 hours of a run is the value of the
  function at the hour's records, so it is NaN or lies in [-25, 500].
\<close>

theorem precio_acotado:
  "calcularPrecioMarginal_JS p e
     = Math_min (Num 500) (Math_max (Num (- 25)) (precioRegulado_JS p e))
   \<and> (calcularPrecioMarginal_JS p e = NaN \<longleftrightarrow> precioRegulado_JS p e = NaN)
   \<and> (calcularPrecioMarginal_JS p e = NaN
      \<or> (\<exists>x. calcularPrecioMarginal_JS p e = Num x \<and> - 25 \<le> x \<and> x \<le> 500))
   \<and> (entradasModeradas p g dem r ctx ga \<longrightarrow>
        calcularPrecioMarginal_JS p (entradaFinita g dem r ctx ga)
          = Num (calcularPrecioMarginal p g dem r ctx ga)
        \<and> - 25 \<le> calcularPrecioMarginal p g dem r ctx ga
        \<and> calcularPrecioMarginal p g dem r ctx ga \<le> 500)
   \<and> length (precios_JS p) = HORAS_ANIO
   \<and> (\<forall>h < HORAS_ANIO.
        precios_JS p ! h = calcularPrecioMarginal_JS p (entradaDeHora (trazas p ! h))
        \<and> (precios_JS p ! h = NaN
           \<or> (\<exists>x. precios_JS p ! h = Num x \<and> - 25 \<le> x \<and> x \<le> 500)))"
proof -
  have a: "calcularPrecioMarginal_JS p e
           = Math_min (Num 500) (Math_max (Num (- 25)) (precioRegulado_JS p e))"
    by (simp add: calcularPrecioMarginal_JS_def)
  have d: "calcularPrecioMarginal_JS p (entradaFinita g dem r ctx ga)
             = Num (calcularPrecioMarginal p g dem r ctx ga)
           \<and> - 25 \<le> calcularPrecioMarginal p g dem r ctx ga
           \<and> calcularPrecioMarginal p g dem r ctx ga \<le> 500"
    if "entradasModeradas p g dem r ctx ga"
    using modestas_finito[OF that] calcularPrecioMarginal_cotas[of p g dem r ctx ga] by simp
  have f: "precios_JS p ! h = calcularPrecioMarginal_JS p (entradaDeHora (trazas p ! h))
           \<and> (precios_JS p ! h = NaN
              \<or> (\<exists>x. precios_JS p ! h = Num x \<and> - 25 \<le> x \<and> x \<le> 500))"
    if "h < HORAS_ANIO" for h
    using precio_JS_forma[of p "entradaDeHora (trazas p ! h)"]
    unfolding precios_JS_nth[OF that] by blast
  show ?thesis
    using a precio_JS_forma[of p e] d length_precios_JS[of p] f by blast
qed

theorem precio_acotado_witness:
  "entradasModeradas PARAMS_DEFAULT (genInicial 6 0 9) 30 (1 / 2)
     (contextoPrecio 30 15 (genInicial 6 0 9)) 0
   \<and> calcularPrecioMarginal_JS PARAMS_DEFAULT
        (entradaFinita (genInicial 6 0 9) 30 (1 / 2) (contextoPrecio 30 15 (genInicial 6 0 9)) 0)
      = Num (calcularPrecioMarginal PARAMS_DEFAULT (genInicial 6 0 9) 30 (1 / 2)
               (contextoPrecio 30 15 (genInicial 6 0 9)) 0)
   \<and> (0::nat) < HORAS_ANIO
   \<and> (precios_JS PARAMS_DEFAULT ! 0 = NaN
      \<or> (\<exists>x. precios_JS PARAMS_DEFAULT ! 0 = Num x \<and> - 25 \<le> x \<and> x \<le> 500))
   \<and> length (precios_JS PARAMS_DEFAULT) = 8760"
proof -
  have m: "entradasModeradas PARAMS_DEFAULT (genInicial 6 0 9) 30 (1 / 2)
             (contextoPrecio 30 15 (genInicial 6 0 9)) 0"
    unfolding entradasModeradas_def moderado_def MAGNITUD_def
    by (simp add: PARAMS_DEFAULT_def genInicial_def contextoPrecio_def)
  have h: "(0::nat) < HORAS_ANIO" by (simp add: HORAS_ANIO_def)
  note T = precio_acotado[of PARAMS_DEFAULT
      "entradaFinita (genInicial 6 0 9) 30 (1 / 2) (contextoPrecio 30 15 (genInicial 6 0 9)) 0"
      "genInicial 6 0 9" 30 "1 / 2" "contextoPrecio 30 15 (genInicial 6 0 9)" 0]
  have "precios_JS PARAMS_DEFAULT ! 0 = NaN
        \<or> (\<exists>x. precios_JS PARAMS_DEFAULT ! 0 = Num x \<and> - 25 \<le> x \<and> x \<le> 500)"
    using T h by blast
  moreover have "length (precios_JS PARAMS_DEFAULT) = 8760"
    using T by (simp add: HORAS_ANIO_def)
  moreover have "calcularPrecioMarginal_JS PARAMS_DEFAULT
        (entradaFinita (genInicial 6 0 9) 30 (1 / 2) (contextoPrecio 30 15 (genInicial 6 0 9)) 0)
      = Num (calcularPrecioMarginal PARAMS_DEFAULT (genInicial 6 0 9) 30 (1 / 2)
               (contextoPrecio 30 15 (genInicial 6 0 9)) 0)"
    using T m by blast
  ultimately show ?thesis
    using m h by blast
qed

text \<open>
  C4 as stated fails for finite inputs that overflow: with the finite import price
  1.7e308 and the network-loss rate -1, an hour that imports 3 GW of its 3 GW of
  interconnection has the import floor 1.7e308 \<times> 1.15 = Infinity, the pass-through
  Infinity \<times> (1 + -1) = NaN, and the clamp returns NaN, which is not in [-25, 500]. In the
  run without capacity and with that interconnection every hour is such an hour.
\<close>

theorem precio_acotado_counterexample:
  "calcularPrecioMarginal_JS (PARAMS_DEFAULT \<lparr> precioImport := 17 * 10 ^ 307, perdidasRed := - 1 \<rparr>)
     (entradaFinita ((genInicial 6 0 9) \<lparr> gen_importacion := 3 \<rparr>) 30 (1 / 2)
        \<lparr> ctx_importacion = 3, ctx_exportacion = 0, ctx_deficit = 12 \<rparr> 0) = NaN
   \<and> precios_JS escenarioImportacionCara ! 0 = NaN
   \<and> precios_JS escenarioImportacionCara ! 8759 = NaN"
proof -
  have "calcularPrecioMarginal_JS (PARAMS_DEFAULT \<lparr> precioImport := 17 * 10 ^ 307, perdidasRed := - 1 \<rparr>)
     (entradaFinita ((genInicial 6 0 9) \<lparr> gen_importacion := 3 \<rparr>) 30 (1 / 2)
        \<lparr> ctx_importacion = 3, ctx_exportacion = 0, ctx_deficit = 12 \<rparr> 0) = NaN"
    by (rule precio_JS_importacion_cara) (simp_all add: PARAMS_DEFAULT_def entradaFinita_def)
  then show ?thesis
    unfolding escenarioImportacionCara_precios by (simp add: HORAS_ANIO_def)
qed

subsection \<open>Percentile ordering\<close>

text \<open>
  C9. The percentile computed by linear interpolation over the numerically sorted array is
  monotone non-decreasing in the percentile argument between 0 and 100 on every non-empty
  array of finite numbers (of magnitude at most 10^300, so that the interpolation does not
  overflow), and so, in every run whose price array holds no NaN, the three price
  percentiles are numbers with precioP10 \<le> precioMediana \<le> precioP90. The first part holds
  of every array, so also of the price array of a run whose dispatch itself overflows.
\<close>

theorem percentiles_ordenados:
  "(\<forall>xs q1 q2. xs \<noteq> [] \<and> (\<forall>x \<in> set xs. \<bar>x\<bar> \<le> 10 ^ 300) \<and> 0 \<le> q1 \<and> q1 \<le> q2 \<and> q2 \<le> 100 \<longrightarrow>
       (\<exists>a b. percentil_JS (map Num xs) q1 = Some (Num a)
              \<and> percentil_JS (map Num xs) q2 = Some (Num b) \<and> a \<le> b))
   \<and> (NaN \<notin> set (precios_JS p) \<longrightarrow>
        (\<exists>a b c. precioP10_JS p = Some (Num a) \<and> precioMediana_JS p = Some (Num b)
                 \<and> precioP90_JS p = Some (Num c) \<and> a \<le> b \<and> b \<le> c))"
proof -
  have run: "\<exists>a b c. precioP10_JS p = Some (Num a) \<and> precioMediana_JS p = Some (Num b)
                 \<and> precioP90_JS p = Some (Num c) \<and> a \<le> b \<and> b \<le> c"
    if n: "NaN \<notin> set (precios_JS p)"
  proof -
    obtain a b where ab: "percentil_JS (precios_JS p) 10 = Some (Num a)"
        "percentil_JS (precios_JS p) 50 = Some (Num b)" "a \<le> b"
      using percentiles_sin_NaN[OF n, of 10 50] by auto
    obtain b' c where bc: "percentil_JS (precios_JS p) 50 = Some (Num b')"
        "percentil_JS (precios_JS p) 90 = Some (Num c)" "b' \<le> c"
      using percentiles_sin_NaN[OF n, of 50 90] by auto
    show ?thesis
      unfolding precioP10_JS_def precioMediana_JS_def precioP90_JS_def
      using ab bc by auto
  qed
  show ?thesis
    using run percentil_JS_monotono by blast
qed

theorem percentiles_ordenados_witness:
  "[3, 1, 2] \<noteq> ([]::real list) \<and> \<bar>3::real\<bar> \<le> 10 ^ 300 \<and> \<bar>1::real\<bar> \<le> 10 ^ 300
   \<and> \<bar>2::real\<bar> \<le> 10 ^ 300
   \<and> (0::real) \<le> 10 \<and> (10::real) \<le> 90 \<and> (90::real) \<le> 100
   \<and> (\<exists>a b. percentil_JS (map Num [3, 1, 2]) 10 = Some (Num a)
            \<and> percentil_JS (map Num [3, 1, 2]) 90 = Some (Num b) \<and> a \<le> b)
   \<and> NaN \<notin> set (precios_JS escenarioSinCapacidad)
   \<and> (\<exists>a b c. precioP10_JS escenarioSinCapacidad = Some (Num a)
              \<and> precioMediana_JS escenarioSinCapacidad = Some (Num b)
              \<and> precioP90_JS escenarioSinCapacidad = Some (Num c) \<and> a \<le> b \<and> b \<le> c)"
proof -
  have h: "[3, 1, 2] \<noteq> ([]::real list) \<and> (\<forall>x \<in> set [3, 1, 2]. \<bar>x::real\<bar> \<le> 10 ^ 300)
           \<and> (0::real) \<le> 10 \<and> (10::real) \<le> 90 \<and> (90::real) \<le> 100"
    by simp
  note T = percentiles_ordenados[of escenarioSinCapacidad]
  show ?thesis
    using T[THEN conjunct1, rule_format, OF h]
      T[THEN conjunct2, rule_format, OF escenarioSinCapacidad_sin_NaN]
      escenarioSinCapacidad_sin_NaN
    by simp
qed

text \<open>
  C9 as stated fails for a price array that holds NaN: the sort puts NaN last, so an
  array with a NaN among three entries has the percentiles 12, 12 and NaN, and
  \<^verbatim>\<open>12 <= NaN\<close> is false; in the run with the overflowing import price every price is NaN,
  the three percentiles are NaN, and \<^verbatim>\<open>NaN <= NaN\<close> is false.
\<close>

theorem percentiles_ordenados_counterexample:
  "percentil_JS [Num 12, NaN, Num 12] 10 = Some (Num 12)
   \<and> percentil_JS [Num 12, NaN, Num 12] 50 = Some (Num 12)
   \<and> percentil_JS [Num 12, NaN, Num 12] 90 = Some NaN
   \<and> \<not> Num 12 \<le> NaN
   \<and> precioP10_JS escenarioImportacionCara = Some NaN
   \<and> precioMediana_JS escenarioImportacionCara = Some NaN
   \<and> precioP90_JS escenarioImportacionCara = Some NaN
   \<and> \<not> NaN \<le> (NaN::numero)"
  unfolding precioP10_JS_def precioMediana_JS_def precioP90_JS_def
    escenarioImportacionCara_precios percentil_JS_todo_NaN percentil_JS_ejemplo
  by simp

subsection \<open>Effective nuclear capacity\<close>

lemma nuclear_con_plan:
  assumes "aplicarPlanNuclear p"
  shows "calcularNuclearDisponible p
         = max 0 (nuclear p * rampaCierre 2026 (max 2027 (cierreNuclear p)) (anioObjetivo p))"
    and "0 \<le> rampaCierre 2026 (max 2027 (cierreNuclear p)) (anioObjetivo p)"
proof -
  define c where "c = max 2027 (cierreNuclear p)"
  define a where "a = anioObjetivo p"
  have c: "2027 \<le> c" unfolding c_def by simp
  then have hz: "max 1 (c - 2026) = c - 2026" by simp
  have v: "calcularNuclearDisponible p
           = max 0 (nuclear p * max 0 (1 - max 0 (a - 2026) / (c - 2026)))"
    unfolding calcularNuclearDisponible_def Let_def using assms(1)
    by (simp add: c_def a_def hz[unfolded c_def])
  have f: "max 0 (1 - max 0 (a - 2026) / (c - 2026)) = rampaCierre 2026 c a"
  proof (cases "a \<ge> c")
    case True
    then have "c - 2026 \<le> max 0 (a - 2026)" by simp
    then have "1 \<le> max 0 (a - 2026) / (c - 2026)"
      using c by (simp add: le_divide_eq)
    then show ?thesis
      unfolding rampaCierre_def using True by simp
  next
    case False
    show ?thesis
    proof (cases "a \<le> 2026")
      case True
      then show ?thesis
        unfolding rampaCierre_def using False by simp
    next
      case False2: False
      then have m: "max 0 (a - 2026) = a - 2026" by simp
      have "(a - 2026) / (c - 2026) \<le> 1"
        using False c by (simp add: divide_le_eq)
      then show ?thesis
        unfolding rampaCierre_def m using False False2 by simp
    qed
  qed
  have "0 \<le> rampaCierre 2026 c a"
    unfolding f[symmetric] by simp
  then show "0 \<le> rampaCierre 2026 (max 2027 (cierreNuclear p)) (anioObjetivo p)"
    unfolding c_def a_def .
  have "calcularNuclearDisponible p = max 0 (nuclear p * rampaCierre 2026 c a)"
    unfolding v f by (rule refl)
  then show "calcularNuclearDisponible p
         = max 0 (nuclear p * rampaCierre 2026 (max 2027 (cierreNuclear p)) (anioObjetivo p))"
    unfolding c_def a_def .
qed

lemma nuclear_con_plan_positiva:
  assumes "aplicarPlanNuclear p" "0 \<le> nuclear p"
  shows "calcularNuclearDisponible p
         = nuclear p * rampaCierre 2026 (max 2027 (cierreNuclear p)) (anioObjetivo p)"
proof -
  have "0 \<le> nuclear p * rampaCierre 2026 (max 2027 (cierreNuclear p)) (anioObjetivo p)"
    using assms(2) nuclear_con_plan(2)[OF assms(1)] by simp
  then show ?thesis
    unfolding nuclear_con_plan(1)[OF assms(1)] by simp
qed

text \<open>
  C8, as amended. When the decommission flag is inactive the effective nuclear capacity is
  the installed capacity unchanged. When it is active, the effective capacity is the
  installed capacity scaled by a linear ramp from 1 at the base year 2026 to 0 at the later
  of 2027 and the configured decommission year (0 for target years at or beyond that year,
  1 for target years at or before the base year), and floored at 0: for a non-negative
  installed capacity it is the scaled capacity itself, and for a configured decommission
  year of 2027 or later it is what the specification describes.
\<close>

theorem nuclear_disponible:
  "(\<not> aplicarPlanNuclear p \<longrightarrow> calcularNuclearDisponible p = nuclear p)
   \<and> (aplicarPlanNuclear p \<longrightarrow>
        calcularNuclearDisponible p
          = max 0 (nuclear p * rampaCierre 2026 (max 2027 (cierreNuclear p)) (anioObjetivo p)))
   \<and> (aplicarPlanNuclear p \<and> 0 \<le> nuclear p \<longrightarrow>
        calcularNuclearDisponible p
          = nuclear p * rampaCierre 2026 (max 2027 (cierreNuclear p)) (anioObjetivo p))
   \<and> (0 \<le> nuclear p \<and> 2027 \<le> cierreNuclear p \<longrightarrow>
        calcularNuclearDisponible p = nuclearSegunEspecificacion p)"
proof -
  have a: "calcularNuclearDisponible p = nuclear p" if "\<not> aplicarPlanNuclear p"
    using that unfolding calcularNuclearDisponible_def by simp
  have c: "calcularNuclearDisponible p = nuclearSegunEspecificacion p"
    if "0 \<le> nuclear p" "2027 \<le> cierreNuclear p"
  proof (cases "aplicarPlanNuclear p")
    case True
    have "max 2027 (cierreNuclear p) = cierreNuclear p" using that(2) by simp
    then show ?thesis
      using nuclear_con_plan_positiva[OF True that(1)] True
      unfolding nuclearSegunEspecificacion_def by simp
  next
    case False
    then show ?thesis
      using a unfolding nuclearSegunEspecificacion_def by simp
  qed
  show ?thesis
    using a nuclear_con_plan(1) nuclear_con_plan_positiva c by blast
qed

theorem nuclear_disponible_witness:
  "aplicarPlanNuclear PARAMS_DEFAULT \<and> 0 \<le> nuclear PARAMS_DEFAULT
   \<and> 2027 \<le> cierreNuclear PARAMS_DEFAULT
   \<and> calcularNuclearDisponible PARAMS_DEFAULT = 7 * (1 - 4 / 9)
   \<and> nuclearSegunEspecificacion PARAMS_DEFAULT = 7 * (1 - 4 / 9)
   \<and> \<not> aplicarPlanNuclear (PARAMS_DEFAULT\<lparr>aplicarPlanNuclear := False\<rparr>)
   \<and> calcularNuclearDisponible (PARAMS_DEFAULT\<lparr>aplicarPlanNuclear := False\<rparr>) = 7"
proof -
  have h: "aplicarPlanNuclear PARAMS_DEFAULT \<and> 0 \<le> nuclear PARAMS_DEFAULT"
    "0 \<le> nuclear PARAMS_DEFAULT \<and> 2027 \<le> cierreNuclear PARAMS_DEFAULT"
    "\<not> aplicarPlanNuclear (PARAMS_DEFAULT\<lparr>aplicarPlanNuclear := False\<rparr>)"
    by (simp_all add: PARAMS_DEFAULT_def)
  have r: "nuclear PARAMS_DEFAULT * rampaCierre 2026 (max 2027 (cierreNuclear PARAMS_DEFAULT))
             (anioObjetivo PARAMS_DEFAULT) = 7 * (1 - 4 / 9)"
    by (simp add: PARAMS_DEFAULT_def rampaCierre_def)
  have n: "nuclear (PARAMS_DEFAULT\<lparr>aplicarPlanNuclear := False\<rparr>) = 7"
    by (simp add: PARAMS_DEFAULT_def)
  show ?thesis
    using nuclear_disponible[of PARAMS_DEFAULT, THEN conjunct2, THEN conjunct2, THEN conjunct1,
        rule_format, OF h(1)]
      nuclear_disponible[of PARAMS_DEFAULT, THEN conjunct2, THEN conjunct2, THEN conjunct2,
        rule_format, OF h(2)]
      nuclear_disponible[of "PARAMS_DEFAULT\<lparr>aplicarPlanNuclear := False\<rparr>", THEN conjunct1,
        rule_format, OF h(3)]
      h r n
    by simp
qed

text \<open>
  C8 as stated fails where the configured decommission year is before 2027, which the code
  moves to 2027, and where the installed capacity is negative, which the code floors at 0.
  With decommission year 2025 and target year 2026 the target year is at or beyond the
  decommission year, yet the code keeps the full 7 GW; with decommission year 2026.5 and
  target year 2026.75 the code keeps a quarter of the capacity, 1.75 GW, where the ramp to
  the configured year has reached 0; and with an installed capacity of -7 GW the code
  returns 0 where the ramp of the default years scales the capacity to -35/9 GW.
\<close>

theorem nuclear_disponible_counterexample:
  "calcularNuclearDisponible (PARAMS_DEFAULT\<lparr>cierreNuclear := 2025, anioObjetivo := 2026\<rparr>) = 7
   \<and> nuclearSegunEspecificacion (PARAMS_DEFAULT\<lparr>cierreNuclear := 2025, anioObjetivo := 2026\<rparr>) = 0
   \<and> calcularNuclearDisponible (PARAMS_DEFAULT\<lparr>cierreNuclear := 2026.5, anioObjetivo := 2026.75\<rparr>)
       = 1.75
   \<and> nuclearSegunEspecificacion (PARAMS_DEFAULT\<lparr>cierreNuclear := 2026.5, anioObjetivo := 2026.75\<rparr>)
       = 0
   \<and> calcularNuclearDisponible (PARAMS_DEFAULT\<lparr>nuclear := - 7\<rparr>) = 0
   \<and> nuclearSegunEspecificacion (PARAMS_DEFAULT\<lparr>nuclear := - 7\<rparr>) = - 35 / 9"
  by (simp add: calcularNuclearDisponible_def nuclearSegunEspecificacion_def rampaCierre_def
      PARAMS_DEFAULT_def Let_def)

subsection \<open>Solar capacity factor\<close>

lemma pi_ge_3: "3 \<le> pi"
proof -
  have "sin (pi / 6) \<le> pi / 6"
    by (rule sin_x_le_x) simp
  then show ?thesis
    by (simp add: sin_30)
qed

lemma sin_cota_inferior:
  fixes x :: real
  assumes "0 \<le> x"
  shows "x - x ^ 3 / 6 \<le> sin x"
proof -
  have s: "(\<Sum>m<3. sin_coeff m * x ^ m) = x"
    by (simp add: sin_coeff_def eval_nat_numeral)
  have "\<bar>sin x - (\<Sum>m<3. sin_coeff m * x ^ m)\<bar> \<le> inverse (fact 3) * \<bar>x\<bar> ^ 3"
    by (rule Maclaurin_sin_bound)
  moreover have "inverse (fact 3) * \<bar>x\<bar> ^ 3 = x ^ 3 / 6"
    using assms by (simp add: eval_nat_numeral)
  ultimately have "\<bar>sin x - x\<bar> \<le> x ^ 3 / 6"
    unfolding s by simp
  then show ?thesis by linarith
qed

lemma sin_cotas_pequeno:
  fixes x lo hi :: real
  assumes "lo \<le> x" "x \<le> hi" "0 \<le> lo"
  shows "lo - hi ^ 3 / 6 \<le> sin x" and "sin x \<le> hi"
proof -
  have x0: "0 \<le> x" using assms by linarith
  have "x ^ 3 \<le> hi ^ 3"
    using x0 assms(2) by (rule power_mono[rotated])
  then show "lo - hi ^ 3 / 6 \<le> sin x"
    using sin_cota_inferior[OF x0] assms(1) by linarith
  show "sin x \<le> hi"
    using sin_x_le_x[OF x0] assms(2) by linarith
qed

lemma sin_latitud: "1 / 2 \<le> sin (LATITUD_ESPANA * pi / 180)" "sin (LATITUD_ESPANA * pi / 180) \<le> 71 / 100"
  and latitud_rango: "pi / 6 \<le> LATITUD_ESPANA * pi / 180" "LATITUD_ESPANA * pi / 180 \<le> pi / 4"
proof -
  show lo: "pi / 6 \<le> LATITUD_ESPANA * pi / 180"
    unfolding LATITUD_ESPANA_def by simp
  show hi: "LATITUD_ESPANA * pi / 180 \<le> pi / 4"
    unfolding LATITUD_ESPANA_def by simp
  have a: "- (pi / 2) \<le> pi / 6" "pi / 4 \<le> pi / 2"
    by simp_all
  have b: "LATITUD_ESPANA * pi / 180 \<le> pi / 2" "- (pi / 2) \<le> LATITUD_ESPANA * pi / 180"
    using lo hi a by linarith+
  have "sin (pi / 6) \<le> sin (LATITUD_ESPANA * pi / 180)"
    by (rule sin_monotone_2pi_le[OF a(1) lo b(1)])
  then show "1 / 2 \<le> sin (LATITUD_ESPANA * pi / 180)"
    by (simp add: sin_30)
  have "sin (LATITUD_ESPANA * pi / 180) \<le> sin (pi / 4)"
    by (rule sin_monotone_2pi_le[OF b(2) hi a(2)])
  moreover have "sqrt 2 \<le> sqrt ((142 / 100)\<^sup>2)"
    by (subst real_sqrt_le_iff) (simp add: power2_eq_square)
  then have "sqrt 2 \<le> 142 / 100"
    by simp
  ultimately show "sin (LATITUD_ESPANA * pi / 180) \<le> 71 / 100"
    by (simp add: sin_45)
qed

text \<open>The solar declination of day 86, in radians.\<close>

lemma declinacion_86:
  "31 / 1000 \<le> 23.45 * sin (2 * pi * (284 + real 86) / 365) * pi / 180"
  "23.45 * sin (2 * pi * (284 + real 86) / 365) * pi / 180 \<le> 58 / 1000"
proof -
  define phi where "phi = 2 * pi / 73"
  have e: "2 * pi * (284 + real 86) / 365 = phi + 2 * pi"
    unfolding phi_def by simp
  have per: "sin (2 * pi * (284 + real 86) / 365) = sin phi"
    unfolding e by (rule sin_periodic)
  have r: "6 / 73 \<le> phi" "phi \<le> 8 / 73"
    unfolding phi_def using pi_ge_3 pi_less_4 by simp_all
  have s: "6 / 73 - (8 / 73) ^ 3 / 6 \<le> sin phi" "sin phi \<le> 8 / 73"
    using sin_cotas_pequeno[OF r] by simp_all
  have s1: "8 / 100 \<le> sin phi"
    using s(1) by (simp add: power3_eq_cube)
  define q where "q = sin phi * pi"
  have v: "23.45 * sin phi * pi / 180 = 2345 * q / 18000"
    unfolding q_def by simp
  have "(8 / 100) * 3 \<le> q"
    unfolding q_def using s1 pi_ge_3 by (intro mult_mono) simp_all
  then show "31 / 1000 \<le> 23.45 * sin (2 * pi * (284 + real 86) / 365) * pi / 180"
    unfolding per v by linarith
  have "q \<le> (8 / 73) * 4"
    unfolding q_def using s(2) s1 pi_less_4 by (intro mult_mono) simp_all
  then show "23.45 * sin (2 * pi * (284 + real 86) / 365) * pi / 180 \<le> 58 / 1000"
    unfolding per v by linarith
qed

lemma sinElev_86_6: "15 / 1000 \<le> sinElev 86 6" "sinElev 86 6 \<le> 42 / 1000"
proof -
  define decl where "decl = 23.45 * sin (2 * pi * (284 + real 86) / 365) * pi / 180"
  have om: "(real 6 - 12) * 15 * pi / 180 = - (pi / 2)"
    by simp
  have v: "sinElev 86 6 = sin (LATITUD_ESPANA * pi / 180) * sin decl"
    unfolding sinElev_def Let_def om decl_def by simp
  have d: "31 / 1000 \<le> decl" "decl \<le> 58 / 1000"
    unfolding decl_def by (rule declinacion_86)+
  have sd: "31 / 1000 - (58 / 1000) ^ 3 / 6 \<le> sin decl" "sin decl \<le> 58 / 1000"
    using sin_cotas_pequeno[OF d] by simp_all
  have sd1: "3 / 100 \<le> sin decl"
    using sd(1) by (simp add: power3_eq_cube)
  have "(1 / 2) * (3 / 100) \<le> sin (LATITUD_ESPANA * pi / 180) * sin decl"
    using sin_latitud(1) sd1 by (intro mult_mono) simp_all
  then show "15 / 1000 \<le> sinElev 86 6"
    unfolding v by simp
  have "sin (LATITUD_ESPANA * pi / 180) * sin decl \<le> (71 / 100) * (58 / 1000)"
    using sin_latitud sd(2) sd1 by (intro mult_mono) simp_all
  then show "sinElev 86 6 \<le> 42 / 1000"
    unfolding v by simp
qed

lemma sinElev_86_12: "1 / 2 \<le> sinElev 86 12"
proof -
  define decl where "decl = 23.45 * sin (2 * pi * (284 + real 86) / 365) * pi / 180"
  define lat where "lat = LATITUD_ESPANA * pi / 180"
  have om: "(real 12 - 12) * 15 * pi / 180 = 0"
    by simp
  have v: "sinElev 86 12 = cos (lat - decl)"
    unfolding sinElev_def Let_def om decl_def lat_def by (simp add: cos_diff)
  have d: "31 / 1000 \<le> decl" "decl \<le> 58 / 1000"
    unfolding decl_def by (rule declinacion_86)+
  have l: "pi / 6 \<le> lat" "lat \<le> pi / 4"
    unfolding lat_def by (rule latitud_rango)+
  have "58 / 1000 \<le> pi / 6" using pi_ge_3 by simp
  then have a: "0 \<le> lat - decl" using d l by linarith
  have b: "lat - decl \<le> pi / 3" using d l pi_ge_3 by linarith
  have "cos (pi / 3) \<le> cos (lat - decl)"
    using a b by (intro cos_monotone_0_pi_le) simp_all
  then show ?thesis
    unfolding v by (simp add: cos_60)
qed

text \<open>
  C7, as amended. For every day, hour and cloud factor: when the sine of the solar elevation
  is at most 0.01 the solar capacity factor is exactly 0; otherwise it is the clamp to [0, 1]
  of sin(elevation) \<times> transmittance \<times> cloud \<times> 1.35, where
  transmittance = 0.75 \<times> 0.70 ^ (AM ^ 0.678) and the air mass is
  AM = 1 / max(0.05, sin(elevation)); where the sine of the elevation is at least 0.05 this
  is the air mass 1 / sin(elevation) of the specification.
\<close>

theorem factor_solar:
  "(sinElev dia hora \<le> 0.01 \<longrightarrow> calcularSolar dia hora nubes = 0)
   \<and> (0.01 < sinElev dia hora \<longrightarrow>
        calcularSolar dia hora nubes =
          max 0 (min 1 (sinElev dia hora
                        * (0.75 * (0.70 powr ((1 / max 0.05 (sinElev dia hora)) powr 0.678)))
                        * nubes * 1.35)))
   \<and> (0.05 \<le> sinElev dia hora \<longrightarrow>
        calcularSolar dia hora nubes = solarSegunEspecificacion dia hora nubes)"
proof -
  have a: "calcularSolar dia hora nubes = 0" if "sinElev dia hora \<le> 0.01"
    using that unfolding calcularSolar_def by simp
  have b: "calcularSolar dia hora nubes =
          max 0 (min 1 (sinElev dia hora
                        * (0.75 * (0.70 powr ((1 / max 0.05 (sinElev dia hora)) powr 0.678)))
                        * nubes * 1.35))" if "0.01 < sinElev dia hora"
    using that unfolding calcularSolar_def Let_def by simp
  have c: "calcularSolar dia hora nubes = solarSegunEspecificacion dia hora nubes"
    if "0.05 \<le> sinElev dia hora"
  proof -
    have m: "max 0.05 (sinElev dia hora) = sinElev dia hora"
      using that by simp
    show ?thesis
      unfolding calcularSolar_def solarSegunEspecificacion_def Let_def m by (rule refl)
  qed
  show ?thesis
    using a b c by blast
qed

theorem factor_solar_witness:
  "0.01 < sinElev 86 6
   \<and> calcularSolar 86 6 1 =
       max 0 (min 1 (sinElev 86 6 * (0.75 * (0.70 powr ((1 / max 0.05 (sinElev 86 6)) powr 0.678)))
                     * 1 * 1.35))
   \<and> 0.05 \<le> sinElev 86 12
   \<and> calcularSolar 86 12 1 = solarSegunEspecificacion 86 12 1"
proof -
  have h1: "0.01 < sinElev 86 6"
    using sinElev_86_6(1) by simp
  have h2: "0.05 \<le> sinElev 86 12"
    using sinElev_86_12 by simp
  show ?thesis
    using factor_solar[of 86 6 1, THEN conjunct2, THEN conjunct1, rule_format, OF h1]
      factor_solar[of 86 12 1, THEN conjunct2, THEN conjunct2, rule_format, OF h2] h1 h2
    by blast
qed

text \<open>
  C7 as stated fails between the two thresholds. On day 86 at 6 h the sine of the solar
  elevation lies between 0.015 and 0.042, so the code takes the air mass 1 / 0.05 = 20 and
  not 1 / sin(elevation) > 20, and with a clear sky its factor is larger than the one the
  claim describes.
\<close>

theorem factor_solar_counterexample:
  "calcularSolar 86 6 1 \<noteq> solarSegunEspecificacion 86 6 1"
proof -
  define s where "s = sinElev 86 6"
  have s: "15 / 1000 \<le> s" "s \<le> 42 / 1000"
    unfolding s_def by (rule sinElev_86_6)+
  then have s0: "0 < s" by linarith
  define A where "A = (0.70::real) powr ((20::real) powr 0.678)"
  define B where "B = (0.70::real) powr ((1 / s) powr 0.678)"
  have "20 < 1 / s"
    using s s0 by (simp add: less_divide_eq)
  then have "(20::real) powr 0.678 < (1 / s) powr 0.678"
    by (intro powr_less_mono2) simp_all
  then have BA: "B < A"
    unfolding A_def B_def by (intro powr_less_mono') simp_all
  have B0: "0 < B" unfolding B_def by simp
  have A1: "A \<le> 1" unfolding A_def by (intro powr_le1) simp_all
  define X where "X = s * (0.75 * A) * 1 * 1.35"
  define Y where "Y = s * (0.75 * B) * 1 * 1.35"
  have XY: "Y < X"
    unfolding X_def Y_def using BA s0 by simp
  have Y0: "0 < Y"
    unfolding Y_def using B0 s0 by simp
  have "s * A \<le> (42 / 1000) * 1"
    using s A1 s0 B0 BA by (intro mult_mono) simp_all
  then have X1: "X \<le> 1"
    unfolding X_def by simp
  have m: "max 0.05 s = 0.05" using s by simp
  have c: "calcularSolar 86 6 1 = max 0 (min 1 X)"
    unfolding calcularSolar_def Let_def X_def A_def s_def[symmetric] m using s by simp
  have e: "solarSegunEspecificacion 86 6 1 = max 0 (min 1 Y)"
    unfolding solarSegunEspecificacion_def Let_def Y_def B_def s_def[symmetric] using s by simp
  have "max 0 (min 1 X) = X" "max 0 (min 1 Y) = Y"
    using XY Y0 X1 by simp_all
  then show ?thesis
    unfolding c e using XY by simp
qed

subsection \<open>Executions and the store of generators\<close>

text \<open>Calls on objects holding the same seed have the same effect, whatever else the
  two stores hold.\<close>

lemma mismoEfecto_I:
  "x = (r, m[a := s]) \<Longrightarrow> x' = (r, m'[a' := s]) \<Longrightarrow> mismoEfecto a a' m m' x x'"
  unfolding mismoEfecto_def by auto

lemma mismoEfecto_E:
  assumes "mismoEfecto a a' m m' x x'"
  obtains r s where "x = (r, m[a := s])" "x' = (r, m'[a' := s])"
  using assms unfolding mismoEfecto_def by (cases x, cases x') auto

lemma RNG_next_efecto:
  assumes "m ! a = m' ! a'"
  shows "mismoEfecto a a' m m' (RNG_next G a m) (RNG_next G a' m')"
  unfolding mismoEfecto_def RNG_next_def Let_def using assms by auto

lemma RNG_gauss_efecto:
  assumes "a < length m" "a' < length m'" "m ! a = m' ! a'"
  shows "mismoEfecto a a' m m' (RNG_gauss G a media sigma m) (RNG_gauss G a' media sigma m')"
proof -
  obtain n1 s1 where 1: "RNG_next G a m = (n1, m[a := s1])" "RNG_next G a' m' = (n1, m'[a' := s1])"
    using RNG_next_efecto[OF assms(3)] by (rule mismoEfecto_E)
  have e: "m[a := s1] ! a = m'[a' := s1] ! a'" using assms(1,2) by simp
  obtain n2 s2 where 2: "RNG_next G a (m[a := s1]) = (n2, m[a := s1, a := s2])"
      "RNG_next G a' (m'[a' := s1]) = (n2, m'[a' := s1, a' := s2])"
    using RNG_next_efecto[OF e] by (rule mismoEfecto_E)
  show ?thesis
    by (rule mismoEfecto_I[where s = s2]) (simp_all add: RNG_gauss_def 1 2 Let_def)
qed

lemma generarBloquesEn_efecto:
  "a < length m \<Longrightarrow> a' < length m' \<Longrightarrow> m ! a = m' ! a' \<Longrightarrow>
   mismoEfecto a a' m m' (generarBloquesEn G a h m) (generarBloquesEn G a' h m')"
proof (induction G a h m arbitrary: m' rule: generarBloquesEn.induct)
  case (1 G a h m)
  show ?case
  proof (cases "h < HORAS_ANIO")
    case False
    have i: "m[a := m ! a] = m" "m'[a' := m ! a] = m'"
      using list_update_id[of m a] list_update_id[of m' a'] "1.prems"(3) by simp_all
    have "generarBloquesEn G a h m = ([], m)" "generarBloquesEn G a' h m' = ([], m')"
      using False by (subst generarBloquesEn.simps, simp)+
    then have "generarBloquesEn G a h m = ([], m[a := m ! a])"
      "generarBloquesEn G a' h m' = ([], m'[a' := m ! a])"
      unfolding i by simp_all
    then show ?thesis by (rule mismoEfecto_I)
  next
    case True
    obtain n1 s1 where n1: "RNG_next G a m = (n1, m[a := s1])"
        "RNG_next G a' m' = (n1, m'[a' := s1])"
      using RNG_next_efecto[OF "1.prems"(3)] by (rule mismoEfecto_E)
    have e1: "m[a := s1] ! a = m'[a' := s1] ! a'" using "1.prems"(1,2) by simp
    obtain n2 s2 where n2: "RNG_next G a (m[a := s1]) = (n2, m[a := s1, a := s2])"
        "RNG_next G a' (m'[a' := s1]) = (n2, m'[a' := s1, a' := s2])"
      using RNG_next_efecto[OF e1] by (rule mismoEfecto_E)
    define dur where "dur = nat (48 + \<lfloor>n1 * 120\<rfloor>)"
    define m2 where "m2 = m[a := s2]"
    define m2' where "m2' = m'[a' := s2]"
    have l: "a < length m2" "a' < length m2'" "m2 ! a = m2' ! a'"
      unfolding m2_def m2'_def using "1.prems"(1,2) by simp_all
    have IH: "mismoEfecto a a' m2 m2' (generarBloquesEn G a (h + dur) m2)
                (generarBloquesEn G a' (h + dur) m2')"
      using "1.IH"[OF True refl refl refl, of m2'] l
      unfolding n1 fst_conv snd_conv n2 dur_def m2_def by simp
    obtain r s where r: "generarBloquesEn G a (h + dur) m2 = (r, m2[a := s])"
        "generarBloquesEn G a' (h + dur) m2' = (r, m2'[a' := s])"
      using IH by (rule mismoEfecto_E)
    have o: "m2[a := s] = m[a := s]" "m2'[a' := s] = m'[a' := s]"
      unfolding m2_def m2'_def by simp_all
    have "generarBloquesEn G a h m
          = (\<lparr>inicio = h, duracion = dur, intensidad = n2\<rparr> # r, m[a := s])"
      by (subst generarBloquesEn.simps)
         (simp add: True n1 n2 Let_def dur_def[symmetric] m2_def[symmetric] r o)
    moreover have "generarBloquesEn G a' h m'
          = (\<lparr>inicio = h, duracion = dur, intensidad = n2\<rparr> # r, m'[a' := s])"
      by (subst generarBloquesEn.simps)
         (simp add: True n1 n2 Let_def dur_def[symmetric] m2'_def[symmetric] r o)
    ultimately show ?thesis by (rule mismoEfecto_I)
  qed
qed

lemma vientoHorasEn_efecto:
  "a < length m \<Longrightarrow> a' < length m' \<Longrightarrow> m ! a = m' ! a' \<Longrightarrow>
   mismoEfecto a a' m m' (vientoHorasEn G a bl hs e m) (vientoHorasEn G a' bl hs e m')"
proof (induction hs arbitrary: e m m')
  case Nil
  have i: "m[a := m ! a] = m" "m'[a' := m ! a] = m'"
    using list_update_id[of m a] list_update_id[of m' a'] Nil(3) by simp_all
  have "vientoHorasEn G a bl [] e m = ([], m[a := m ! a])"
    "vientoHorasEn G a' bl [] e m' = ([], m'[a' := m ! a])"
    unfolding i by simp_all
  then show ?case by (rule mismoEfecto_I)
next
  case (Cons i hs)
  obtain g s1 where g: "RNG_gauss G a 0 0.06 m = (g, m[a := s1])"
      "RNG_gauss G a' 0 0.06 m' = (g, m'[a' := s1])"
    using RNG_gauss_efecto[OF Cons.prems] by (rule mismoEfecto_E)
  define m1 where "m1 = m[a := s1]"
  define m1' where "m1' = m'[a' := s1]"
  have l: "a < length m1" "a' < length m1'" "m1 ! a = m1' ! a'"
    unfolding m1_def m1'_def using Cons.prems(1,2) by simp_all
  define e' where "e' = 0.94 * e + (1 - 0.94)
      * (case find (\<lambda>b. i \<ge> inicio b \<and> i < inicio b + duracion b) bl of
           Some b \<Rightarrow> (0.28 + 0.14 * cos ((of_int \<lfloor>real (i div 24) / 30.5\<rfloor> - 0.5) * pi / 6))
                     * (0.3 + intensidad b * 1.4)
         | None \<Rightarrow> 0.28 + 0.14 * cos ((of_int \<lfloor>real (i div 24) / 30.5\<rfloor> - 0.5) * pi / 6))
      + g"
  obtain r s where r: "vientoHorasEn G a bl hs e' m1 = (r, m1[a := s])"
      "vientoHorasEn G a' bl hs e' m1' = (r, m1'[a' := s])"
    using Cons.IH[OF l] by (rule mismoEfecto_E)
  have "vientoHorasEn G a bl (i # hs) e m
        = (max 0.02 (min 0.92 (e' * (1 + 0.08 * sin ((real (i mod 24) - 6) * pi / 12)))) # r,
           m[a := s])"
    unfolding vientoHorasEn.simps Let_def g fst_conv snd_conv e'_def[symmetric]
      m1_def[symmetric] r
    by (simp add: m1_def)
  moreover have "vientoHorasEn G a' bl (i # hs) e m'
        = (max 0.02 (min 0.92 (e' * (1 + 0.08 * sin ((real (i mod 24) - 6) * pi / 12)))) # r,
           m'[a' := s])"
    unfolding vientoHorasEn.simps Let_def g fst_conv snd_conv e'_def[symmetric]
      m1'_def[symmetric] r
    by (simp add: m1'_def)
  ultimately show ?case by (rule mismoEfecto_I)
qed

lemma generarSerieVientoEn_efecto:
  assumes "a < length m" "a' < length m'" "m ! a = m' ! a'"
  shows "mismoEfecto a a' m m' (generarSerieVientoEn G a m) (generarSerieVientoEn G a' m')"
proof -
  obtain bl s1 where b: "generarBloquesEn G a 0 m = (bl, m[a := s1])"
      "generarBloquesEn G a' 0 m' = (bl, m'[a' := s1])"
    using generarBloquesEn_efecto[OF assms] by (rule mismoEfecto_E)
  have l: "a < length (m[a := s1])" "a' < length (m'[a' := s1])"
    "m[a := s1] ! a = m'[a' := s1] ! a'"
    using assms(1,2) by simp_all
  obtain r s where r: "vientoHorasEn G a bl [0..<HORAS_ANIO] 0.30 (m[a := s1])
                       = (r, m[a := s1, a := s])"
      "vientoHorasEn G a' bl [0..<HORAS_ANIO] 0.30 (m'[a' := s1]) = (r, m'[a' := s1, a' := s])"
    using vientoHorasEn_efecto[OF l] by (rule mismoEfecto_E)
  have o: "m[a := s1, a := s] = m[a := s]" "m'[a' := s1, a' := s] = m'[a' := s]"
    by simp_all
  have "generarSerieVientoEn G a m = (r, m[a := s])"
    unfolding generarSerieVientoEn_def Let_def b fst_conv snd_conv r o by (rule refl)
  moreover have "generarSerieVientoEn G a' m' = (r, m'[a' := s])"
    unfolding generarSerieVientoEn_def Let_def b fst_conv snd_conv r o by (rule refl)
  ultimately show ?thesis by (rule mismoEfecto_I)
qed

lemma demandaHorasEn_efecto:
  "a < length m \<Longrightarrow> a' < length m' \<Longrightarrow> m ! a = m' ! a' \<Longrightarrow>
   mismoEfecto a a' m m' (demandaHorasEn G a hs m) (demandaHorasEn G a' hs m')"
proof (induction hs arbitrary: m m')
  case Nil
  have i: "m[a := m ! a] = m" "m'[a' := m ! a] = m'"
    using list_update_id[of m a] list_update_id[of m' a'] Nil(3) by simp_all
  have "demandaHorasEn G a [] m = ([], m[a := m ! a])"
    "demandaHorasEn G a' [] m' = ([], m'[a' := m ! a])"
    unfolding i by simp_all
  then show ?case by (rule mismoEfecto_I)
next
  case (Cons i hs)
  obtain g s1 where g: "RNG_gauss G a 0 1.5 m = (g, m[a := s1])"
      "RNG_gauss G a' 0 1.5 m' = (g, m'[a' := s1])"
    using RNG_gauss_efecto[OF Cons.prems] by (rule mismoEfecto_E)
  have e1: "m[a := s1] ! a = m'[a' := s1] ! a'" using Cons.prems(1,2) by simp
  obtain n s2 where n: "RNG_next G a (m[a := s1]) = (n, m[a := s1, a := s2])"
      "RNG_next G a' (m'[a' := s1]) = (n, m'[a' := s1, a' := s2])"
    using RNG_next_efecto[OF e1] by (rule mismoEfecto_E)
  define m2 where "m2 = m[a := s2]"
  define m2' where "m2' = m'[a' := s2]"
  have l: "a < length m2" "a' < length m2'" "m2 ! a = m2' ! a'"
    unfolding m2_def m2'_def using Cons.prems(1,2) by simp_all
  obtain r s where r: "demandaHorasEn G a hs m2 = (r, m2[a := s])"
      "demandaHorasEn G a' hs m2' = (r, m2'[a' := s])"
    using Cons.IH[OF l] by (rule mismoEfecto_E)
  have o: "m2[a := s] = m[a := s]" "m2'[a' := s] = m'[a' := s]"
    "m[a := s1, a := s2] = m2" "m'[a' := s1, a' := s2] = m2'"
    unfolding m2_def m2'_def by simp_all
  define x where "x = fst (demandaHorasEn G a (i # hs) m)"
  have "demandaHorasEn G a (i # hs) m = (hd x # r, m[a := s])"
    unfolding x_def demandaHorasEn.simps Let_def g fst_conv snd_conv n o r by simp
  moreover have "demandaHorasEn G a' (i # hs) m' = (hd x # r, m'[a' := s])"
    unfolding x_def demandaHorasEn.simps Let_def g fst_conv snd_conv n o r by simp
  ultimately show ?case by (rule mismoEfecto_I)
qed

lemma generarSerieDemandaEn_efecto:
  assumes "a < length m" "a' < length m'" "m ! a = m' ! a'"
  shows "mismoEfecto a a' m m' (generarSerieDemandaEn G a m) (generarSerieDemandaEn G a' m')"
  unfolding generarSerieDemandaEn_def by (rule demandaHorasEn_efecto[OF assms])

lemma pasoHoraEn_efecto:
  assumes "m ! a = m' ! a'"
  shows "mismoEfecto a a' m m' (pasoHoraEn G p n d sd sv h a st m)
           (pasoHoraEn G p n d sd sv h a' st m')"
proof -
  obtain u s where u: "RNG_next G a m = (u, m[a := s])" "RNG_next G a' m' = (u, m'[a' := s])"
    using RNG_next_efecto[OF assms] by (rule mismoEfecto_E)
  show ?thesis
    by (rule mismoEfecto_I[where s = s]) (simp_all add: pasoHoraEn_def Let_def u)
qed

lemma bucleHorarioEn_efecto:
  "a < length m \<Longrightarrow> a' < length m' \<Longrightarrow> m ! a = m' ! a' \<Longrightarrow>
   mismoEfecto a a' m m' (bucleHorarioEn G p n d sD sV a hs st m)
     (bucleHorarioEn G p n d sD sV a' hs st m')"
proof (induction hs arbitrary: st m m')
  case Nil
  have i: "m[a := m ! a] = m" "m'[a' := m ! a] = m'"
    using list_update_id[of m a] list_update_id[of m' a'] Nil(3) by simp_all
  have "bucleHorarioEn G p n d sD sV a [] st m = (([], st), m[a := m ! a])"
    "bucleHorarioEn G p n d sD sV a' [] st m' = (([], st), m'[a' := m ! a])"
    unfolding i by simp_all
  then show ?case by (rule mismoEfecto_I)
next
  case (Cons h hs)
  obtain c s1 where c: "pasoHoraEn G p n d (sD ! h) (sV ! h) h a st m = (c, m[a := s1])"
      "pasoHoraEn G p n d (sD ! h) (sV ! h) h a' st m' = (c, m'[a' := s1])"
    using pasoHoraEn_efecto[OF Cons.prems(3)] by (rule mismoEfecto_E)
  define m1 where "m1 = m[a := s1]"
  define m1' where "m1' = m'[a' := s1]"
  have l: "a < length m1" "a' < length m1'" "m1 ! a = m1' ! a'"
    unfolding m1_def m1'_def using Cons.prems(1,2) by simp_all
  obtain r s where r: "bucleHorarioEn G p n d sD sV a hs (fst c) m1 = (r, m1[a := s])"
      "bucleHorarioEn G p n d sD sV a' hs (fst c) m1' = (r, m1'[a' := s])"
    using Cons.IH[OF l] by (rule mismoEfecto_E)
  have o: "m1[a := s] = m[a := s]" "m1'[a' := s] = m'[a' := s]"
    unfolding m1_def m1'_def by simp_all
  have "bucleHorarioEn G p n d sD sV a (h # hs) st m = ((snd c # fst r, snd r), m[a := s])"
    unfolding bucleHorarioEn.simps Let_def c fst_conv snd_conv m1_def[symmetric] r o
    by (rule refl)
  moreover have "bucleHorarioEn G p n d sD sV a' (h # hs) st m'
                 = ((snd c # fst r, snd r), m'[a' := s])"
    unfolding bucleHorarioEn.simps Let_def c fst_conv snd_conv m1'_def[symmetric] r o
    by (rule refl)
  ultimately show ?case by (rule mismoEfecto_I)
qed

lemma simularEn_forma:
  "\<exists>s1 s2 s3. simularEn G p m =
     (agregar p (fst (bucleHorarioEn G p (calcularNuclearDisponible p)
                  (calcularDemandaAjustada p * 1000 / real HORAS_ANIO)
                  (fst (generarSerieDemandaEn G 0 [semilla p * 3 + 7]))
                  (fst (generarSerieVientoEn G 0 [semilla p * 7 + 13]))
                  0 [0..<HORAS_ANIO] (estadoInicial p) [semilla p * 11 + 37])),
      m @ [if semilla p = 0 then 42 else semilla p, s1, s2, s3])"
proof -
  define s0 where "s0 = (if semilla p = 0 then 42 else semilla p)"
  define m0 where "m0 = m @ [s0]"
  define m1 where "m1 = m0 @ [semilla p * 7 + 13]"
  have a1: "length m0 < length m1" "0 < length [semilla p * 7 + 13]"
    "m1 ! length m0 = [semilla p * 7 + 13] ! 0"
    unfolding m1_def by simp_all
  obtain sv s1 where v: "generarSerieVientoEn G (length m0) m1 = (sv, m1[length m0 := s1])"
      "generarSerieVientoEn G 0 [semilla p * 7 + 13] = (sv, [semilla p * 7 + 13][0 := s1])"
    using generarSerieVientoEn_efecto[OF a1] by (rule mismoEfecto_E)
  define m2 where "m2 = m0 @ [s1]"
  have m2: "m1[length m0 := s1] = m2" unfolding m1_def m2_def by simp
  define m3 where "m3 = m2 @ [semilla p * 3 + 7]"
  have a3: "length m2 < length m3" "0 < length [semilla p * 3 + 7]"
    "m3 ! length m2 = [semilla p * 3 + 7] ! 0"
    unfolding m3_def by simp_all
  obtain sd s2 where d: "generarSerieDemandaEn G (length m2) m3 = (sd, m3[length m2 := s2])"
      "generarSerieDemandaEn G 0 [semilla p * 3 + 7] = (sd, [semilla p * 3 + 7][0 := s2])"
    using generarSerieDemandaEn_efecto[OF a3] by (rule mismoEfecto_E)
  define m4 where "m4 = m2 @ [s2]"
  have m4: "m3[length m2 := s2] = m4" unfolding m3_def m4_def by simp
  define m5 where "m5 = m4 @ [semilla p * 11 + 37]"
  have a5: "length m4 < length m5" "0 < length [semilla p * 11 + 37]"
    "m5 ! length m4 = [semilla p * 11 + 37] ! 0"
    unfolding m5_def by simp_all
  obtain b s3 where b: "bucleHorarioEn G p (calcularNuclearDisponible p)
        (calcularDemandaAjustada p * 1000 / real HORAS_ANIO) sd sv
        (length m4) [0..<HORAS_ANIO] (estadoInicial p) m5 = (b, m5[length m4 := s3])"
      "bucleHorarioEn G p (calcularNuclearDisponible p)
        (calcularDemandaAjustada p * 1000 / real HORAS_ANIO) sd sv
        0 [0..<HORAS_ANIO] (estadoInicial p) [semilla p * 11 + 37]
       = (b, [semilla p * 11 + 37][0 := s3])"
    using bucleHorarioEn_efecto[OF a5] by (rule mismoEfecto_E)
  have "m5[length m4 := s3] = m4 @ [s3]"
    unfolding m5_def by simp
  then have fin: "m5[length m4 := s3] = m @ [s0, s1, s2, s3]"
    unfolding m4_def m2_def m0_def by simp
  have "simularEn G p m =
     (agregar p (fst (bucleHorarioEn G p (calcularNuclearDisponible p)
                  (calcularDemandaAjustada p * 1000 / real HORAS_ANIO)
                  (fst (generarSerieDemandaEn G 0 [semilla p * 3 + 7]))
                  (fst (generarSerieVientoEn G 0 [semilla p * 7 + 13]))
                  0 [0..<HORAS_ANIO] (estadoInicial p) [semilla p * 11 + 37])),
      m @ [s0, s1, s2, s3])"
    unfolding simularEn_def Let_def nuevoRNG_def fst_conv snd_conv s0_def[symmetric]
      m0_def[symmetric] m1_def[symmetric] v m2 m3_def[symmetric] d m4 m5_def[symmetric] b fin
    by (rule refl)
  then show ?thesis unfolding s0_def by blast
qed

text \<open>The arrays of an execution in terms of its three generators.\<close>

lemma length_demandaHorasEn: "length (fst (demandaHorasEn G a hs m)) = length hs"
  by (induction hs arbitrary: m) (simp_all add: Let_def)

lemma length_vientoHorasEn: "length (fst (vientoHorasEn G a bl hs e m)) = length hs"
  by (induction hs arbitrary: e m) (simp_all add: Let_def)

lemma length_bucleHorarioEn:
  "length (fst (fst (bucleHorarioEn G p n d sD sV a hs st m))) = length hs"
  by (induction hs arbitrary: st m) (simp_all add: Let_def)

lemma cuerpo_series:
  fixes p n d sd sv h u st
  defines "t \<equiv> snd (cuerpoHora p n d sd sv h u st)"
  shows "t_demandaGW t = d * sd" "gen_eolica (t_gen t) = eolica p * sv"
    "gen_solar (t_gen t) = solar p * calcularSolar (h div 24) (h mod 24) (0.65 + u * 0.35)"
  unfolding t_def cuerpoHora_def Let_def by (simp_all add: asignar_base genInicial_def)

lemma RNG_next_valor:
  "fst (RNG_next G a m) = G (m ! a) - of_int \<lfloor>G (m ! a)\<rfloor>"
  "a < length m \<Longrightarrow> snd (RNG_next G a m) ! a = G (m ! a)"
  "length (snd (RNG_next G a m)) = length m"
  by (simp_all add: RNG_next_def Let_def)

lemma bucleEn_series:
  "i < length hs \<Longrightarrow> a < length m \<Longrightarrow>
   t_demandaGW (fst (fst (bucleHorarioEn G p n d sD sV a hs st m)) ! i) = d * sD ! (hs ! i)
   \<and> gen_eolica (t_gen (fst (fst (bucleHorarioEn G p n d sD sV a hs st m)) ! i))
       = eolica p * sV ! (hs ! i)
   \<and> gen_solar (t_gen (fst (fst (bucleHorarioEn G p n d sD sV a hs st m)) ! i))
       = solar p * calcularSolar (hs ! i div 24) (hs ! i mod 24)
           (0.65 + ((G ^^ Suc i) (m ! a) - of_int \<lfloor>(G ^^ Suc i) (m ! a)\<rfloor>) * 0.35)"
proof (induction hs arbitrary: st m i)
  case Nil
  then show ?case by simp
next
  case (Cons h hs)
  show ?case
  proof (cases i)
    case 0
    then show ?thesis
      by (simp add: Let_def pasoHoraEn_def cuerpo_series RNG_next_valor(1))
  next
    case (Suc j)
    then have j: "j < length hs" using Cons.prems by simp
    define m1 where "m1 = snd (RNG_next G a m)"
    have l: "a < length m1" "m1 ! a = G (m ! a)"
      unfolding m1_def using Cons.prems(2) by (simp_all add: RNG_next_valor)
    have f: "(G ^^ Suc j) (G (m ! a)) = (G ^^ Suc (Suc j)) (m ! a)"
      by (simp add: funpow_swap1)
    have e: "fst (fst (bucleHorarioEn G p n d sD sV a (h # hs) st m)) ! Suc j
             = fst (fst (bucleHorarioEn G p n d sD sV a hs
                 (fst (cuerpoHora p n d (sD ! h) (sV ! h) h (fst (RNG_next G a m)) st)) m1)) ! j"
      unfolding m1_def by (simp add: Let_def pasoHoraEn_def)
    show ?thesis
      unfolding Suc e using Cons.IH[OF j l(1)] unfolding l(2) f by simp
  qed
qed

lemma agregar_series:
  "mix (agregar p b) = map t_gen (fst b)"
  "precios (agregar p b) = map t_precio (fst b)"
  "demandaHoraria (agregar p b) = map t_demandaGW (fst b)"
  "contadores (agregar p b) = R (snd b)"
  "mensual (agregar p b)
     = calcularResumenMensual (map t_gen (fst b)) (map t_precio (fst b)) (map t_demandaGW (fst b))"
  unfolding agregar_def Let_def by simp_all

lemma length_sumarHoras: "length (sumarHoras mx pr dm hs ms) = length ms"
  by (induction hs arbitrary: ms) (simp_all add: Let_def)

lemma length_calcularResumenMensual: "length (calcularResumenMensual mx pr de) = 12"
  unfolding calcularResumenMensual_def by (simp add: length_sumarHoras)

text \<open>With the seed step over the reals, the store model returns what the seed-passing
  model returns.\<close>

lemma pasoHora_cuerpo:
  "pasoHora p n d sd sv h st =
     (let x = SeededRNG_next (rngMeteo st);
          c = cuerpoHora p n d sd sv h (fst x) st
      in ((fst c) \<lparr> rngMeteo := snd x \<rparr>, snd c))"
  unfolding pasoHora_def cuerpoHora_def Let_def by simp

lemma RNG_next_puro:
  "RNG_next pasoSemilla a m
     = (fst (SeededRNG_next (m ! a)), m[a := snd (SeededRNG_next (m ! a))])"
  by (simp add: RNG_next_def SeededRNG_next_def pasoSemilla_def Let_def)

lemma RNG_gauss_puro:
  assumes "a < length m"
  shows "RNG_gauss pasoSemilla a media sigma m
         = (fst (SeededRNG_gauss media sigma (m ! a)),
            m[a := snd (SeededRNG_gauss media sigma (m ! a))])"
  using assms
  by (simp add: RNG_gauss_def SeededRNG_gauss_def RNG_next_puro Let_def split_def)

lemma generarBloquesEn_puro:
  "a < length m \<Longrightarrow>
   generarBloquesEn pasoSemilla a h m
     = (fst (generarBloques h (m ! a)), m[a := snd (generarBloques h (m ! a))])"
proof (induction "pasoSemilla" a h m rule: generarBloquesEn.induct)
  case (1 a h m)
  show ?case
  proof (cases "h < HORAS_ANIO")
    case False
    then show ?thesis
      by (subst generarBloquesEn.simps, subst (1 2) generarBloques.simps) simp
  next
    case True
    define r1 where "r1 = SeededRNG_next (m ! a)"
    define dur where "dur = nat \<lfloor>48 + fst r1 * 120\<rfloor>"
    define r2 where "r2 = SeededRNG_next (snd r1)"
    define m1 where "m1 = m[a := snd r1]"
    define m2 where "m2 = m[a := snd r2]"
    have n1: "RNG_next pasoSemilla a m = (fst r1, m1)"
      unfolding r1_def m1_def by (rule RNG_next_puro)
    have n2: "RNG_next pasoSemilla a m1 = (fst r2, m2)"
      unfolding RNG_next_puro r2_def m2_def m1_def using 1(2) by simp
    have l2: "a < length m2" "m2 ! a = snd r2"
      unfolding m2_def using 1(2) by simp_all
    have IH: "generarBloquesEn pasoSemilla a (h + dur) m2
              = (fst (generarBloques (h + dur) (snd r2)),
                 m2[a := snd (generarBloques (h + dur) (snd r2))])"
      using "1.hyps"[OF True refl refl refl] l2 unfolding n1 snd_conv fst_conv n2 dur_def
      by simp
    have e: "generarBloquesEn pasoSemilla a h m =
               (\<lparr>inicio = h, duracion = dur, intensidad = fst r2\<rparr>
                  # fst (generarBloquesEn pasoSemilla a (h + dur) m2),
                snd (generarBloquesEn pasoSemilla a (h + dur) m2))"
      by (subst generarBloquesEn.simps) (simp add: True n1 n2 Let_def dur_def)
    have p: "generarBloques h (m ! a) =
               (\<lparr>inicio = h, duracion = dur, intensidad = fst r2\<rparr>
                  # fst (generarBloques (h + dur) (snd r2)),
                snd (generarBloques (h + dur) (snd r2)))"
      by (subst generarBloques.simps) (simp add: True Let_def dur_def r1_def r2_def)
    show ?thesis
      unfolding e p IH by (simp add: m2_def)
  qed
qed

lemma vientoHorasEn_puro:
  "a < length m \<Longrightarrow>
   \<exists>s. vientoHorasEn pasoSemilla a bl hs e m = (vientoHoras bl hs e (m ! a), m[a := s])"
proof (induction hs arbitrary: e m)
  case Nil
  have "m = m[a := m ! a]" by simp
  then show ?case by (metis vientoHorasEn.simps(1) vientoHoras.simps(1))
next
  case (Cons i hs)
  define r where "r = SeededRNG_gauss 0 0.06 (m ! a)"
  define m1 where "m1 = m[a := snd r]"
  have g: "RNG_gauss pasoSemilla a 0 0.06 m = (fst r, m1)"
    unfolding r_def m1_def by (rule RNG_gauss_puro[OF Cons.prems])
  have l: "a < length m1" "m1 ! a = snd r" unfolding m1_def using Cons.prems by simp_all
  obtain s where s: "\<And>e. \<exists>s. vientoHorasEn pasoSemilla a bl hs e m1
                             = (vientoHoras bl hs e (snd r), m1[a := s])"
    using Cons.IH[OF l(1)] unfolding l(2) by blast
  show ?case
    unfolding vientoHorasEn.simps vientoHoras.simps Let_def g r_def[symmetric] fst_conv snd_conv
    using s m1_def by (metis (no_types, lifting) fst_conv snd_conv list_update_overwrite)
qed

lemma generarSerieVientoEn_puro:
  assumes "a < length m"
  shows "\<exists>s. generarSerieVientoEn pasoSemilla a m = (generarSerieViento (m ! a), m[a := s])"
proof -
  define bl where "bl = generarBloques 0 (m ! a)"
  define m1 where "m1 = m[a := snd bl]"
  have b: "generarBloquesEn pasoSemilla a 0 m = (fst bl, m1)"
    unfolding bl_def m1_def by (rule generarBloquesEn_puro[OF assms])
  have l: "a < length m1" "m1 ! a = snd bl" unfolding m1_def using assms by simp_all
  obtain s where "vientoHorasEn pasoSemilla a (fst bl) [0..<HORAS_ANIO] 0.30 m1
                  = (vientoHoras (fst bl) [0..<HORAS_ANIO] 0.30 (snd bl), m1[a := s])"
    using vientoHorasEn_puro[OF l(1)] unfolding l(2) by blast
  then have "generarSerieVientoEn pasoSemilla a m = (generarSerieViento (m ! a), m[a := s])"
    unfolding generarSerieVientoEn_def generarSerieViento_def Let_def b bl_def[symmetric]
    by (simp add: m1_def)
  then show ?thesis ..
qed

lemma demandaHorasEn_puro:
  "a < length m \<Longrightarrow>
   \<exists>s. demandaHorasEn pasoSemilla a hs m = (demandaHoras hs (m ! a), m[a := s])"
proof (induction hs arbitrary: m)
  case Nil
  have "m = m[a := m ! a]" by simp
  then show ?case by (metis demandaHorasEn.simps(1) demandaHoras.simps(1))
next
  case (Cons i hs)
  define r where "r = SeededRNG_gauss 0 1.5 (m ! a)"
  define m1 where "m1 = m[a := snd r]"
  define n where "n = SeededRNG_next (snd r)"
  define m2 where "m2 = m[a := snd n]"
  have g: "RNG_gauss pasoSemilla a 0 1.5 m = (fst r, m1)"
    unfolding r_def m1_def by (rule RNG_gauss_puro[OF Cons.prems])
  have x: "RNG_next pasoSemilla a m1 = (fst n, m2)"
    unfolding RNG_next_puro n_def m2_def m1_def using Cons.prems by simp
  have l: "a < length m2" "m2 ! a = snd n" unfolding m2_def using Cons.prems by simp_all
  obtain s where s: "demandaHorasEn pasoSemilla a hs m2 = (demandaHoras hs (snd n), m2[a := s])"
    using Cons.IH[OF l(1)] unfolding l(2) by blast
  have "demandaHorasEn pasoSemilla a (i # hs) m = (demandaHoras (i # hs) (m ! a), m[a := s])"
    unfolding demandaHorasEn.simps demandaHoras.simps Let_def g r_def[symmetric] fst_conv snd_conv
      x n_def[symmetric] s
    by (simp add: m2_def)
  then show ?case ..
qed

lemma generarSerieDemandaEn_puro:
  assumes "a < length m"
  shows "\<exists>s. generarSerieDemandaEn pasoSemilla a m = (generarSerieDemanda (m ! a), m[a := s])"
  unfolding generarSerieDemandaEn_def generarSerieDemanda_def
  by (rule demandaHorasEn_puro[OF assms])

lemma cuerpoHora_rng:
  "cuerpoHora p n d sd sv h u (st\<lparr>rngMeteo := x\<rparr>)
     = ((fst (cuerpoHora p n d sd sv h u st))\<lparr>rngMeteo := x\<rparr>, snd (cuerpoHora p n d sd sv h u st))"
  "rngMeteo (fst (cuerpoHora p n d sd sv h u st)) = rngMeteo st"
  unfolding cuerpoHora_def Let_def by simp_all

lemma bucleHorarioEn_puro:
  "a < length m \<Longrightarrow>
   \<exists>s. bucleHorarioEn pasoSemilla p n d sD sV a hs st m
        = ((fst (bucleHorario p n d sD sV hs (st\<lparr>rngMeteo := m ! a\<rparr>)),
            (snd (bucleHorario p n d sD sV hs (st\<lparr>rngMeteo := m ! a\<rparr>)))
              \<lparr>rngMeteo := rngMeteo st\<rparr>),
           m[a := s])"
proof (induction hs arbitrary: st m)
  case Nil
  have "m = m[a := m ! a]" by simp
  moreover have "st\<lparr>rngMeteo := m ! a, rngMeteo := rngMeteo st\<rparr> = st" by simp
  ultimately have "bucleHorarioEn pasoSemilla p n d sD sV a [] st m
        = ((fst (bucleHorario p n d sD sV [] (st\<lparr>rngMeteo := m ! a\<rparr>)),
            (snd (bucleHorario p n d sD sV [] (st\<lparr>rngMeteo := m ! a\<rparr>)))
              \<lparr>rngMeteo := rngMeteo st\<rparr>),
           m[a := m ! a])"
    by simp
  then show ?case ..
next
  case (Cons h hs)
  define x where "x = SeededRNG_next (m ! a)"
  define c where "c = cuerpoHora p n d (sD ! h) (sV ! h) h (fst x) st"
  define m1 where "m1 = m[a := snd x]"
  have e: "pasoHoraEn pasoSemilla p n d (sD ! h) (sV ! h) h a st m = (c, m1)"
    unfolding pasoHoraEn_def Let_def RNG_next_puro fst_conv snd_conv x_def[symmetric]
      c_def m1_def by (rule refl)
  have l: "a < length m1" "m1 ! a = snd x"
    unfolding m1_def using Cons.prems(1) by simp_all
  have q: "pasoHora p n d (sD ! h) (sV ! h) h (st\<lparr>rngMeteo := m ! a\<rparr>)
           = ((fst c)\<lparr>rngMeteo := snd x\<rparr>, snd c)"
    unfolding pasoHora_cuerpo Let_def cuerpoHora_rng(1) c_def x_def by simp
  define B where "B = bucleHorario p n d sD sV hs ((fst c)\<lparr>rngMeteo := snd x\<rparr>)"
  obtain s where s: "bucleHorarioEn pasoSemilla p n d sD sV a hs (fst c) m1
                     = ((fst B, (snd B)\<lparr>rngMeteo := rngMeteo (fst c)\<rparr>), m1[a := s])"
    using Cons.IH[OF l(1)] unfolding l(2) B_def by blast
  have r: "rngMeteo (fst c) = rngMeteo st"
    unfolding c_def by (rule cuerpoHora_rng(2))
  have o: "m1[a := s] = m[a := s]" unfolding m1_def by simp
  have "bucleHorarioEn pasoSemilla p n d sD sV a (h # hs) st m
        = ((fst (bucleHorario p n d sD sV (h # hs) (st\<lparr>rngMeteo := m ! a\<rparr>)),
            (snd (bucleHorario p n d sD sV (h # hs) (st\<lparr>rngMeteo := m ! a\<rparr>)))
              \<lparr>rngMeteo := rngMeteo st\<rparr>),
           m[a := s])"
    unfolding bucleHorarioEn.simps bucleHorario.simps Let_def e q fst_conv snd_conv s
      B_def[symmetric] r o
    by (rule refl)
  then show ?case ..
qed

lemma agregar_rng: "agregar p (ts, st\<lparr>rngMeteo := x\<rparr>) = agregar p (ts, st)"
  unfolding agregar_def Let_def by simp

lemma simularEn_puro: "fst (simularEn pasoSemilla p m) = simular p"
proof -
  obtain sv where v: "generarSerieVientoEn pasoSemilla 0 [semilla p * 7 + 13]
                      = (generarSerieViento (semilla p * 7 + 13), [semilla p * 7 + 13][0 := sv])"
    using generarSerieVientoEn_puro[of 0 "[semilla p * 7 + 13]"] by auto
  obtain sd where d: "generarSerieDemandaEn pasoSemilla 0 [semilla p * 3 + 7]
                      = (generarSerieDemanda (semilla p * 3 + 7), [semilla p * 3 + 7][0 := sd])"
    using generarSerieDemandaEn_puro[of 0 "[semilla p * 3 + 7]"] by auto
  have i: "(estadoInicial p)\<lparr>rngMeteo := [semilla p * 11 + 37] ! 0\<rparr> = estadoInicial p"
    by (simp add: estadoInicial_def)
  define B where "B = bucleHorario p (calcularNuclearDisponible p)
        (calcularDemandaAjustada p * 1000 / real HORAS_ANIO)
        (generarSerieDemanda (semilla p * 3 + 7)) (generarSerieViento (semilla p * 7 + 13))
        [0..<HORAS_ANIO] (estadoInicial p)"
  obtain s where b: "bucleHorarioEn pasoSemilla p (calcularNuclearDisponible p)
        (calcularDemandaAjustada p * 1000 / real HORAS_ANIO)
        (generarSerieDemanda (semilla p * 3 + 7)) (generarSerieViento (semilla p * 7 + 13))
        0 [0..<HORAS_ANIO] (estadoInicial p) [semilla p * 11 + 37]
       = ((fst B, (snd B)\<lparr>rngMeteo := rngMeteo (estadoInicial p)\<rparr>),
          [semilla p * 11 + 37][0 := s])"
  proof -
    have "\<exists>s. bucleHorarioEn pasoSemilla p (calcularNuclearDisponible p)
        (calcularDemandaAjustada p * 1000 / real HORAS_ANIO)
        (generarSerieDemanda (semilla p * 3 + 7)) (generarSerieViento (semilla p * 7 + 13))
        0 [0..<HORAS_ANIO] (estadoInicial p) [semilla p * 11 + 37]
       = ((fst (bucleHorario p (calcularNuclearDisponible p)
                  (calcularDemandaAjustada p * 1000 / real HORAS_ANIO)
                  (generarSerieDemanda (semilla p * 3 + 7))
                  (generarSerieViento (semilla p * 7 + 13)) [0..<HORAS_ANIO]
                  ((estadoInicial p)\<lparr>rngMeteo := [semilla p * 11 + 37] ! 0\<rparr>)),
           (snd (bucleHorario p (calcularNuclearDisponible p)
                  (calcularDemandaAjustada p * 1000 / real HORAS_ANIO)
                  (generarSerieDemanda (semilla p * 3 + 7))
                  (generarSerieViento (semilla p * 7 + 13)) [0..<HORAS_ANIO]
                  ((estadoInicial p)\<lparr>rngMeteo := [semilla p * 11 + 37] ! 0\<rparr>)))
             \<lparr>rngMeteo := rngMeteo (estadoInicial p)\<rparr>),
          [semilla p * 11 + 37][0 := s])"
      by (rule bucleHorarioEn_puro) simp
    then show ?thesis
      unfolding i B_def[symmetric] using that by blast
  qed
  have B: "ejecutarBucle p = B"
    unfolding ejecutarBucle_def Let_def B_def by (rule refl)
  obtain s1 s2 s3 where "simularEn pasoSemilla p m =
     (agregar p (fst (bucleHorarioEn pasoSemilla p (calcularNuclearDisponible p)
                  (calcularDemandaAjustada p * 1000 / real HORAS_ANIO)
                  (fst (generarSerieDemandaEn pasoSemilla 0 [semilla p * 3 + 7]))
                  (fst (generarSerieVientoEn pasoSemilla 0 [semilla p * 7 + 13]))
                  0 [0..<HORAS_ANIO] (estadoInicial p) [semilla p * 11 + 37])),
      m @ [if semilla p = 0 then 42 else semilla p, s1, s2, s3])"
    using simularEn_forma by blast
  then have "fst (simularEn pasoSemilla p m)
             = agregar p (fst B, (snd B)\<lparr>rngMeteo := rngMeteo (estadoInicial p)\<rparr>)"
    unfolding v d fst_conv b by simp
  also have "\<dots> = agregar p (fst B, snd B)" by (rule agregar_rng)
  also have "\<dots> = simular p" unfolding simular_def B by simp
  finally show ?thesis .
qed

lemma simularEn_determinista_series:
  fixes G p m
  defines "sD \<equiv> fst (generarSerieDemandaEn G 0 [semilla p * 3 + 7])"
    and "sV \<equiv> fst (generarSerieVientoEn G 0 [semilla p * 7 + 13])"
    and "d \<equiv> calcularDemandaAjustada p * 1000 / real HORAS_ANIO"
  defines "b \<equiv> bucleHorarioEn G p (calcularNuclearDisponible p) d sD sV 0 [0..<HORAS_ANIO]
                  (estadoInicial p) [semilla p * 11 + 37]"
  shows "fst (simularEn G p m) = agregar p (fst b)"
    and "length (mix (agregar p (fst b))) = HORAS_ANIO"
    and "length (precios (agregar p (fst b))) = HORAS_ANIO"
    and "length (mensual (agregar p (fst b))) = 12"
    and "demandaHoraria (agregar p (fst b)) = map (\<lambda>x. d * x) sD"
    and "map gen_eolica (mix (agregar p (fst b))) = map (\<lambda>x. eolica p * x) sV"
    and "\<forall>h < HORAS_ANIO.
           gen_solar (mix (agregar p (fst b)) ! h)
             = solar p * calcularSolar (h div 24) (h mod 24)
                 (0.65 + ((G ^^ Suc h) (semilla p * 11 + 37)
                          - of_int \<lfloor>(G ^^ Suc h) (semilla p * 11 + 37)\<rfloor>) * 0.35)"
proof -
  show "fst (simularEn G p m) = agregar p (fst b)"
    using simularEn_forma[of G p m] unfolding b_def d_def sD_def sV_def by auto
  have lb: "length (fst (fst b)) = HORAS_ANIO"
    unfolding b_def by (simp add: length_bucleHorarioEn)
  show "length (mix (agregar p (fst b))) = HORAS_ANIO"
    "length (precios (agregar p (fst b))) = HORAS_ANIO"
    by (simp_all add: agregar_series lb)
  show "length (mensual (agregar p (fst b))) = 12"
    unfolding agregar_series by (rule length_calcularResumenMensual)
  have lD: "length sD = HORAS_ANIO"
    unfolding sD_def generarSerieDemandaEn_def by (simp add: length_demandaHorasEn)
  have lV: "length sV = HORAS_ANIO"
    unfolding sV_def generarSerieVientoEn_def Let_def by (simp add: length_vientoHorasEn)
  have s: "t_demandaGW (fst (fst b) ! h) = d * sD ! h
           \<and> gen_eolica (t_gen (fst (fst b) ! h)) = eolica p * sV ! h
           \<and> gen_solar (t_gen (fst (fst b) ! h))
               = solar p * calcularSolar (h div 24) (h mod 24)
                   (0.65 + ((G ^^ Suc h) (semilla p * 11 + 37)
                            - of_int \<lfloor>(G ^^ Suc h) (semilla p * 11 + 37)\<rfloor>) * 0.35)"
    if "h < HORAS_ANIO" for h
    using bucleEn_series[of h "[0..<HORAS_ANIO]" 0 "[semilla p * 11 + 37]" G p
        "calcularNuclearDisponible p" d sD sV "estadoInicial p"] that
    unfolding b_def by simp
  show "demandaHoraria (agregar p (fst b)) = map (\<lambda>x. d * x) sD"
    by (rule nth_equalityI) (simp_all add: agregar_series lb lD s)
  show "map gen_eolica (mix (agregar p (fst b))) = map (\<lambda>x. eolica p * x) sV"
    by (rule nth_equalityI) (simp_all add: agregar_series lb lV s)
  show "\<forall>h < HORAS_ANIO.
           gen_solar (mix (agregar p (fst b)) ! h)
             = solar p * calcularSolar (h div 24) (h mod 24)
                 (0.65 + ((G ^^ Suc h) (semilla p * 11 + 37)
                          - of_int \<lfloor>(G ^^ Suc h) (semilla p * 11 + 37)\<rfloor>) * 0.35)"
    using s lb by (simp add: agregar_series)
qed

text \<open>
  C1. The results of an execution of \<^verbatim>\<open>simular()\<close> do not depend on the store it is started
  in: whatever generator objects earlier executions have left behind, and whatever the
  seed step \<^verbatim>\<open>Math.sin(seed * 9301 + 49297) * 49271\<close> evaluates to (\<open>G\<close>, the same function in
  both executions), any two executions with the same parameters, and in particular two
  executions in a row on the same simulator, return the same results in every field: the
  counters, the 8760-entry generation-mix array, the 8760-entry price array and the
  12-entry monthly summary. An execution leaves every object it finds untouched and adds
  four of its own, the first of which, created with \<^verbatim>\<open>p.semilla || 42\<close>, it never advances.
  The results are those of the hourly loop run on three generators of their own, seeded
  with seed \<times> 3 + 7, seed \<times> 7 + 13 and seed \<times> 11 + 37, and the base seed enters them through
  these only: the demand array is the mean demand times the series drawn from the first,
  the wind generation of every hour is the installed wind capacity times the series drawn
  from the second, and the solar generation of hour h is computed with the cloud factor
  that draw h + 1 of the third gives. With the seed step over the reals these are the
  results \<open>simular p\<close> of the seed-passing model.
\<close>

theorem simular_determinista:
  "fst (simularEn G p m) = fst (simularEn G p m')
   \<and> fst (simularEn G p (snd (simularEn G p m))) = fst (simularEn G p m)
   \<and> (\<exists>s1 s2 s3. snd (simularEn G p m)
                     = m @ [if semilla p = 0 then 42 else semilla p, s1, s2, s3])
   \<and> fst (simularEn G p m)
       = agregar p (fst (bucleHorarioEn G p (calcularNuclearDisponible p)
                     (calcularDemandaAjustada p * 1000 / real HORAS_ANIO)
                     (fst (generarSerieDemandaEn G 0 [semilla p * 3 + 7]))
                     (fst (generarSerieVientoEn G 0 [semilla p * 7 + 13]))
                     0 [0..<HORAS_ANIO] (estadoInicial p) [semilla p * 11 + 37]))
   \<and> length (mix (fst (simularEn G p m))) = 8760
   \<and> length (precios (fst (simularEn G p m))) = 8760
   \<and> length (mensual (fst (simularEn G p m))) = 12
   \<and> demandaHoraria (fst (simularEn G p m))
       = map (\<lambda>x. calcularDemandaAjustada p * 1000 / real HORAS_ANIO * x)
           (fst (generarSerieDemandaEn G 0 [semilla p * 3 + 7]))
   \<and> map gen_eolica (mix (fst (simularEn G p m)))
       = map (\<lambda>x. eolica p * x) (fst (generarSerieVientoEn G 0 [semilla p * 7 + 13]))
   \<and> (\<forall>h < HORAS_ANIO.
        gen_solar (mix (fst (simularEn G p m)) ! h)
          = solar p * calcularSolar (h div 24) (h mod 24)
              (0.65 + ((G ^^ Suc h) (semilla p * 11 + 37)
                       - of_int \<lfloor>(G ^^ Suc h) (semilla p * 11 + 37)\<rfloor>) * 0.35))
   \<and> fst (simularEn pasoSemilla p m) = simular p"
proof -
  note S = simularEn_determinista_series[where G = G and p = p]
  have r: "fst (simularEn G p x) = fst (simularEn G p m)" for x
    unfolding S(1) by (rule refl)
  have a: "fst (simularEn G p m) = fst (simularEn G p m')"
    by (rule r[symmetric])
  have b: "fst (simularEn G p (snd (simularEn G p m))) = fst (simularEn G p m)"
    by (rule r)
  have c: "\<exists>s1 s2 s3. snd (simularEn G p m)
                     = m @ [if semilla p = 0 then 42 else semilla p, s1, s2, s3]"
    using simularEn_forma[of G p m] by auto
  have l: "length (mix (fst (simularEn G p m))) = 8760"
    "length (precios (fst (simularEn G p m))) = 8760"
    unfolding S(1) S(2) S(3) by (simp_all add: HORAS_ANIO_def)
  have k: "length (mensual (fst (simularEn G p m))) = 12"
    unfolding S(1) by (rule S(4))
  have d: "demandaHoraria (fst (simularEn G p m))
       = map (\<lambda>x. calcularDemandaAjustada p * 1000 / real HORAS_ANIO * x)
           (fst (generarSerieDemandaEn G 0 [semilla p * 3 + 7]))"
    unfolding S(1) by (rule S(5))
  have e: "map gen_eolica (mix (fst (simularEn G p m)))
       = map (\<lambda>x. eolica p * x) (fst (generarSerieVientoEn G 0 [semilla p * 7 + 13]))"
    unfolding S(1) by (rule S(6))
  have f: "\<forall>h < HORAS_ANIO.
        gen_solar (mix (fst (simularEn G p m)) ! h)
          = solar p * calcularSolar (h div 24) (h mod 24)
              (0.65 + ((G ^^ Suc h) (semilla p * 11 + 37)
                       - of_int \<lfloor>(G ^^ Suc h) (semilla p * 11 + 37)\<rfloor>) * 0.35)"
    unfolding S(1) by (rule S(7))
  show ?thesis
    using a b c S(1)[where m = m] l k d e f simularEn_puro[of p m] by blast
qed

theorem simular_determinista_witness:
  "fst (simularEn pasoSemilla PARAMS_DEFAULT [])
     = fst (simularEn pasoSemilla PARAMS_DEFAULT [1 / 2, 7])
   \<and> fst (simularEn pasoSemilla PARAMS_DEFAULT (snd (simularEn pasoSemilla PARAMS_DEFAULT [])))
       = fst (simularEn pasoSemilla PARAMS_DEFAULT [])
   \<and> (\<exists>s1 s2 s3. snd (simularEn pasoSemilla PARAMS_DEFAULT []) = [42, s1, s2, s3])
   \<and> (12::nat) < HORAS_ANIO
   \<and> gen_solar (mix (fst (simularEn pasoSemilla PARAMS_DEFAULT [])) ! 12)
       = 25 * calcularSolar 0 12
           (0.65 + ((pasoSemilla ^^ 13) 499 - of_int \<lfloor>(pasoSemilla ^^ 13) 499\<rfloor>) * 0.35)
   \<and> fst (simularEn pasoSemilla PARAMS_DEFAULT []) = simular PARAMS_DEFAULT"
proof -
  note T = simular_determinista[of pasoSemilla PARAMS_DEFAULT "[]" "[1 / 2, 7]"]
  have s: "semilla PARAMS_DEFAULT = 42" "solar PARAMS_DEFAULT = 25"
    by (simp_all add: PARAMS_DEFAULT_def)
  have h: "(12::nat) < HORAS_ANIO" by (simp add: HORAS_ANIO_def)
  have a: "fst (simularEn pasoSemilla PARAMS_DEFAULT [])
           = fst (simularEn pasoSemilla PARAMS_DEFAULT [1 / 2, 7])"
    using T by (rule conjunct1)
  have b: "fst (simularEn pasoSemilla PARAMS_DEFAULT
                  (snd (simularEn pasoSemilla PARAMS_DEFAULT [])))
           = fst (simularEn pasoSemilla PARAMS_DEFAULT [])"
    using T by blast
  have c: "fst (simularEn pasoSemilla PARAMS_DEFAULT []) = simular PARAMS_DEFAULT"
    using T by blast
  have "\<exists>s1 s2 s3. snd (simularEn pasoSemilla PARAMS_DEFAULT [])
                    = [] @ [if semilla PARAMS_DEFAULT = 0 then 42 else semilla PARAMS_DEFAULT,
                            s1, s2, s3]"
    using T by blast
  then have d: "\<exists>s1 s2 s3. snd (simularEn pasoSemilla PARAMS_DEFAULT []) = [42, s1, s2, s3]"
    unfolding s by simp
  have "\<forall>h < HORAS_ANIO.
        gen_solar (mix (fst (simularEn pasoSemilla PARAMS_DEFAULT [])) ! h)
          = solar PARAMS_DEFAULT * calcularSolar (h div 24) (h mod 24)
              (0.65 + ((pasoSemilla ^^ Suc h) (semilla PARAMS_DEFAULT * 11 + 37)
                       - of_int \<lfloor>(pasoSemilla ^^ Suc h) (semilla PARAMS_DEFAULT * 11 + 37)\<rfloor>)
                      * 0.35)"
    using T by blast
  then have "gen_solar (mix (fst (simularEn pasoSemilla PARAMS_DEFAULT [])) ! 12)
          = solar PARAMS_DEFAULT * calcularSolar (12 div 24) (12 mod 24)
              (0.65 + ((pasoSemilla ^^ Suc 12) (semilla PARAMS_DEFAULT * 11 + 37)
                       - of_int \<lfloor>(pasoSemilla ^^ Suc 12) (semilla PARAMS_DEFAULT * 11 + 37)\<rfloor>)
                      * 0.35)"
    using h by blast
  moreover have "Suc 12 = 13" "(12::nat) div 24 = 0" "(12::nat) mod 24 = 12"
    "(42::real) * 11 + 37 = 499"
    by simp_all
  ultimately have e: "gen_solar (mix (fst (simularEn pasoSemilla PARAMS_DEFAULT [])) ! 12)
       = 25 * calcularSolar 0 12
           (0.65 + ((pasoSemilla ^^ 13) 499 - of_int \<lfloor>(pasoSemilla ^^ 13) 499\<rfloor>) * 0.35)"
    unfolding s by metis
  show ?thesis
    using a b c d e h by blast
qed

end
